theory Spec2Isabelle
  imports Complex_Main "HOL-Library.Char_ord" "HOL-Library.List_Lexorder"
begin

section \<open>Roadmap generator: data model\<close>

text \<open>
  The development embeds \<^verbatim>\<open>lib.py\<close>: the issue normaliser
  (\<^verbatim>\<open>get_roadmap_issues\<close>), the request builders
  (\<^verbatim>\<open>gen_header_slide_req\<close>, \<^verbatim>\<open>gen_roadmap_slide_req\<close>,
  \<^verbatim>\<open>gen_roadmap_item_req\<close>) and the column allocation loop of
  \<^verbatim>\<open>populate_roadmap_with_issues\<close>.

  Conventions of the embedding.
  \<^item> Python numbers that describe geometry are exact rationals (\<open>rat\<close>); \<open>/\<close> is
    Python's true division, and a division whose divisor can be zero is guarded by an
    explicit \<open>ZeroDivisionError\<close> branch.
  \<^item> Every \<^verbatim>\<open>raise\<close> and every failing built-in is a value \<open>Inl e\<close> of \<open>error + 'a\<close>.
  \<^item> \<^verbatim>\<open>str(uuid.uuid4())\<close> draws the next identifier from a supply \<open>U :: nat \<Rightarrow> string\<close>;
    the number of identifiers drawn so far is passed through every builder.
  \<^item> Request bodies are the nested dictionaries and lists of the source, as values of
    the type \<open>json\<close>, keys in source order.
\<close>

datatype error =
    Exception string
  | AttributeError string
  | KeyError string
  | ZeroDivisionError

datatype json =
    JNum rat
  | JStr string
  | JBool bool
  | JArr "json list"
  | JObj "(string \<times> json) list"

text \<open>Reading a request body: \<open>jget\<close> is \<^verbatim>\<open>d[k]\<close> on a dictionary value,
  \<open>jpath\<close> a chain of such subscripts; both give \<open>None\<close> where Python would raise.\<close>

fun jget :: "json \<Rightarrow> string \<Rightarrow> json option" where
  "jget (JObj kvs) k = map_of kvs k"
| "jget _ k = None"

fun jpath :: "json \<Rightarrow> string list \<Rightarrow> json option" where
  "jpath j [] = Some j"
| "jpath j (k # ks) = (case jget j k of None \<Rightarrow> None | Some j' \<Rightarrow> jpath j' ks)"

subsection \<open>Issues\<close>

text \<open>The dataclass \<^verbatim>\<open>JiraRoadmapIssue\<close>.\<close>

record JiraRoadmapIssue =
  jira_id :: string
  product_categories :: "string list"
  jira_quarter :: string
  jira_link :: string
  summary :: string
  description :: string
  beta :: bool

text \<open>
  The Python values an attribute of \<^verbatim>\<open>issue.fields\<close> can hold: \<^verbatim>\<open>None\<close>, a
  boolean, a text, a number, a list, or an object with named attributes of its own (a
  select option of Jira is an object whose attribute \<^verbatim>\<open>value\<close> is a text).
  \<open>truthy\<close> is the truth value Python gives a value in a condition: \<^verbatim>\<open>None\<close>,
  \<^verbatim>\<open>False\<close>, the empty text, zero and the empty list are false, everything else
  is true. \<open>dot_value\<close> is the attribute access \<^verbatim>\<open>x.value\<close>: only an object that has
  an attribute of that name answers, every other value raises \<^verbatim>\<open>AttributeError\<close>.
\<close>

datatype py_value =
    PyNone
  | PyBool bool
  | PyStr string
  | PyNum rat
  | PyList "py_value list"
  | PyObj "(string \<times> py_value) list"

fun truthy :: "py_value \<Rightarrow> bool" where
  "truthy PyNone = False"
| "truthy (PyBool b) = b"
| "truthy (PyStr s) = (s \<noteq> [])"
| "truthy (PyNum x) = (x \<noteq> 0)"
| "truthy (PyList xs) = (xs \<noteq> [])"
| "truthy (PyObj attrs) = True"

fun dot_value :: "py_value \<Rightarrow> error + py_value" where
  "dot_value (PyObj attrs) =
     (case map_of attrs ''value'' of
        None \<Rightarrow> Inl (AttributeError ''value'')
      | Some v \<Rightarrow> Inr v)"
| "dot_value _ = Inl (AttributeError ''value'')"

text \<open>
  What the normaliser reads from one Jira issue: \<^verbatim>\<open>issue_id.id\<close>,
  \<^verbatim>\<open>issue.permalink()\<close> and, of \<^verbatim>\<open>issue.fields\<close>, the summary, the description
  (\<open>None\<close> when Jira has none), the status name, the component names and the labels.
  \<open>fields_attrs\<close> lists the attributes that \<^verbatim>\<open>getattr(issue.fields, name)\<close> can
  reach, each with its value; a name that is not listed is not an attribute of the
  object.
\<close>

record raw_issue =
  issue_id_id :: string
  permalink :: string
  fields_summary :: string
  fields_description :: "string option"
  fields_status_name :: string
  fields_components :: "string list"
  fields_labels :: "string list"
  fields_attrs :: "(string \<times> py_value) list"

section \<open>Issue normaliser\<close>

text \<open>\<^verbatim>\<open>category.startswith(prefix)\<close> and \<^verbatim>\<open>category[len(prefix):]\<close>.\<close>

definition startswith :: "string \<Rightarrow> string \<Rightarrow> bool" where
  "startswith s p \<longleftrightarrow> take (length p) s = p"

fun filter_categories :: "string \<Rightarrow> string list \<Rightarrow> string list" where
  "filter_categories product_category_prefix [] = []"
| "filter_categories product_category_prefix (category # issue_categories) =
     (if startswith category product_category_prefix
      then drop (length product_category_prefix) category
             # filter_categories product_category_prefix issue_categories
      else filter_categories product_category_prefix issue_categories)"

text \<open>\<^verbatim>\<open>getattr(issue.fields, beta_attribute_name)\<close>, without a default: a name that is
  not an attribute raises \<^verbatim>\<open>AttributeError\<close>.\<close>

definition getattr_fields :: "raw_issue \<Rightarrow> string \<Rightarrow> error + py_value" where
  "getattr_fields issue name =
     (case map_of (fields_attrs issue) name of
        None \<Rightarrow> Inl (AttributeError name)
      | Some v \<Rightarrow> Inr v)"

text \<open>The message of the exception raised for an unknown category mode.\<close>

definition invalid_mode_message :: "string \<Rightarrow> string" where
  "invalid_mode_message product_category_mode =
     ''product_category_mode: '' @ [CHR 0x27] @ product_category_mode @ [CHR 0x27]
       @ '' is not valid. Choose from either '' @ [CHR 0x27] @ ''components'' @ [CHR 0x27]
       @ '' or '' @ [CHR 0x27] @ ''labels'' @ [CHR 0x27]"

definition no_issues_message :: string where
  "no_issues_message = ''No jira issues were found with the provided JQL Filter''"

text \<open>
  The condition \<^verbatim>\<open>flag and beta_attr and beta_attr.value == "Beta"\<close>, evaluated
  from left to right: \<^verbatim>\<open>beta_attr.value\<close> is read only when \<open>flag\<close> is true and
  \<open>beta_attr\<close> is truthy, and raises when \<open>beta_attr\<close> has no such attribute.
\<close>

definition beta_condition :: "bool \<Rightarrow> py_value \<Rightarrow> error + bool" where
  "beta_condition flag beta_attr =
     (if \<not> flag then Inr False
      else if \<not> truthy beta_attr then Inr False
      else (case dot_value beta_attr of
              Inl e \<Rightarrow> Inl e
            | Inr v \<Rightarrow> Inr (v = PyStr ''Beta'')))"

text \<open>
  One pass of the body of the \<^verbatim>\<open>for issue_id in roadmap_issue_ids\<close> loop.
  \<open>Inl e\<close>: the pass raises; \<open>Inr None\<close>: the pass ends in \<^verbatim>\<open>continue\<close>;
  \<open>Inr (Some r)\<close>: \<open>r\<close> is appended to \<^verbatim>\<open>roadmap_issues\<close>.
\<close>

definition normalize_issue ::
  "string \<Rightarrow> string \<Rightarrow> bool \<Rightarrow> string \<Rightarrow> raw_issue \<Rightarrow> error + JiraRoadmapIssue option" where
  "normalize_issue product_category_mode product_category_prefix include_beta
       beta_attribute_name issue =
     (case (if product_category_mode = ''components'' then Inr (fields_components issue)
            else if product_category_mode = ''labels'' then Inr (fields_labels issue)
            else Inl (Exception (invalid_mode_message product_category_mode))) of
        Inl e \<Rightarrow> Inl e
      | Inr issue_categories \<Rightarrow>
          let filtered_categories = filter_categories product_category_prefix issue_categories;
              fields_description' =
                (case fields_description issue of
                   None \<Rightarrow> ''''
                 | Some d \<Rightarrow> (if d = '''' then '''' else d))
          in (case getattr_fields issue beta_attribute_name of
                Inl e \<Rightarrow> Inl e
              | Inr beta_attr \<Rightarrow>
                  (case beta_condition include_beta beta_attr of
                     Inl e \<Rightarrow> Inl e
                   | Inr is_beta_included \<Rightarrow>
                       if is_beta_included
                       then Inr (Some \<lparr>jira_id = issue_id_id issue,
                                        product_categories = filtered_categories,
                                        jira_quarter = fields_status_name issue,
                                        jira_link = permalink issue,
                                        summary = fields_summary issue,
                                        description = fields_description',
                                        beta = True\<rparr>)
                       else
                         (case beta_condition (\<not> include_beta) beta_attr of
                            Inl e \<Rightarrow> Inl e
                          | Inr is_beta_excluded \<Rightarrow>
                              if is_beta_excluded
                              then Inr None
                              else Inr (Some \<lparr>jira_id = issue_id_id issue,
                                               product_categories = filtered_categories,
                                               jira_quarter = fields_status_name issue,
                                               jira_link = permalink issue,
                                               summary = fields_summary issue,
                                               description = fields_description',
                                               beta = False\<rparr>)))))"

text \<open>The loop: the first raising pass ends it; the appended issues keep the order of
  the query result.\<close>

fun normalize_all ::
  "string \<Rightarrow> string \<Rightarrow> bool \<Rightarrow> string \<Rightarrow> raw_issue list \<Rightarrow> error + JiraRoadmapIssue list" where
  "normalize_all mode prefix include_beta beta_attribute_name [] = Inr []"
| "normalize_all mode prefix include_beta beta_attribute_name (issue # rest) =
     (case normalize_issue mode prefix include_beta beta_attribute_name issue of
        Inl e \<Rightarrow> Inl e
      | Inr r \<Rightarrow>
          (case normalize_all mode prefix include_beta beta_attribute_name rest of
             Inl e \<Rightarrow> Inl e
           | Inr rs \<Rightarrow> Inr ((case r of None \<Rightarrow> [] | Some i \<Rightarrow> [i]) @ rs)))"

text \<open>
  \<^verbatim>\<open>get_roadmap_issues\<close>. The first argument is the result of
  \<^verbatim>\<open>jira_service.search_issues\<close> with every issue fetched; the query itself is
  outside the embedding.
\<close>

definition get_roadmap_issues ::
  "raw_issue list \<Rightarrow> string \<Rightarrow> string \<Rightarrow> bool \<Rightarrow> string \<Rightarrow> error + JiraRoadmapIssue list" where
  "get_roadmap_issues roadmap_issue_ids product_category_mode product_category_prefix
       include_beta beta_attribute_name =
     (if roadmap_issue_ids \<noteq> []
      then normalize_all product_category_mode product_category_prefix include_beta
             beta_attribute_name roadmap_issue_ids
      else Inl (Exception no_issues_message))"

section \<open>Configuration\<close>

text \<open>
  The configuration \<^verbatim>\<open>roadmap_slide_config\<close> is a dictionary of dictionaries.
  Each inner dictionary is a record whose fields are the keys the source reads, named
  after the key with a prefix for the dictionary (\<open>lh_\<close> for \<^verbatim>\<open>left_header\<close>,
  \<open>lm_\<close> for \<^verbatim>\<open>left_main\<close>, \<open>ta_\<close> for \<^verbatim>\<open>timeline_arrow\<close>,
  \<open>qm_\<close> for \<^verbatim>\<open>quarter_marker\<close>, \<open>rb_\<close> for \<^verbatim>\<open>roadmap_box\<close>).
  A bound variable that would carry the name of a record field is written with a
  prime (\<open>description'\<close>, \<open>beta'\<close>).
  The outer dictionary is a record of optional entries, \<open>None\<close> for a key that is
  missing, so that \<^verbatim>\<open>roadmap_slide_config[key]\<close> can raise \<^verbatim>\<open>KeyError\<close>.
\<close>

record left_header_config =
  lh_locx :: rat
  lh_locy :: rat
  lh_width :: rat
  lh_height :: rat
  lh_shape_type :: string
  lh_color :: string
  lh_font_size :: rat

record left_main_config =
  lm_locy :: rat
  lm_width :: rat
  lm_height :: rat
  lm_shape_type :: string
  lm_color :: string
  lm_text :: string
  lm_font_size :: rat

record timeline_arrow_config =
  ta_width :: rat
  ta_color :: string
  ta_weight :: rat

record quarter_marker_config =
  qm_width :: rat
  qm_height :: rat
  qm_shape_type :: string
  qm_color :: string
  qm_font :: string
  qm_font_size :: rat
  qm_font_color :: string

record roadmap_box_config =
  rb_height :: rat
  rb_x_padding :: rat
  rb_y_padding :: rat
  rb_description_length :: int
  rb_shape_type :: string
  rb_outline_color :: string
  rb_fill_color :: string
  rb_font_size :: rat
  rb_beta_label_outline_color :: string
  rb_beta_label_color :: string
  rb_beta_label_font_size :: rat
  rb_beta_label_font_color :: string

text \<open>One entry of \<^verbatim>\<open>columns\<close>. The key \<^verbatim>\<open>count\<close> is the one that
  \<^verbatim>\<open>populate_roadmap_with_issues\<close> writes into the entry. The entries of the list
  are separate dictionaries, as they are in a configuration read from a file: writing
  the count of one entry leaves the others as they are.\<close>

record column =
  label :: string
  jira_statuses :: "string list"
  count :: nat

text \<open>The keyword arguments of \<^verbatim>\<open>get_roadmap_issues\<close> held under the key
  \<^verbatim>\<open>jira_roadmap_issues\<close> (fields prefixed \<open>kw_\<close>).\<close>

record jira_roadmap_issues_config =
  kw_jira_project :: string
  kw_issue_type :: string
  kw_product_category_mode :: string
  kw_product_category_prefix :: string
  kw_include_beta :: bool
  kw_beta_attribute_name :: string

record roadmap_slide_config =
  left_header :: "left_header_config option"
  left_main :: "left_main_config option"
  timeline_arrow :: "timeline_arrow_config option"
  quarter_marker :: "quarter_marker_config option"
  quarters :: "json option"
  roadmap_box :: "roadmap_box_config option"
  columns :: "column list option"
  jira_roadmap_issues :: "jira_roadmap_issues_config option"

text \<open>\<^verbatim>\<open>d[key]\<close> on the outer dictionary.\<close>

definition dict_get :: "string \<Rightarrow> 'a option \<Rightarrow> error + 'a" where
  "dict_get key entry = (case entry of None \<Rightarrow> Inl (KeyError key) | Some v \<Rightarrow> Inr v)"

section \<open>Request builders\<close>

subsection \<open>Roadmap item box\<close>

text \<open>The initial \<^verbatim>\<open>request_body\<close> of \<^verbatim>\<open>gen_roadmap_item_req\<close>: the six requests of the box itself.\<close>

definition item_request_body :: "roadmap_box_config \<Rightarrow> string \<Rightarrow> string \<Rightarrow> json \<Rightarrow> json \<Rightarrow> rat \<Rightarrow> rat \<Rightarrow> string \<Rightarrow> string \<Rightarrow> string \<Rightarrow> json list" where
  "item_request_body roadmap_box_config element_id page_id ptHeight ptWidth locx locy tagline description' link =
    [
    JObj [
      (''createShape'', JObj [
        (''objectId'', JStr element_id),
        (''shapeType'', JStr (rb_shape_type roadmap_box_config)),
        (''elementProperties'', JObj [
          (''pageObjectId'', JStr page_id),
          (''size'', JObj [(''height'', ptHeight), (''width'', ptWidth)]),
          (''transform'', JObj [
            (''scaleX'', JNum 1),
            (''scaleY'', JNum 1),
            (''translateX'', JNum locx),
            (''translateY'', JNum locy),
            (''unit'', JStr ''PT'')])])])],
    JObj [
      (''updateShapeProperties'', JObj [
        (''fields'', JStr ''contentAlignment,                     outline.outlineFill.solidFill.color.themeColor,                     link.url,                     shapeBackgroundFill.solidFill.color.themeColor''),
        (''objectId'', JStr element_id),
        (''shapeProperties'', JObj [
          (''contentAlignment'', JStr ''TOP''),
          (''outline'', JObj [
            (''outlineFill'', JObj [
              (''solidFill'', JObj [
                (''color'', JObj [(''themeColor'', JStr (rb_outline_color roadmap_box_config))])])])]),
          (''link'', JObj [(''url'', JStr link)]),
          (''shapeBackgroundFill'', JObj [
            (''solidFill'', JObj [
              (''color'', JObj [(''themeColor'', JStr (rb_fill_color roadmap_box_config))])])])])])],
    JObj [
      (''insertText'', JObj [
        (''objectId'', JStr element_id),
        (''insertionIndex'', JNum 0),
        (''text'', JStr (tagline @ [CHR 0x0A] @ description'))])],
    JObj [
      (''updateTextStyle'', JObj [
        (''fields'', JStr ''bold, fontFamily, fontSize.magnitude, fontSize.unit''),
        (''objectId'', JStr element_id),
        (''style'', JObj [
          (''fontFamily'', JStr ''Manrope''),
          (''fontSize'', JObj [
            (''magnitude'', JNum (rb_font_size roadmap_box_config)),
            (''unit'', JStr ''PT'')])])])],
    JObj [
      (''updateParagraphStyle'', JObj [
        (''fields'', JStr ''alignment''),
        (''objectId'', JStr element_id),
        (''style'', JObj [(''alignment'', JStr ''START'')])])],
    JObj [
      (''updateTextStyle'', JObj [
        (''fields'', JStr ''bold''),
        (''objectId'', JStr element_id),
        (''style'', JObj [(''bold'', JBool True)]),
        (''textRange'', JObj [
          (''endIndex'', JNum (of_nat (length tagline))),
          (''startIndex'', JNum 0),
          (''type'', JStr ''FIXED_RANGE'')])])]]"

text \<open>The list \<^verbatim>\<open>beta_flag_req_body\<close>: the five requests of the beta badge.\<close>

definition beta_flag_req_body :: "roadmap_box_config \<Rightarrow> string \<Rightarrow> string \<Rightarrow> rat \<Rightarrow> rat \<Rightarrow> rat \<Rightarrow> json list" where
  "beta_flag_req_body roadmap_box_config beta_flag_element_id page_id width locx locy =
    [
    JObj [
      (''createShape'', JObj [
        (''objectId'', JStr beta_flag_element_id),
        (''shapeType'', JStr ''FLOW_CHART_TERMINATOR''),
        (''elementProperties'', JObj [
          (''pageObjectId'', JStr page_id),
          (''size'', JObj [
            (''height'', JObj [
              (''magnitude'', JNum (rb_height roadmap_box_config / (9 / 2))),
              (''unit'', JStr ''PT'')]),
            (''width'', JObj [(''magnitude'', JNum (width / 7)), (''unit'', JStr ''PT'')])]),
          (''transform'', JObj [
            (''scaleX'', JNum 1),
            (''scaleY'', JNum 1),
            (''translateX'', JNum (locx + width * 6 / 7 - 2)),
            (''translateY'', JNum (locy + 2)),
            (''unit'', JStr ''PT'')])])])],
    JObj [
      (''updateShapeProperties'', JObj [
        (''fields'', JStr ''contentAlignment,                         outline.outlineFill.solidFill.color.themeColor,                         shapeBackgroundFill.solidFill.color.themeColor''),
        (''objectId'', JStr beta_flag_element_id),
        (''shapeProperties'', JObj [
          (''contentAlignment'', JStr ''MIDDLE''),
          (''outline'', JObj [
            (''outlineFill'', JObj [
              (''solidFill'', JObj [
                (''color'', JObj [
                  (''themeColor'', JStr (rb_beta_label_outline_color roadmap_box_config))])])])]),
          (''shapeBackgroundFill'', JObj [
            (''solidFill'', JObj [
              (''color'', JObj [(''themeColor'', JStr (rb_beta_label_color roadmap_box_config))])])])])])],
    JObj [
      (''insertText'', JObj [
        (''objectId'', JStr beta_flag_element_id),
        (''insertionIndex'', JNum 0),
        (''text'', JStr ''beta'')])],
    JObj [
      (''updateTextStyle'', JObj [
        (''fields'', JStr ''bold, fontFamily, fontSize.magnitude, fontSize.unit, foregroundColor.opaqueColor.themeColor''),
        (''objectId'', JStr beta_flag_element_id),
        (''style'', JObj [
          (''fontFamily'', JStr ''Manrope''),
          (''fontSize'', JObj [
            (''magnitude'', JNum (rb_beta_label_font_size roadmap_box_config)),
            (''unit'', JStr ''PT'')]),
          (''foregroundColor'', JObj [
            (''opaqueColor'', JObj [(''themeColor'', JStr (rb_beta_label_font_color roadmap_box_config))])])])])],
    JObj [
      (''updateParagraphStyle'', JObj [
        (''fields'', JStr ''alignment''),
        (''objectId'', JStr beta_flag_element_id),
        (''style'', JObj [(''alignment'', JStr ''CENTER'')])])]]"

text \<open>
  \<^verbatim>\<open>gen_roadmap_item_req\<close>. The last argument is the number of identifiers drawn
  before the call; the result is the request body, the identifier of the box and the
  number of identifiers drawn after the call.

  Two remarks of the source do not describe what it computes. The comment
  \<^verbatim>\<open># Properties for all roadmap item boxes\<close> introduces a constant
  \<^verbatim>\<open>SHAPE_TYPE='ROUND_RECTANGLE'\<close> that is never read: the shape type of the box
  is the configured \<^verbatim>\<open>roadmap_box_config["shape_type"]\<close>. The docstring calls
  \<^verbatim>\<open>width\<close> an integer width in pixels: the caller passes the quotient of a true
  division, and the request gives it the unit \<^verbatim>\<open>PT\<close>.
\<close>

definition gen_roadmap_item_req ::
  "(nat \<Rightarrow> string) \<Rightarrow> string \<Rightarrow> rat \<Rightarrow> rat \<Rightarrow> rat \<Rightarrow> roadmap_box_config \<Rightarrow> string \<Rightarrow> string
     \<Rightarrow> string \<Rightarrow> bool \<Rightarrow> nat \<Rightarrow> (json list \<times> string) \<times> nat" where
  "gen_roadmap_item_req U page_id width locx locy roadmap_box_config tagline description'
       link beta' n =
     (let ptHeight = JObj [(''magnitude'', JNum (rb_height roadmap_box_config)),
                           (''unit'', JStr ''PT'')];
          ptWidth = JObj [(''magnitude'', JNum width), (''unit'', JStr ''PT'')];
          element_id = U n;
          request_body = item_request_body roadmap_box_config element_id page_id ptHeight
                           ptWidth locx locy tagline description' link
      in if beta'
         then let beta_flag_element_id = U (n + 1)
              in ((request_body
                     @ beta_flag_req_body roadmap_box_config beta_flag_element_id page_id
                         width locx locy,
                   element_id), n + 2)
         else ((request_body, element_id), n + 1))"

subsection \<open>Header slide and roadmap skeleton slide\<close>

text \<open>The list \<^verbatim>\<open>request_body\<close> of \<^verbatim>\<open>gen_header_slide_req\<close>.\<close>

definition header_request_body :: "string \<Rightarrow> string \<Rightarrow> string \<Rightarrow> json list" where
  "header_request_body title titleId slideId =
    [
    JObj [
      (''createSlide'', JObj [
        (''objectId'', JStr slideId),
        (''slideLayoutReference'', JObj [(''predefinedLayout'', JStr ''SECTION_HEADER'')]),
        (''placeholderIdMappings'', JArr [
          JObj [
            (''objectId'', JStr titleId),
            (''layoutPlaceholder'', JObj [(''type'', JStr ''TITLE''), (''index'', JNum 0)])]])])],
    JObj [(''insertText'', JObj [(''objectId'', JStr titleId), (''text'', JStr title)])]]"

text \<open>\<^verbatim>\<open>gen_header_slide_req\<close>: two identifiers are drawn, the title's first.\<close>

definition gen_header_slide_req ::
  "(nat \<Rightarrow> string) \<Rightarrow> string \<Rightarrow> nat \<Rightarrow> (json list \<times> string) \<times> nat" where
  "gen_header_slide_req U title n =
     (let titleId = U n;
          slideId = U (n + 1)
      in ((header_request_body title titleId slideId, slideId), n + 2))"

text \<open>The lists that \<^verbatim>\<open>gen_roadmap_slide_req\<close> concatenates, each under the name of its local variable.\<close>

definition slide_req :: "string \<Rightarrow> string \<Rightarrow> json list" where
  "slide_req slide_id title_id =
    [
    JObj [
      (''createSlide'', JObj [
        (''objectId'', JStr slide_id),
        (''slideLayoutReference'', JObj [(''predefinedLayout'', JStr ''TITLE_AND_TWO_COLUMNS'')]),
        (''placeholderIdMappings'', JArr [
          JObj [
            (''objectId'', JStr title_id),
            (''layoutPlaceholder'', JObj [(''type'', JStr ''TITLE''), (''index'', JNum 0)])]])])]]"

definition title_req :: "string \<Rightarrow> string \<Rightarrow> json list" where
  "title_req title_id title =
    [
    JObj [(''insertText'', JObj [(''objectId'', JStr title_id), (''text'', JStr title)])]]"

definition left_main_req :: "left_main_config \<Rightarrow> string \<Rightarrow> string \<Rightarrow> rat \<Rightarrow> json list" where
  "left_main_req left_main_config slide_id left_main_element_id left_main_locx =
    [
    JObj [
      (''createShape'', JObj [
        (''objectId'', JStr left_main_element_id),
        (''shapeType'', JStr (lm_shape_type left_main_config)),
        (''elementProperties'', JObj [
          (''pageObjectId'', JStr slide_id),
          (''size'', JObj [
            (''height'', JObj [
              (''magnitude'', JNum (lm_height left_main_config)),
              (''unit'', JStr ''PT'')]),
            (''width'', JObj [
              (''magnitude'', JNum (lm_width left_main_config)),
              (''unit'', JStr ''PT'')])]),
          (''transform'', JObj [
            (''scaleX'', JNum 1),
            (''scaleY'', JNum 1),
            (''translateX'', JNum left_main_locx),
            (''translateY'', JNum (lm_locy left_main_config)),
            (''unit'', JStr ''PT'')])])])],
    JObj [
      (''updateShapeProperties'', JObj [
        (''fields'', JStr ''contentAlignment,                     outline.outlineFill.solidFill.alpha,                     shapeBackgroundFill.solidFill.color.themeColor''),
        (''objectId'', JStr left_main_element_id),
        (''shapeProperties'', JObj [
          (''contentAlignment'', JStr ''TOP''),
          (''outline'', JObj [(''outlineFill'', JObj [(''solidFill'', JObj [(''alpha'', JNum 0)])])]),
          (''shapeBackgroundFill'', JObj [
            (''solidFill'', JObj [(''color'', JObj [(''themeColor'', JStr (lm_color left_main_config))])])])])])],
    JObj [
      (''insertText'', JObj [
        (''objectId'', JStr left_main_element_id),
        (''insertionIndex'', JNum 0),
        (''text'', JStr ([CHR 0x0A] @ [CHR 0x0A] @ [CHR 0x0A] @ lm_text left_main_config))])],
    JObj [
      (''updateTextStyle'', JObj [
        (''fields'', JStr ''fontFamily, fontSize.magnitude, fontSize.unit''),
        (''objectId'', JStr left_main_element_id),
        (''style'', JObj [
          (''fontFamily'', JStr ''Manrope''),
          (''fontSize'', JObj [
            (''magnitude'', JNum (lm_font_size left_main_config)),
            (''unit'', JStr ''PT'')])])])],
    JObj [
      (''updateParagraphStyle'', JObj [
        (''fields'', JStr ''alignment''),
        (''objectId'', JStr left_main_element_id),
        (''style'', JObj [(''alignment'', JStr ''START'')])])]]"

definition left_header_req :: "left_header_config \<Rightarrow> string \<Rightarrow> string \<Rightarrow> string \<Rightarrow> json list" where
  "left_header_req left_header_config slide_id left_header_element_id title =
    [
    JObj [
      (''createShape'', JObj [
        (''objectId'', JStr left_header_element_id),
        (''shapeType'', JStr (lh_shape_type left_header_config)),
        (''elementProperties'', JObj [
          (''pageObjectId'', JStr slide_id),
          (''size'', JObj [
            (''height'', JObj [
              (''magnitude'', JNum (lh_height left_header_config)),
              (''unit'', JStr ''PT'')]),
            (''width'', JObj [
              (''magnitude'', JNum (lh_width left_header_config)),
              (''unit'', JStr ''PT'')])]),
          (''transform'', JObj [
            (''scaleX'', JNum 1),
            (''scaleY'', JNum 1),
            (''translateX'', JNum (lh_locx left_header_config)),
            (''translateY'', JNum (lh_locy left_header_config)),
            (''unit'', JStr ''PT'')])])])],
    JObj [
      (''updateShapeProperties'', JObj [
        (''fields'', JStr ''contentAlignment,                     outline.outlineFill.solidFill.alpha,                     shapeBackgroundFill.solidFill.color.themeColor''),
        (''objectId'', JStr left_header_element_id),
        (''shapeProperties'', JObj [
          (''contentAlignment'', JStr ''TOP''),
          (''outline'', JObj [(''outlineFill'', JObj [(''solidFill'', JObj [(''alpha'', JNum 0)])])]),
          (''shapeBackgroundFill'', JObj [
            (''solidFill'', JObj [
              (''color'', JObj [(''themeColor'', JStr (lh_color left_header_config))])])])])])],
    JObj [
      (''insertText'', JObj [
        (''objectId'', JStr left_header_element_id),
        (''insertionIndex'', JNum 0),
        (''text'', JStr title)])],
    JObj [
      (''updateTextStyle'', JObj [
        (''fields'', JStr ''bold, fontFamily, fontSize.magnitude, fontSize.unit,                     foregroundColor.opaqueColor.themeColor''),
        (''objectId'', JStr left_header_element_id),
        (''style'', JObj [
          (''bold'', JBool True),
          (''fontFamily'', JStr ''Manrope''),
          (''fontSize'', JObj [
            (''magnitude'', JNum (lh_font_size left_header_config)),
            (''unit'', JStr ''PT'')]),
          (''foregroundColor'', JObj [(''opaqueColor'', JObj [(''themeColor'', JStr ''LIGHT1'')])])])])],
    JObj [
      (''updateParagraphStyle'', JObj [
        (''fields'', JStr ''alignment''),
        (''objectId'', JStr left_header_element_id),
        (''style'', JObj [(''alignment'', JStr ''CENTER'')])])]]"

definition timeline_arrow_req :: "timeline_arrow_config \<Rightarrow> string \<Rightarrow> string \<Rightarrow> rat \<Rightarrow> rat \<Rightarrow> json list" where
  "timeline_arrow_req timeline_arrow_config slide_id timeline_arrow_element_id timeline_arrow_start_locx
       timeline_arrow_start_locy =
    [
    JObj [
      (''createLine'', JObj [
        (''objectId'', JStr timeline_arrow_element_id),
        (''lineCategory'', JStr ''STRAIGHT''),
        (''elementProperties'', JObj [
          (''pageObjectId'', JStr slide_id),
          (''size'', JObj [
            (''height'', JObj [(''magnitude'', JNum 1), (''unit'', JStr ''PT'')]),
            (''width'', JObj [
              (''magnitude'', JNum (ta_width timeline_arrow_config)),
              (''unit'', JStr ''PT'')])]),
          (''transform'', JObj [
            (''scaleX'', JNum 1),
            (''scaleY'', JNum 1),
            (''translateX'', JNum timeline_arrow_start_locx),
            (''translateY'', JNum timeline_arrow_start_locy),
            (''unit'', JStr ''PT'')])])])],
    JObj [
      (''updateLineProperties'', JObj [
        (''fields'', JStr ''endArrow, lineFill.solidFill.color.themeColor, weight''),
        (''objectId'', JStr timeline_arrow_element_id),
        (''lineProperties'', JObj [
          (''endArrow'', JStr ''FILL_ARROW''),
          (''lineFill'', JObj [
            (''solidFill'', JObj [
              (''color'', JObj [(''themeColor'', JStr (ta_color timeline_arrow_config))])])]),
          (''weight'', JObj [
            (''magnitude'', JNum (ta_weight timeline_arrow_config)),
            (''unit'', JStr ''PT'')])])])]]"

text \<open>The six requests added to \<^verbatim>\<open>quarter_marker_reqs\<close> for one column.\<close>

definition quarter_marker_req :: "quarter_marker_config \<Rightarrow> string \<Rightarrow> string \<Rightarrow> string \<Rightarrow> rat \<Rightarrow> rat \<Rightarrow> rat \<Rightarrow> rat \<Rightarrow> nat \<Rightarrow> column \<Rightarrow> json list" where
  "quarter_marker_req quarter_marker_config slide_id quarter_marker_element_id quarter_textbox_element_id
       quarter_locx quarter_width text_box_width timeline_arrow_start_locy col_num column =
    [
    JObj [
      (''createShape'', JObj [
        (''objectId'', JStr quarter_marker_element_id),
        (''shapeType'', JStr (qm_shape_type quarter_marker_config)),
        (''elementProperties'', JObj [
          (''pageObjectId'', JStr slide_id),
          (''size'', JObj [
            (''height'', JObj [
              (''magnitude'', JNum (qm_height quarter_marker_config)),
              (''unit'', JStr ''PT'')]),
            (''width'', JObj [
              (''magnitude'', JNum (qm_width quarter_marker_config)),
              (''unit'', JStr ''PT'')])]),
          (''transform'', JObj [
            (''scaleX'', JNum 1),
            (''scaleY'', JNum 1),
            (''translateX'', JNum (quarter_locx + quarter_width / 2 - qm_width quarter_marker_config / 2 + quarter_width * of_nat col_num)),
            (''translateY'', JNum (timeline_arrow_start_locy - qm_height quarter_marker_config / 2)),
            (''unit'', JStr ''PT'')])])])],
    JObj [
      (''updateShapeProperties'', JObj [
        (''fields'', JStr ''outline.outlineFill.solidFill.alpha,                         shapeBackgroundFill.solidFill.color.themeColor''),
        (''objectId'', JStr quarter_marker_element_id),
        (''shapeProperties'', JObj [
          (''outline'', JObj [(''outlineFill'', JObj [(''solidFill'', JObj [(''alpha'', JNum 0)])])]),
          (''shapeBackgroundFill'', JObj [
            (''solidFill'', JObj [
              (''color'', JObj [(''themeColor'', JStr (qm_color quarter_marker_config))])])])])])],
    JObj [
      (''createShape'', JObj [
        (''objectId'', JStr quarter_textbox_element_id),
        (''shapeType'', JStr ''RECTANGLE''),
        (''elementProperties'', JObj [
          (''pageObjectId'', JStr slide_id),
          (''size'', JObj [
            (''height'', JObj [
              (''magnitude'', JNum (qm_height quarter_marker_config)),
              (''unit'', JStr ''PT'')]),
            (''width'', JObj [(''magnitude'', JNum text_box_width), (''unit'', JStr ''PT'')])]),
          (''transform'', JObj [
            (''scaleX'', JNum 1),
            (''scaleY'', JNum 1),
            (''translateX'', JNum (quarter_locx + quarter_width / 2 - text_box_width / 2 + quarter_width * of_nat col_num)),
            (''translateY'', JNum (timeline_arrow_start_locy - qm_height quarter_marker_config * (7 / 4))),
            (''unit'', JStr ''PT'')])])])],
    JObj [
      (''updateShapeProperties'', JObj [
        (''fields'', JStr ''outline.outlineFill.solidFill.alpha,                         shapeBackgroundFill.solidFill.alpha''),
        (''objectId'', JStr quarter_textbox_element_id),
        (''shapeProperties'', JObj [
          (''outline'', JObj [(''outlineFill'', JObj [(''solidFill'', JObj [(''alpha'', JNum 0)])])]),
          (''shapeBackgroundFill'', JObj [(''solidFill'', JObj [(''alpha'', JNum 0)])])])])],
    JObj [
      (''insertText'', JObj [
        (''objectId'', JStr quarter_textbox_element_id),
        (''insertionIndex'', JNum 0),
        (''text'', JStr (label column))])],
    JObj [
      (''updateTextStyle'', JObj [
        (''fields'', JStr ''bold, fontFamily, fontSize.magnitude, foregroundColor.opaqueColor.themeColor''),
        (''objectId'', JStr quarter_textbox_element_id),
        (''style'', JObj [
          (''bold'', JBool True),
          (''fontFamily'', JStr (qm_font quarter_marker_config)),
          (''fontSize'', JObj [
            (''magnitude'', JNum (qm_font_size quarter_marker_config)),
            (''unit'', JStr ''PT'')]),
          (''foregroundColor'', JObj [
            (''opaqueColor'', JObj [(''themeColor'', JStr (qm_font_color quarter_marker_config))])])])])]]"

text \<open>
  The loop \<^verbatim>\<open>for col_num, column in enumerate(columns_config)\<close> of
  \<^verbatim>\<open>gen_roadmap_slide_req\<close>: two identifiers per column, the marker's first.
\<close>

fun quarter_marker_loop ::
  "(nat \<Rightarrow> string) \<Rightarrow> quarter_marker_config \<Rightarrow> string \<Rightarrow> rat \<Rightarrow> rat \<Rightarrow> rat \<Rightarrow> rat
     \<Rightarrow> nat \<Rightarrow> column list \<Rightarrow> nat \<Rightarrow> json list \<times> nat" where
  "quarter_marker_loop U quarter_marker_config slide_id quarter_locx quarter_width
       text_box_width timeline_arrow_start_locy col_num [] n = ([], n)"
| "quarter_marker_loop U quarter_marker_config slide_id quarter_locx quarter_width
       text_box_width timeline_arrow_start_locy col_num (column # rest) n =
     (let quarter_marker_element_id = U n;
          quarter_textbox_element_id = U (n + 1);
          reqs = quarter_marker_req quarter_marker_config slide_id quarter_marker_element_id
                   quarter_textbox_element_id quarter_locx quarter_width text_box_width
                   timeline_arrow_start_locy col_num column;
          (more, n') = quarter_marker_loop U quarter_marker_config slide_id quarter_locx
                         quarter_width text_box_width timeline_arrow_start_locy
                         (Suc col_num) rest (n + 2)
      in (reqs @ more, n'))"

text \<open>
  \<^verbatim>\<open>gen_roadmap_slide_req\<close>. The seven subscripts of the configuration come first,
  in source order, each able to raise \<^verbatim>\<open>KeyError\<close>; the value bound to
  \<^verbatim>\<open>quarters_config\<close> is not read again. The division by
  \<^verbatim>\<open>len(columns_config)\<close> raises \<^verbatim>\<open>ZeroDivisionError\<close> for an empty list.
\<close>

definition gen_roadmap_slide_req ::
  "(nat \<Rightarrow> string) \<Rightarrow> string \<Rightarrow> roadmap_slide_config \<Rightarrow> nat
     \<Rightarrow> error + ((json list \<times> string) \<times> nat)" where
  "gen_roadmap_slide_req U title roadmap_slide_config n =
     (case dict_get ''left_header'' (left_header roadmap_slide_config) of Inl e \<Rightarrow> Inl e
      | Inr left_header_config \<Rightarrow>
     (case dict_get ''left_main'' (left_main roadmap_slide_config) of Inl e \<Rightarrow> Inl e
      | Inr left_main_config \<Rightarrow>
     (case dict_get ''timeline_arrow'' (timeline_arrow roadmap_slide_config) of Inl e \<Rightarrow> Inl e
      | Inr timeline_arrow_config \<Rightarrow>
     (case dict_get ''quarter_marker'' (quarter_marker roadmap_slide_config) of Inl e \<Rightarrow> Inl e
      | Inr quarter_marker_config \<Rightarrow>
     (case dict_get ''quarters'' (quarters roadmap_slide_config) of Inl e \<Rightarrow> Inl e
      | Inr quarters_config \<Rightarrow>
     (case dict_get ''roadmap_box'' (roadmap_box roadmap_slide_config) of Inl e \<Rightarrow> Inl e
      | Inr roadmap_box_config \<Rightarrow>
     (case dict_get ''columns'' (columns roadmap_slide_config) of Inl e \<Rightarrow> Inl e
      | Inr columns_config \<Rightarrow>
        let title_id = U n;
            slide_id = U (n + 1);
            left_header_element_id = U (n + 2);
            left_main_element_id = U (n + 3);
            left_main_locx = lh_locx left_header_config;
            timeline_arrow_start_locx = lh_locx left_header_config + lh_width left_header_config;
            timeline_arrow_start_locy =
              lh_locy left_header_config + lh_height left_header_config / 2;
            timeline_arrow_element_id = U (n + 4)
        in if length columns_config = 0 then Inl ZeroDivisionError
           else
             let quarter_width =
                   (ta_width timeline_arrow_config - rb_x_padding roadmap_box_config * 2)
                     / of_nat (length columns_config);
                 quarter_locx = timeline_arrow_start_locx + rb_x_padding roadmap_box_config;
                 text_box_width = 200;
                 (quarter_marker_reqs, n') =
                   quarter_marker_loop U quarter_marker_config slide_id quarter_locx
                     quarter_width text_box_width timeline_arrow_start_locy 0 columns_config
                     (n + 5);
                 request_body =
                   slide_req slide_id title_id @ title_req title_id title
                     @ left_main_req left_main_config slide_id left_main_element_id
                         left_main_locx
                     @ left_header_req left_header_config slide_id left_header_element_id
                         title
                     @ timeline_arrow_req timeline_arrow_config slide_id
                         timeline_arrow_element_id timeline_arrow_start_locx
                         timeline_arrow_start_locy
                     @ quarter_marker_reqs
             in Inr ((request_body, slide_id), n'))))))))"

section \<open>Column allocation\<close>

text \<open>The dataclass \<^verbatim>\<open>RoadmapSlide\<close>.\<close>

record RoadmapSlide =
  title :: string
  google_slide_id :: string
  product_category :: string

text \<open>\<^verbatim>\<open>s[:n]\<close>: the first \<open>n\<close> elements for \<open>n \<ge> 0\<close>, all but the last \<open>-n\<close>
  for a negative \<open>n\<close>.\<close>

definition slice_to :: "'a list \<Rightarrow> int \<Rightarrow> 'a list" where
  "slice_to s n = (if 0 \<le> n then take (nat n) s else take (length s - nat (- n)) s)"

text \<open>
  One execution of the innermost body of \<^verbatim>\<open>populate_roadmap_with_issues\<close>: the
  issue and the column index at which \<^verbatim>\<open>gen_roadmap_item_req\<close> is called, the
  keyword arguments of the call, and its two results. \<open>p_roadmap_shape\<close> is what the
  body appends to \<^verbatim>\<open>roadmap_shapes\<close>.
\<close>

record placement =
  p_issue :: JiraRoadmapIssue
  p_col_num :: nat
  p_page_id :: string
  p_tagline :: string
  p_description :: string
  p_width :: rat
  p_locx :: rat
  p_locy :: rat
  p_link :: string
  p_beta :: bool
  p_roadmap_shape :: "json list"
  p_shape_id :: string

text \<open>
  The loop \<^verbatim>\<open>for col_num, col in enumerate(columns_config)\<close>. It has no
  \<^verbatim>\<open>break\<close>: every column is visited, whether or not an earlier one matched. The
  result is the column list with its updated counts, the placements made, and the
  number of identifiers drawn.
\<close>

fun columns_loop ::
  "(nat \<Rightarrow> string) \<Rightarrow> roadmap_box_config \<Rightarrow> rat \<Rightarrow> rat \<Rightarrow> rat \<Rightarrow> RoadmapSlide
     \<Rightarrow> JiraRoadmapIssue \<Rightarrow> nat \<Rightarrow> column list \<Rightarrow> nat
     \<Rightarrow> column list \<times> placement list \<times> nat" where
  "columns_loop U roadmap_box_config roadmap_box_width roadmap_box_locx roadmap_box_locy
       slide issue col_num [] n = ([], [], n)"
| "columns_loop U roadmap_box_config roadmap_box_width roadmap_box_locx roadmap_box_locy
       slide issue col_num (col # rest) n =
     (if jira_quarter issue \<in> set (jira_statuses col)
      then
        let locx = roadmap_box_locx
                     + (roadmap_box_width + rb_x_padding roadmap_box_config) * of_nat col_num;
            locy = of_nat (count col)
                     * (rb_height roadmap_box_config + rb_y_padding roadmap_box_config)
                     + roadmap_box_locy;
            col' = col\<lparr>count := count col + 1\<rparr>;
            description' =
              slice_to (description issue) (rb_description_length roadmap_box_config);
            ((roadmap_shape, shape_id), n') =
              gen_roadmap_item_req U (google_slide_id slide) roadmap_box_width locx locy
                roadmap_box_config (summary issue) description' (jira_link issue)
                (beta issue) n;
            (rest', shapes, n'') =
              columns_loop U roadmap_box_config roadmap_box_width roadmap_box_locx
                roadmap_box_locy slide issue (Suc col_num) rest n'
        in (col' # rest',
            \<lparr>p_issue = issue, p_col_num = col_num, p_page_id = google_slide_id slide,
              p_tagline = summary issue, p_description = description',
              p_width = roadmap_box_width, p_locx = locx, p_locy = locy,
              p_link = jira_link issue, p_beta = beta issue,
              p_roadmap_shape = roadmap_shape, p_shape_id = shape_id\<rparr> # shapes,
            n'')
      else
        let (rest', shapes, n') =
              columns_loop U roadmap_box_config roadmap_box_width roadmap_box_locx
                roadmap_box_locy slide issue (Suc col_num) rest n
        in (col # rest', shapes, n'))"

text \<open>The loop \<^verbatim>\<open>for issue in jira_roadmap_issues\<close> for one slide.\<close>

fun issues_loop ::
  "(nat \<Rightarrow> string) \<Rightarrow> roadmap_box_config \<Rightarrow> rat \<Rightarrow> rat \<Rightarrow> rat \<Rightarrow> RoadmapSlide
     \<Rightarrow> JiraRoadmapIssue list \<Rightarrow> column list \<Rightarrow> nat
     \<Rightarrow> column list \<times> placement list \<times> nat" where
  "issues_loop U roadmap_box_config roadmap_box_width roadmap_box_locx roadmap_box_locy
       slide [] columns_config n = (columns_config, [], n)"
| "issues_loop U roadmap_box_config roadmap_box_width roadmap_box_locx roadmap_box_locy
       slide (issue # rest) columns_config n =
     (if product_category slide \<in> set (product_categories issue)
      then
        let (columns_config', shapes, n') =
              columns_loop U roadmap_box_config roadmap_box_width roadmap_box_locx
                roadmap_box_locy slide issue 0 columns_config n;
            (columns_config'', more, n'') =
              issues_loop U roadmap_box_config roadmap_box_width roadmap_box_locx
                roadmap_box_locy slide rest columns_config' n'
        in (columns_config'', shapes @ more, n'')
      else
        issues_loop U roadmap_box_config roadmap_box_width roadmap_box_locx
          roadmap_box_locy slide rest columns_config n)"

text \<open>The loop \<^verbatim>\<open>for slide in roadmap_slides\<close>: every column's count is set to
  \<open>0\<close>, then the issues are placed.\<close>

fun slides_loop ::
  "(nat \<Rightarrow> string) \<Rightarrow> roadmap_box_config \<Rightarrow> rat \<Rightarrow> rat \<Rightarrow> rat \<Rightarrow> JiraRoadmapIssue list
     \<Rightarrow> RoadmapSlide list \<Rightarrow> column list \<Rightarrow> nat
     \<Rightarrow> column list \<times> placement list \<times> nat" where
  "slides_loop U roadmap_box_config roadmap_box_width roadmap_box_locx roadmap_box_locy
       issues [] columns_config n = (columns_config, [], n)"
| "slides_loop U roadmap_box_config roadmap_box_width roadmap_box_locx roadmap_box_locy
       issues (slide # rest) columns_config n =
     (let columns_config0 = map (\<lambda>col. col\<lparr>count := 0\<rparr>) columns_config;
          (columns_config', shapes, n') =
            issues_loop U roadmap_box_config roadmap_box_width roadmap_box_locx
              roadmap_box_locy slide issues columns_config0 n;
          (columns_config'', more, n'') =
            slides_loop U roadmap_box_config roadmap_box_width roadmap_box_locx
              roadmap_box_locy issues rest columns_config' n'
      in (columns_config'', shapes @ more, n''))"

text \<open>
  \<^verbatim>\<open>populate_roadmap_with_issues\<close>. The source ends by sending
  \<^verbatim>\<open>roadmap_shapes\<close> to the presentation service; the embedding returns the
  placements in the order in which they were made (\<open>map p_roadmap_shape\<close> of them is
  \<^verbatim>\<open>roadmap_shapes\<close>), the column list as the call leaves it, and the number of
  identifiers drawn.
\<close>

definition populate_roadmap_with_issues ::
  "(nat \<Rightarrow> string) \<Rightarrow> RoadmapSlide list \<Rightarrow> roadmap_slide_config \<Rightarrow> JiraRoadmapIssue list
     \<Rightarrow> nat \<Rightarrow> error + (placement list \<times> column list \<times> nat)" where
  "populate_roadmap_with_issues U roadmap_slides roadmap_slide_config jira_roadmap_issues' n =
     (case dict_get ''roadmap_box'' (roadmap_box roadmap_slide_config) of Inl e \<Rightarrow> Inl e
      | Inr roadmap_box_config \<Rightarrow>
     (case dict_get ''timeline_arrow'' (timeline_arrow roadmap_slide_config) of Inl e \<Rightarrow> Inl e
      | Inr arrow_config \<Rightarrow>
     (case dict_get ''left_header'' (left_header roadmap_slide_config) of Inl e \<Rightarrow> Inl e
      | Inr left_header_config \<Rightarrow>
     (case dict_get ''columns'' (columns roadmap_slide_config) of Inl e \<Rightarrow> Inl e
      | Inr columns_config \<Rightarrow>
        if length columns_config = 0 then Inl ZeroDivisionError
        else
          let roadmap_box_width =
                (ta_width arrow_config
                   - rb_x_padding roadmap_box_config * of_nat (length columns_config + 1))
                  / of_nat (length columns_config);
              roadmap_box_locx = lh_locx left_header_config + lh_width left_header_config
                                   + rb_x_padding roadmap_box_config;
              roadmap_box_locy = lh_locy left_header_config + lh_height left_header_config;
              (columns_config', roadmap_shapes, n') =
                slides_loop U roadmap_box_config roadmap_box_width roadmap_box_locx
                  roadmap_box_locy jira_roadmap_issues' roadmap_slides columns_config n
          in Inr (roadmap_shapes, columns_config', n')))))"

section \<open>Deck assembly\<close>

text \<open>
  \<^verbatim>\<open>get_unique_product_groups\<close> returns \<^verbatim>\<open>list(set(categories))\<close>. The order
  in which Python lists a set is not fixed by the source, so the enumeration
  \<open>list_of_set\<close> is a parameter.
\<close>

definition get_unique_product_groups ::
  "(string set \<Rightarrow> string list) \<Rightarrow> JiraRoadmapIssue list \<Rightarrow> string list" where
  "get_unique_product_groups list_of_set roadmap_issues =
     list_of_set (set (concat (map product_categories roadmap_issues)))"

text \<open>
  The loop of \<^verbatim>\<open>generate_roadmap_slides\<close>: the accumulated requests
  \<^verbatim>\<open>slide_reqs\<close>, the slides, and the number of identifiers drawn. The call of
  the presentation service that follows the loop is outside the embedding.
\<close>

fun generate_roadmap_slides ::
  "(nat \<Rightarrow> string) \<Rightarrow> string list \<Rightarrow> roadmap_slide_config \<Rightarrow> nat
     \<Rightarrow> error + (json list \<times> RoadmapSlide list \<times> nat)" where
  "generate_roadmap_slides U [] roadmap_slide_config n = Inr ([], [], n)"
| "generate_roadmap_slides U (category # rest) roadmap_slide_config n =
     (let ((header_slide_req, header_slide_id), n1) = gen_header_slide_req U category n
      in case gen_roadmap_slide_req U category roadmap_slide_config n1 of
           Inl e \<Rightarrow> Inl e
         | Inr ((roadmap_slide_req, roadmap_slide_id), n2) \<Rightarrow>
             (case generate_roadmap_slides U rest roadmap_slide_config n2 of
                Inl e \<Rightarrow> Inl e
              | Inr (slide_reqs, slides, n3) \<Rightarrow>
                  Inr (header_slide_req @ roadmap_slide_req @ slide_reqs,
                       \<lparr>title = category, google_slide_id = roadmap_slide_id,
                         product_category = category\<rparr> # slides,
                       n3)))"

text \<open>\<^verbatim>\<open>str\<close> of a natural number, for the summary line.\<close>

function str_nat :: "nat \<Rightarrow> string" where
  "str_nat k = (if k < 10 then [char_of (48 + k)]
                else str_nat (k div 10) @ [char_of (48 + k mod 10)])"
  by pat_completeness auto
termination
  by (relation "measure id") auto

text \<open>
  \<^verbatim>\<open>generate_roadmap_deck\<close>, with the query result as first argument. A run that
  ends without an exception yields the two request batches, in the order in which they
  are sent, and the summary line.
\<close>

record deck =
  skeleton_batch :: "json list"
  item_batch :: "json list list"
  message :: string

definition generate_roadmap_deck ::
  "(nat \<Rightarrow> string) \<Rightarrow> (string set \<Rightarrow> string list) \<Rightarrow> raw_issue list \<Rightarrow> roadmap_slide_config
     \<Rightarrow> nat \<Rightarrow> error + deck" where
  "generate_roadmap_deck U list_of_set roadmap_issue_ids roadmap_slide_config n =
     (case dict_get ''jira_roadmap_issues'' (jira_roadmap_issues roadmap_slide_config) of
        Inl e \<Rightarrow> Inl e
      | Inr kwargs \<Rightarrow>
     (case get_roadmap_issues roadmap_issue_ids (kw_product_category_mode kwargs)
             (kw_product_category_prefix kwargs) (kw_include_beta kwargs)
             (kw_beta_attribute_name kwargs) of
        Inl e \<Rightarrow> Inl e
      | Inr jira_roadmap_issues' \<Rightarrow>
          let product_categories' = get_unique_product_groups list_of_set jira_roadmap_issues'
          in (case generate_roadmap_slides U product_categories' roadmap_slide_config n of
                Inl e \<Rightarrow> Inl e
              | Inr (slide_reqs, slides, n1) \<Rightarrow>
                  (case populate_roadmap_with_issues U slides roadmap_slide_config
                          jira_roadmap_issues' n1 of
                     Inl e \<Rightarrow> Inl e
                   | Inr (roadmap_shapes, columns_config', n2) \<Rightarrow>
                       Inr \<lparr>skeleton_batch = slide_reqs,
                            item_batch = map p_roadmap_shape roadmap_shapes,
                            message =
                              ''Generated '' @ str_nat (length slides * 2) @ '' slides, ''
                                @ str_nat (length product_categories')
                                @ '' product categories, and ''
                                @ str_nat (length jira_roadmap_issues')
                                @ '' roadmap items.''\<rparr>))))"

section \<open>Example data\<close>

text \<open>A small configuration and a few issues, used to run the definitions above.\<close>

definition ex_U :: "nat \<Rightarrow> string" where
  "ex_U k = replicate (Suc k) (CHR ''u'')"

text \<open>The example issue, with the attribute \<^verbatim>\<open>customfield_beta\<close> bound to the given
  value or, for \<open>None\<close>, without that attribute.\<close>

definition ex_raw_with :: "py_value option \<Rightarrow> raw_issue" where
  "ex_raw_with attr =
     \<lparr>issue_id_id = ''10001'', permalink = ''https://jira.example/browse/RM-1'',
      fields_summary = ''Faster search'', fields_description = None,
      fields_status_name = ''Q1'',
      fields_components = [''Product: Search'', ''Internal''],
      fields_labels = [''Product: Labs''],
      fields_attrs = (case attr of None \<Rightarrow> [] | Some v \<Rightarrow> [(''customfield_beta'', v)])\<rparr>"

text \<open>The same issue with no attribute (\<open>None\<close>), with the attribute set to
  \<^verbatim>\<open>None\<close> (\<open>Some None\<close>), or with a select option of the given value.\<close>

definition ex_raw :: "string option option \<Rightarrow> raw_issue" where
  "ex_raw attr =
     ex_raw_with (case attr of
                    None \<Rightarrow> None
                  | Some None \<Rightarrow> Some PyNone
                  | Some (Some v) \<Rightarrow> Some (PyObj [(''value'', PyStr v)]))"

definition ex_left_header :: left_header_config where
  "ex_left_header =
     \<lparr>lh_locx = 10, lh_locy = 50, lh_width = 100, lh_height = 40,
      lh_shape_type = ''RECTANGLE'', lh_color = ''DARK1'', lh_font_size = 14\<rparr>"

definition ex_left_main :: left_main_config where
  "ex_left_main =
     \<lparr>lm_locy = 90, lm_width = 100, lm_height = 300, lm_shape_type = ''RECTANGLE'',
      lm_color = ''LIGHT2'', lm_text = ''Notes'', lm_font_size = 10\<rparr>"

definition ex_timeline_arrow :: timeline_arrow_config where
  "ex_timeline_arrow = \<lparr>ta_width = 800, ta_color = ''DARK1'', ta_weight = 2\<rparr>"

definition ex_quarter_marker :: quarter_marker_config where
  "ex_quarter_marker =
     \<lparr>qm_width = 12, qm_height = 12, qm_shape_type = ''ELLIPSE'', qm_color = ''ACCENT1'',
      qm_font = ''Manrope'', qm_font_size = 12, qm_font_color = ''DARK1''\<rparr>"

definition ex_roadmap_box :: roadmap_box_config where
  "ex_roadmap_box =
     \<lparr>rb_height = 60, rb_x_padding = 20, rb_y_padding = 10, rb_description_length = 5,
      rb_shape_type = ''ROUND_RECTANGLE'', rb_outline_color = ''DARK1'',
      rb_fill_color = ''LIGHT1'', rb_font_size = 9,
      rb_beta_label_outline_color = ''ACCENT2'', rb_beta_label_color = ''ACCENT3'',
      rb_beta_label_font_size = 6, rb_beta_label_font_color = ''LIGHT1''\<rparr>"

text \<open>Four columns; the second also accepts the status \<open>Q1\<close> of the first.\<close>

definition ex_columns :: "column list" where
  "ex_columns =
     [\<lparr>label = ''Q1'', jira_statuses = [''Q1''], count = 0\<rparr>,
      \<lparr>label = ''Q2'', jira_statuses = [''Q2'', ''Q1''], count = 0\<rparr>,
      \<lparr>label = ''Q3'', jira_statuses = [''Q3''], count = 0\<rparr>,
      \<lparr>label = ''Q4'', jira_statuses = [''Q4''], count = 0\<rparr>]"

definition ex_kwargs :: "string \<Rightarrow> jira_roadmap_issues_config" where
  "ex_kwargs mode =
     \<lparr>kw_jira_project = ''RM'', kw_issue_type = ''Initiative'',
      kw_product_category_mode = mode, kw_product_category_prefix = ''Product: '',
      kw_include_beta = True, kw_beta_attribute_name = ''customfield_beta''\<rparr>"

text \<open>The configuration with every key but \<^verbatim>\<open>quarters\<close>.\<close>

definition ex_config :: "string \<Rightarrow> roadmap_slide_config" where
  "ex_config mode =
     \<lparr>left_header = Some ex_left_header, left_main = Some ex_left_main,
      timeline_arrow = Some ex_timeline_arrow, quarter_marker = Some ex_quarter_marker,
      quarters = None, roadmap_box = Some ex_roadmap_box, columns = Some ex_columns,
      jira_roadmap_issues = Some (ex_kwargs mode)\<rparr>"

definition ex_issue :: "string \<Rightarrow> string \<Rightarrow> string \<Rightarrow> bool \<Rightarrow> JiraRoadmapIssue" where
  "ex_issue ident category quarter is_beta =
     \<lparr>jira_id = ident, product_categories = [category], jira_quarter = quarter,
      jira_link = ''https://jira.example/browse/'' @ ident, summary = ''Item '' @ ident,
      description = ''Describes '' @ ident, beta = is_beta\<rparr>"

definition ex_slide :: RoadmapSlide where
  "ex_slide = \<lparr>title = ''Search'', google_slide_id = ''slide-1'', product_category = ''Search''\<rparr>"

section \<open>Properties of the issue normaliser\<close>

subsection \<open>Auxiliary facts\<close>

lemma normalize_all_Inr:
  "normalize_all mode prefix ib name raws = Inr rs \<Longrightarrow>
   rs = concat (map (\<lambda>issue. case normalize_issue mode prefix ib name issue of
                               Inr (Some r) \<Rightarrow> [r] | _ \<Rightarrow> []) raws)"
  by (induction raws arbitrary: rs) (auto split: sum.splits option.splits)

lemma set_filter_categories:
  "set (filter_categories p cs) = {drop (length p) c | c. c \<in> set cs \<and> startswith c p}"
  by (induction cs) auto

lemma invalid_mode_message_neq: "invalid_mode_message m \<noteq> no_issues_message"
  by (simp add: invalid_mode_message_def no_issues_message_def)

lemma dot_value_error: "dot_value a = Inl e \<Longrightarrow> e = AttributeError ''value''"
  by (cases a) (auto split: option.splits)

lemma beta_condition_error:
  "beta_condition flag a = Inl e \<Longrightarrow> e = AttributeError ''value''"
  by (auto simp: beta_condition_def split: if_splits sum.splits dest: dot_value_error)

lemma normalize_issue_error:
  "normalize_issue mode prefix ib name issue = Inl e \<Longrightarrow>
   (mode \<noteq> ''components'' \<and> mode \<noteq> ''labels'' \<and> e = Exception (invalid_mode_message mode))
   \<or> ((mode = ''components'' \<or> mode = ''labels'')
        \<and> (e = AttributeError name \<or> e = AttributeError ''value''))"
  by (auto simp: normalize_issue_def getattr_fields_def Let_def
           split: if_splits sum.splits option.splits dest: beta_condition_error)

lemma normalize_all_error:
  "normalize_all mode prefix ib name raws = Inl e \<Longrightarrow>
   (mode \<noteq> ''components'' \<and> mode \<noteq> ''labels'' \<and> e = Exception (invalid_mode_message mode))
   \<or> ((mode = ''components'' \<or> mode = ''labels'')
        \<and> (e = AttributeError name \<or> e = AttributeError ''value''))"
proof (induction raws)
  case Nil
  then show ?case by simp
next
  case (Cons issue rest)
  show ?case
  proof (cases "normalize_issue mode prefix ib name issue")
    case (Inl e')
    with Cons.prems have "e' = e" by simp
    with Inl show ?thesis using normalize_issue_error by blast
  next
    case (Inr r)
    with Cons.prems have "normalize_all mode prefix ib name rest = Inl e"
      by (simp split: sum.splits)
    then show ?thesis by (rule Cons.IH)
  qed
qed

lemma normalize_issue_invalid_mode:
  "mode \<noteq> ''components'' \<Longrightarrow> mode \<noteq> ''labels'' \<Longrightarrow>
   normalize_issue mode prefix ib name issue = Inl (Exception (invalid_mode_message mode))"
  by (simp add: normalize_issue_def)

lemma normalize_all_invalid_mode:
  "mode \<noteq> ''components'' \<Longrightarrow> mode \<noteq> ''labels'' \<Longrightarrow> raws \<noteq> [] \<Longrightarrow>
   normalize_all mode prefix ib name raws = Inl (Exception (invalid_mode_message mode))"
  by (cases raws) (simp_all add: normalize_issue_invalid_mode)

lemma get_roadmap_issues_empty:
  "get_roadmap_issues [] mode prefix ib name = Inl (Exception no_issues_message)"
  by (simp add: get_roadmap_issues_def)

lemma get_roadmap_issues_nonempty:
  "raws \<noteq> [] \<Longrightarrow>
   get_roadmap_issues raws mode prefix ib name = normalize_all mode prefix ib name raws"
  by (simp add: get_roadmap_issues_def)

lemma deck_normaliser_error:
  "jira_roadmap_issues cfg = Some kwargs \<Longrightarrow>
   get_roadmap_issues raws (kw_product_category_mode kwargs) (kw_product_category_prefix kwargs)
     (kw_include_beta kwargs) (kw_beta_attribute_name kwargs) = Inl e \<Longrightarrow>
   generate_roadmap_deck U list_of_set raws cfg n = Inl e"
  by (simp add: generate_roadmap_deck_def dict_get_def)

lemma ex_raw_unset_normalized:
  "normalize_issue ''components'' ''Product: '' ib ''customfield_beta'' (ex_raw (Some None))
     = Inr (Some \<lparr>jira_id = ''10001'', product_categories = [''Search''], jira_quarter = ''Q1'',
                  jira_link = ''https://jira.example/browse/RM-1'', summary = ''Faster search'',
                  description = [], beta = False\<rparr>)"
  by (simp add: normalize_issue_def ex_raw_def ex_raw_with_def getattr_fields_def
        beta_condition_def startswith_def)

lemma ex_raw_beta_normalized:
  "normalize_issue ''components'' ''Product: '' ib ''customfield_beta''
       (ex_raw (Some (Some ''Beta'')))
     = (if ib
        then Inr (Some \<lparr>jira_id = ''10001'', product_categories = [''Search''],
                        jira_quarter = ''Q1'', jira_link = ''https://jira.example/browse/RM-1'',
                        summary = ''Faster search'', description = [], beta = True\<rparr>)
        else Inr None)"
  by (simp add: normalize_issue_def ex_raw_def ex_raw_with_def getattr_fields_def
        beta_condition_def startswith_def)

lemma ex_raw_undefined_normalized:
  "normalize_issue ''components'' ''Product: '' ib ''customfield_beta'' (ex_raw None)
     = Inl (AttributeError ''customfield_beta'')"
  by (simp add: normalize_issue_def ex_raw_def ex_raw_with_def getattr_fields_def)

lemma ex_raw_text_normalized:
  "normalize_issue ''components'' ''Product: '' ib ''customfield_beta''
       (ex_raw_with (Some (PyStr ''Beta'')))
     = Inl (AttributeError ''value'')"
  by (cases ib)
     (simp_all add: normalize_issue_def ex_raw_with_def getattr_fields_def beta_condition_def)

subsection \<open>Beta resolution\<close>

text \<open>
  Claim C3, as the source has it. With a recognised category mode, the loop body reads
  the configured attribute with \<^verbatim>\<open>getattr\<close>. If the issue's fields do not have the
  attribute, the read raises \<^verbatim>\<open>AttributeError\<close> and nothing is emitted. If the
  attribute is not truthy (it is \<^verbatim>\<open>None\<close>, an empty text, zero or an empty list), the
  issue is emitted with \<open>beta = False\<close>, whatever \<open>include_beta\<close> is. If the attribute
  is truthy, its \<^verbatim>\<open>.value\<close> is read, whatever \<open>include_beta\<close> is: a value that has
  no such attribute (a text, even the text \<open>Beta\<close>, a number, a list) raises
  \<^verbatim>\<open>AttributeError\<close> and nothing is emitted; for an object with a \<^verbatim>\<open>.value\<close> the
  issue is dropped exactly when that value is \<open>Beta\<close> and \<open>include_beta\<close> is false, it
  is emitted with \<open>beta = True\<close> when the value is \<open>Beta\<close> and \<open>include_beta\<close> is
  true, and it is emitted with \<open>beta = False\<close> when the value is another one. The list
  returned by \<^verbatim>\<open>get_roadmap_issues\<close> holds the emitted issues, in order.
\<close>

theorem beta_resolution:
  "mode = ''components'' \<or> mode = ''labels'' \<Longrightarrow>
     (map_of (fields_attrs issue) name = None \<longrightarrow>
        normalize_issue mode prefix ib name issue = Inl (AttributeError name))
   \<and> (map_of (fields_attrs issue) name = Some a \<longrightarrow>
        (\<not> truthy a \<longrightarrow>
           (\<exists>r. normalize_issue mode prefix ib name issue = Inr (Some r) \<and> \<not> beta r))
      \<and> (truthy a \<and> (\<forall>v. dot_value a \<noteq> Inr v) \<longrightarrow>
           normalize_issue mode prefix ib name issue = Inl (AttributeError ''value''))
      \<and> (truthy a \<and> dot_value a = Inr v \<longrightarrow>
           (normalize_issue mode prefix ib name issue = Inr None
              \<longleftrightarrow> v = PyStr ''Beta'' \<and> \<not> ib)
         \<and> (v = PyStr ''Beta'' \<and> ib \<longrightarrow>
              (\<exists>r. normalize_issue mode prefix ib name issue = Inr (Some r) \<and> beta r))
         \<and> (v \<noteq> PyStr ''Beta'' \<longrightarrow>
              (\<exists>r. normalize_issue mode prefix ib name issue = Inr (Some r) \<and> \<not> beta r)))
      \<and> (normalize_issue mode prefix ib name issue = Inr None
            \<longleftrightarrow> truthy a \<and> dot_value a = Inr (PyStr ''Beta'') \<and> \<not> ib)
      \<and> (a = PyNone \<or> a = PyStr [] \<or> a = PyNum 0 \<or> a = PyList [] \<or> a = PyBool False \<longrightarrow>
            (\<exists>r. normalize_issue mode prefix ib name issue = Inr (Some r) \<and> \<not> beta r))
      \<and> ((\<exists>s. a = PyStr s \<and> s \<noteq> []) \<or> (\<exists>x. a = PyNum x \<and> x \<noteq> 0)
            \<or> (\<exists>xs. a = PyList xs \<and> xs \<noteq> []) \<or> a = PyBool True \<longrightarrow>
            normalize_issue mode prefix ib name issue = Inl (AttributeError ''value'')))
   \<and> (get_roadmap_issues raws mode prefix ib name = Inr rs \<longrightarrow>
        rs = concat (map (\<lambda>issue. case normalize_issue mode prefix ib name issue of
                                    Inr (Some r) \<Rightarrow> [r] | _ \<Rightarrow> []) raws))"
proof (intro conjI impI)
  assume m: "mode = ''components'' \<or> mode = ''labels''"
  show "normalize_issue mode prefix ib name issue = Inl (AttributeError name)"
    if "map_of (fields_attrs issue) name = None"
    using m that by (auto simp: normalize_issue_def getattr_fields_def)
  show "rs = concat (map (\<lambda>issue. case normalize_issue mode prefix ib name issue of
                                    Inr (Some r) \<Rightarrow> [r] | _ \<Rightarrow> []) raws)"
    if "get_roadmap_issues raws mode prefix ib name = Inr rs"
    using that normalize_all_Inr[of mode prefix ib name raws rs]
    by (cases "raws = []") (simp_all add: get_roadmap_issues_def)
  assume a: "map_of (fields_attrs issue) name = Some a"
  show falsy: "\<exists>r. normalize_issue mode prefix ib name issue = Inr (Some r) \<and> \<not> beta r"
    if "\<not> truthy a"
    using m a that
    by (auto simp: normalize_issue_def getattr_fields_def beta_condition_def Let_def)
  show novalue: "normalize_issue mode prefix ib name issue = Inl (AttributeError ''value'')"
    if "truthy a \<and> (\<forall>v. dot_value a \<noteq> Inr v)"
  proof -
    from that obtain e where e: "dot_value a = Inl e"
      by (cases "dot_value a") auto
    then have "e = AttributeError ''value''" by (rule dot_value_error)
    with e m a that show ?thesis
      by (cases ib)
         (auto simp: normalize_issue_def getattr_fields_def beta_condition_def Let_def)
  qed
  show "normalize_issue mode prefix ib name issue = Inr None
          \<longleftrightarrow> truthy a \<and> dot_value a = Inr (PyStr ''Beta'') \<and> \<not> ib"
    using m a
    by (cases ib; cases "truthy a"; cases "dot_value a")
       (auto simp: normalize_issue_def getattr_fields_def beta_condition_def Let_def)
  show "\<exists>r. normalize_issue mode prefix ib name issue = Inr (Some r) \<and> \<not> beta r"
    if "a = PyNone \<or> a = PyStr [] \<or> a = PyNum 0 \<or> a = PyList [] \<or> a = PyBool False"
    using that by (intro falsy) auto
  show "normalize_issue mode prefix ib name issue = Inl (AttributeError ''value'')"
    if "(\<exists>s. a = PyStr s \<and> s \<noteq> []) \<or> (\<exists>x. a = PyNum x \<and> x \<noteq> 0)
            \<or> (\<exists>xs. a = PyList xs \<and> xs \<noteq> []) \<or> a = PyBool True"
    using that by (intro novalue) auto
  assume v: "truthy a \<and> dot_value a = Inr v"
  show "normalize_issue mode prefix ib name issue = Inr None \<longleftrightarrow> v = PyStr ''Beta'' \<and> \<not> ib"
    using m a v
    by (cases ib)
       (auto simp: normalize_issue_def getattr_fields_def beta_condition_def Let_def)
  show "\<exists>r. normalize_issue mode prefix ib name issue = Inr (Some r) \<and> beta r"
    if "v = PyStr ''Beta'' \<and> ib"
    using m a v that
    by (auto simp: normalize_issue_def getattr_fields_def beta_condition_def Let_def)
  show "\<exists>r. normalize_issue mode prefix ib name issue = Inr (Some r) \<and> \<not> beta r"
    if "v \<noteq> PyStr ''Beta''"
    using m a v that
    by (cases ib)
       (auto simp: normalize_issue_def getattr_fields_def beta_condition_def Let_def)
qed

theorem beta_resolution_witness:
  "normalize_issue ''components'' ''Product: '' True ''customfield_beta'' (ex_raw None)
     = Inl (AttributeError ''customfield_beta'')
   \<and> normalize_issue ''components'' ''Product: '' False ''customfield_beta''
         (ex_raw (Some (Some ''Beta''))) = Inr None
   \<and> (\<exists>r. normalize_issue ''components'' ''Product: '' True ''customfield_beta''
              (ex_raw (Some (Some ''Beta''))) = Inr (Some r) \<and> beta r)
   \<and> (\<exists>r. normalize_issue ''components'' ''Product: '' True ''customfield_beta''
              (ex_raw (Some (Some ''GA''))) = Inr (Some r) \<and> \<not> beta r)
   \<and> (\<exists>r. normalize_issue ''components'' ''Product: '' False ''customfield_beta''
              (ex_raw (Some None)) = Inr (Some r) \<and> \<not> beta r)
   \<and> normalize_issue ''components'' ''Product: '' True ''customfield_beta''
         (ex_raw_with (Some (PyStr ''Beta''))) = Inl (AttributeError ''value'')
   \<and> normalize_issue ''components'' ''Product: '' False ''customfield_beta''
         (ex_raw_with (Some (PyStr ''Beta''))) = Inl (AttributeError ''value'')
   \<and> get_roadmap_issues [ex_raw (Some (Some ''Beta'')), ex_raw (Some None)] ''components''
         ''Product: '' False ''customfield_beta''
       = Inr (concat (map (\<lambda>issue. case normalize_issue ''components'' ''Product: '' False
                                          ''customfield_beta'' issue of
                                     Inr (Some r) \<Rightarrow> [r] | _ \<Rightarrow> [])
                       [ex_raw (Some (Some ''Beta'')), ex_raw (Some None)]))"
proof -
  let ?R = "\<lparr>jira_id = ''10001'', product_categories = [''Search''], jira_quarter = ''Q1'',
             jira_link = ''https://jira.example/browse/RM-1'', summary = ''Faster search'',
             description = [], beta = False\<rparr>"
  have undefined_attr: "map_of (fields_attrs (ex_raw None)) ''customfield_beta'' = None"
    by (simp add: ex_raw_def ex_raw_with_def)
  have option_attr:
    "map_of (fields_attrs (ex_raw (Some (Some s)))) ''customfield_beta''
       = Some (PyObj [(''value'', PyStr s)])"
    "truthy (PyObj [(''value'', PyStr s)])
       \<and> dot_value (PyObj [(''value'', PyStr s)]) = Inr (PyStr s)" for s
    by (simp_all add: ex_raw_def ex_raw_with_def)
  have unset_attr:
    "map_of (fields_attrs (ex_raw (Some None))) ''customfield_beta'' = Some PyNone"
    "\<not> truthy PyNone"
    by (simp_all add: ex_raw_def ex_raw_with_def)
  have text_attr:
    "map_of (fields_attrs (ex_raw_with (Some (PyStr ''Beta'')))) ''customfield_beta''
       = Some (PyStr ''Beta'')"
    "truthy (PyStr ''Beta'') \<and> (\<forall>v. dot_value (PyStr ''Beta'') \<noteq> Inr v)"
    by (simp_all add: ex_raw_with_def)
  have run:
    "get_roadmap_issues [ex_raw (Some (Some ''Beta'')), ex_raw (Some None)] ''components''
       ''Product: '' False ''customfield_beta'' = Inr [?R]"
    by (simp add: get_roadmap_issues_def ex_raw_unset_normalized ex_raw_beta_normalized)
  have 1: "normalize_issue ''components'' ''Product: '' True ''customfield_beta'' (ex_raw None)
             = Inl (AttributeError ''customfield_beta'')"
    using beta_resolution[where mode = "''components''" and issue = "ex_raw None"
        and name = "''customfield_beta''" and prefix = "''Product: ''" and ib = True]
      undefined_attr by simp
  have 2: "normalize_issue ''components'' ''Product: '' False ''customfield_beta''
             (ex_raw (Some (Some ''Beta''))) = Inr None"
    using beta_resolution[where mode = "''components''"
        and issue = "ex_raw (Some (Some ''Beta''))"
        and name = "''customfield_beta''" and prefix = "''Product: ''" and ib = False
        and a = "PyObj [(''value'', PyStr ''Beta'')]" and v = "PyStr ''Beta''"]
      option_attr[of "''Beta''"] by simp
  have 3: "\<exists>r. normalize_issue ''components'' ''Product: '' True ''customfield_beta''
                 (ex_raw (Some (Some ''Beta''))) = Inr (Some r) \<and> beta r"
    using beta_resolution[where mode = "''components''"
        and issue = "ex_raw (Some (Some ''Beta''))"
        and name = "''customfield_beta''" and prefix = "''Product: ''" and ib = True
        and a = "PyObj [(''value'', PyStr ''Beta'')]" and v = "PyStr ''Beta''"]
      option_attr[of "''Beta''"] by simp
  have 4: "\<exists>r. normalize_issue ''components'' ''Product: '' True ''customfield_beta''
                 (ex_raw (Some (Some ''GA''))) = Inr (Some r) \<and> \<not> beta r"
    using beta_resolution[where mode = "''components''"
        and issue = "ex_raw (Some (Some ''GA''))"
        and name = "''customfield_beta''" and prefix = "''Product: ''" and ib = True
        and a = "PyObj [(''value'', PyStr ''GA'')]" and v = "PyStr ''GA''"]
      option_attr[of "''GA''"] by simp
  have 5: "\<exists>r. normalize_issue ''components'' ''Product: '' False ''customfield_beta''
                 (ex_raw (Some None)) = Inr (Some r) \<and> \<not> beta r"
    using beta_resolution[where mode = "''components''" and issue = "ex_raw (Some None)"
        and name = "''customfield_beta''" and prefix = "''Product: ''" and ib = False
        and a = PyNone]
      unset_attr by simp
  have 6: "normalize_issue ''components'' ''Product: '' ib ''customfield_beta''
             (ex_raw_with (Some (PyStr ''Beta''))) = Inl (AttributeError ''value'')" for ib
    using beta_resolution[where mode = "''components''"
        and issue = "ex_raw_with (Some (PyStr ''Beta''))"
        and name = "''customfield_beta''" and prefix = "''Product: ''" and ib = ib
        and a = "PyStr ''Beta''"]
      text_attr by simp
  have 7: "[?R] = concat (map (\<lambda>issue. case normalize_issue ''components'' ''Product: '' False
                                          ''customfield_beta'' issue of
                                     Inr (Some r) \<Rightarrow> [r] | _ \<Rightarrow> [])
                       [ex_raw (Some (Some ''Beta'')), ex_raw (Some None)])"
    using beta_resolution[where mode = "''components''" and ib = False
        and name = "''customfield_beta''" and prefix = "''Product: ''"
        and raws = "[ex_raw (Some (Some ''Beta'')), ex_raw (Some None)]" and rs = "[?R]"]
      run by blast
  show ?thesis using 1 2 3 4 5 6[of True] 6[of False] 7 run by simp
qed

text \<open>
  Claim C3 as the specification words it promises an emitted issue with
  \<open>beta = False\<close> when the attribute is absent. For an issue whose fields do not have
  the attribute the run ends in \<^verbatim>\<open>AttributeError\<close> instead.
\<close>

theorem absent_beta_attribute_raises:
  "normalize_issue ''components'' ''Product: '' True ''customfield_beta'' (ex_raw None)
     = Inl (AttributeError ''customfield_beta'')
   \<and> get_roadmap_issues [ex_raw None] ''components'' ''Product: '' True ''customfield_beta''
     = Inl (AttributeError ''customfield_beta'')"
  by (simp add: get_roadmap_issues_def ex_raw_undefined_normalized)

subsection \<open>Categories in component mode\<close>

text \<open>
  Claim C5. For an issue emitted in category mode \<open>components\<close>, the categories are,
  as a set, the component names that start with the prefix, each with the prefix
  removed from its front; a name that does not start with the prefix contributes
  nothing. Every entry of the list that \<^verbatim>\<open>get_roadmap_issues\<close> returns is emitted
  from one of the queried issues in this way.
\<close>

theorem components_categories_prefix_stripped:
  "(normalize_issue ''components'' prefix ib name issue = Inr (Some r) \<longrightarrow>
      set (product_categories r)
        = {drop (length prefix) c | c. c \<in> set (fields_components issue) \<and> startswith c prefix}
      \<and> (\<forall>c \<in> set (fields_components issue).
            startswith c prefix \<longrightarrow> prefix @ drop (length prefix) c = c))
   \<and> (get_roadmap_issues raws ''components'' prefix ib name = Inr rs \<longrightarrow>
        (\<forall>r' \<in> set rs. \<exists>issue' \<in> set raws.
            normalize_issue ''components'' prefix ib name issue' = Inr (Some r')))"
proof (intro conjI impI ballI)
  assume a: "normalize_issue ''components'' prefix ib name issue = Inr (Some r)"
  then have "product_categories r = filter_categories prefix (fields_components issue)"
    by (auto simp: normalize_issue_def Let_def split: sum.splits if_splits)
  then show "set (product_categories r)
               = {drop (length prefix) c | c. c \<in> set (fields_components issue)
                    \<and> startswith c prefix}"
    by (simp only: set_filter_categories)
next
  fix c
  assume "startswith c prefix"
  then show "prefix @ drop (length prefix) c = c"
    by (metis append_take_drop_id startswith_def)
next
  fix r'
  assume g: "get_roadmap_issues raws ''components'' prefix ib name = Inr rs"
    and r': "r' \<in> set rs"
  from g have "normalize_all ''components'' prefix ib name raws = Inr rs"
    by (cases "raws = []") (simp_all add: get_roadmap_issues_def)
  from normalize_all_Inr[OF this] r'
  show "\<exists>issue' \<in> set raws. normalize_issue ''components'' prefix ib name issue' = Inr (Some r')"
    by (auto split: sum.splits option.splits)
qed

theorem components_categories_prefix_stripped_witness:
  "get_roadmap_issues [ex_raw (Some None)] ''components'' ''Product: '' True ''customfield_beta''
     = Inr [\<lparr>jira_id = ''10001'', product_categories = [''Search''], jira_quarter = ''Q1'',
             jira_link = ''https://jira.example/browse/RM-1'', summary = ''Faster search'',
             description = [], beta = False\<rparr>]
   \<and> {''Search''}
       = {drop (length ''Product: '') c | c.
            c \<in> set [''Product: Search'', ''Internal''] \<and> startswith c ''Product: ''}
   \<and> startswith ''Product: Search'' ''Product: ''
   \<and> ''Product: '' @ drop (length ''Product: '') ''Product: Search'' = ''Product: Search''
   \<and> \<not> startswith ''Internal'' ''Product: ''"
proof -
  let ?R = "\<lparr>jira_id = ''10001'', product_categories = [''Search''], jira_quarter = ''Q1'',
             jira_link = ''https://jira.example/browse/RM-1'', summary = ''Faster search'',
             description = [], beta = False\<rparr>"
  have one: "normalize_issue ''components'' ''Product: '' True ''customfield_beta''
               (ex_raw (Some None)) = Inr (Some ?R)"
    by (rule ex_raw_unset_normalized)
  have run: "get_roadmap_issues [ex_raw (Some None)] ''components'' ''Product: '' True
               ''customfield_beta'' = Inr [?R]"
    by (simp add: get_roadmap_issues_def one)
  have comps: "fields_components (ex_raw (Some None)) = [''Product: Search'', ''Internal'']"
    by (simp add: ex_raw_def ex_raw_with_def)
  have sw: "startswith ''Product: Search'' ''Product: ''" "\<not> startswith ''Internal'' ''Product: ''"
    by (simp_all add: startswith_def)
  note inst = components_categories_prefix_stripped[where prefix = "''Product: ''" and ib = True
      and name = "''customfield_beta''" and issue = "ex_raw (Some None)" and r = "?R"
      and raws = "[ex_raw (Some None)]" and rs = "[?R]"]
  from inst one have
    "set (product_categories ?R)
       = {drop (length ''Product: '') c | c.
            c \<in> set (fields_components (ex_raw (Some None))) \<and> startswith c ''Product: ''}"
    by blast
  then have s: "{''Search''}
       = {drop (length ''Product: '') c | c.
            c \<in> set [''Product: Search'', ''Internal''] \<and> startswith c ''Product: ''}"
    unfolding comps by simp
  from inst one have
    "\<forall>c \<in> set (fields_components (ex_raw (Some None))).
        startswith c ''Product: '' \<longrightarrow> ''Product: '' @ drop (length ''Product: '') c = c"
    by blast
  then have p: "''Product: '' @ drop (length ''Product: '') ''Product: Search'' = ''Product: Search''"
    unfolding comps using sw(1) by simp
  from inst run have "\<forall>r' \<in> set [?R]. \<exists>issue' \<in> set [ex_raw (Some None)].
      normalize_issue ''components'' ''Product: '' True ''customfield_beta'' issue' = Inr (Some r')"
    by blast
  show ?thesis using run s p sw by blast
qed

subsection \<open>Empty query result\<close>

text \<open>
  Claim C6. When the query returns no record, \<^verbatim>\<open>get_roadmap_issues\<close> raises the
  exception whose message says that no issues were found, and so does the whole deck
  run: no issue list and no deck is produced. When the query returns at least one
  record, that exception is not raised by \<^verbatim>\<open>get_roadmap_issues\<close>.
\<close>

theorem empty_query_raises_not_found:
  "get_roadmap_issues [] mode prefix ib name = Inl (Exception no_issues_message)
   \<and> (jira_roadmap_issues cfg = Some kwargs \<longrightarrow>
        generate_roadmap_deck U list_of_set [] cfg n = Inl (Exception no_issues_message))
   \<and> (raws \<noteq> [] \<longrightarrow>
        get_roadmap_issues raws mode prefix ib name \<noteq> Inl (Exception no_issues_message))"
proof (intro conjI impI)
  show "get_roadmap_issues [] mode prefix ib name = Inl (Exception no_issues_message)"
    by (rule get_roadmap_issues_empty)
  show "generate_roadmap_deck U list_of_set [] cfg n = Inl (Exception no_issues_message)"
    if "jira_roadmap_issues cfg = Some kwargs"
    using that by (rule deck_normaliser_error) (rule get_roadmap_issues_empty)
  show "get_roadmap_issues raws mode prefix ib name \<noteq> Inl (Exception no_issues_message)"
    if "raws \<noteq> []"
  proof
    assume "get_roadmap_issues raws mode prefix ib name = Inl (Exception no_issues_message)"
    with that have "normalize_all mode prefix ib name raws = Inl (Exception no_issues_message)"
      by (simp add: get_roadmap_issues_nonempty)
    from normalize_all_error[OF this] show False
      using invalid_mode_message_neq[of mode] by auto
  qed
qed

theorem empty_query_raises_not_found_witness:
  "jira_roadmap_issues (ex_config ''components'') = Some (ex_kwargs ''components'')
   \<and> generate_roadmap_deck ex_U sorted_list_of_set [] (ex_config ''components'') 0
       = Inl (Exception no_issues_message)
   \<and> [ex_raw (Some None)] \<noteq> []
   \<and> get_roadmap_issues [ex_raw (Some None)] ''components'' ''Product: '' True
         ''customfield_beta'' \<noteq> Inl (Exception no_issues_message)"
proof -
  have k: "jira_roadmap_issues (ex_config ''components'') = Some (ex_kwargs ''components'')"
    by (simp add: ex_config_def)
  have ne: "[ex_raw (Some None)] \<noteq> []" by simp
  note inst = empty_query_raises_not_found[where cfg = "ex_config ''components''"
      and kwargs = "ex_kwargs ''components''" and raws = "[ex_raw (Some None)]"
      and mode = "''components''" and prefix = "''Product: ''" and ib = True
      and name = "''customfield_beta''" and U = ex_U and list_of_set = sorted_list_of_set
      and n = "0::nat"]
  show ?thesis using inst k ne by blast
qed

subsection \<open>Unknown category mode\<close>

text \<open>
  Claim C7, as the source has it. The category mode is examined inside the loop over
  the queried issues. For a mode that is neither \<open>components\<close> nor \<open>labels\<close> and a
  query result with at least one record, \<^verbatim>\<open>get_roadmap_issues\<close> raises the exception
  that names the invalid mode, and the deck run ends with it before any slide request
  is built. For an empty query result the exception raised is the one for the empty
  result, whatever the mode. For the two recognised modes the invalid-mode exception
  is never raised.
\<close>

theorem unknown_mode_raises_on_first_record:
  "(mode \<noteq> ''components'' \<and> mode \<noteq> ''labels'' \<and> raws \<noteq> [] \<longrightarrow>
      get_roadmap_issues raws mode prefix ib name = Inl (Exception (invalid_mode_message mode))
      \<and> (jira_roadmap_issues cfg = Some kwargs \<and> kw_product_category_mode kwargs = mode \<longrightarrow>
           generate_roadmap_deck U list_of_set raws cfg n
             = Inl (Exception (invalid_mode_message mode))))
   \<and> get_roadmap_issues [] mode prefix ib name = Inl (Exception no_issues_message)
   \<and> (mode = ''components'' \<or> mode = ''labels'' \<longrightarrow>
        (\<forall>m. get_roadmap_issues raws mode prefix ib name \<noteq> Inl (Exception (invalid_mode_message m))))"
proof (intro conjI impI allI)
  assume a: "mode \<noteq> ''components'' \<and> mode \<noteq> ''labels'' \<and> raws \<noteq> []"
  then show g: "get_roadmap_issues raws mode prefix ib name
                  = Inl (Exception (invalid_mode_message mode))"
    by (simp add: get_roadmap_issues_nonempty normalize_all_invalid_mode)
  assume k: "jira_roadmap_issues cfg = Some kwargs \<and> kw_product_category_mode kwargs = mode"
  have "get_roadmap_issues raws (kw_product_category_mode kwargs)
          (kw_product_category_prefix kwargs) (kw_include_beta kwargs)
          (kw_beta_attribute_name kwargs) = Inl (Exception (invalid_mode_message mode))"
    using a k by (simp add: get_roadmap_issues_nonempty normalize_all_invalid_mode)
  with k show "generate_roadmap_deck U list_of_set raws cfg n
                 = Inl (Exception (invalid_mode_message mode))"
    using deck_normaliser_error by blast
next
  show "get_roadmap_issues [] mode prefix ib name = Inl (Exception no_issues_message)"
    by (rule get_roadmap_issues_empty)
next
  fix m
  assume r: "mode = ''components'' \<or> mode = ''labels''"
  show "get_roadmap_issues raws mode prefix ib name \<noteq> Inl (Exception (invalid_mode_message m))"
  proof (cases "raws = []")
    case True
    then show ?thesis
      using invalid_mode_message_neq[of m] by (simp add: get_roadmap_issues_empty)
  next
    case False
    show ?thesis
    proof
      assume "get_roadmap_issues raws mode prefix ib name
                = Inl (Exception (invalid_mode_message m))"
      with False have "normalize_all mode prefix ib name raws
                         = Inl (Exception (invalid_mode_message m))"
        by (simp add: get_roadmap_issues_nonempty)
      from normalize_all_error[OF this] r show False by auto
    qed
  qed
qed

theorem unknown_mode_raises_on_first_record_witness:
  "''tags'' \<noteq> ''components'' \<and> ''tags'' \<noteq> ''labels'' \<and> [ex_raw (Some None)] \<noteq> []
   \<and> get_roadmap_issues [ex_raw (Some None)] ''tags'' ''Product: '' True ''customfield_beta''
       = Inl (Exception (invalid_mode_message ''tags''))
   \<and> jira_roadmap_issues (ex_config ''tags'') = Some (ex_kwargs ''tags'')
   \<and> kw_product_category_mode (ex_kwargs ''tags'') = ''tags''
   \<and> generate_roadmap_deck ex_U sorted_list_of_set [ex_raw (Some None)] (ex_config ''tags'') 0
       = Inl (Exception (invalid_mode_message ''tags''))
   \<and> get_roadmap_issues [ex_raw (Some None)] ''components'' ''Product: '' True
         ''customfield_beta'' \<noteq> Inl (Exception (invalid_mode_message ''components''))"
proof -
  have h: "''tags'' \<noteq> ''components'' \<and> ''tags'' \<noteq> ''labels'' \<and> [ex_raw (Some None)] \<noteq> []"
    by simp
  have k: "jira_roadmap_issues (ex_config ''tags'') = Some (ex_kwargs ''tags'')
           \<and> kw_product_category_mode (ex_kwargs ''tags'') = ''tags''"
    by (simp add: ex_config_def ex_kwargs_def)
  note bad = unknown_mode_raises_on_first_record[where mode = "''tags''"
      and raws = "[ex_raw (Some None)]" and prefix = "''Product: ''" and ib = True
      and name = "''customfield_beta''" and cfg = "ex_config ''tags''"
      and kwargs = "ex_kwargs ''tags''" and U = ex_U and list_of_set = sorted_list_of_set
      and n = "0::nat"]
  note good = unknown_mode_raises_on_first_record[where mode = "''components''"
      and raws = "[ex_raw (Some None)]" and prefix = "''Product: ''" and ib = True
      and name = "''customfield_beta''"]
  from good have
    "get_roadmap_issues [ex_raw (Some None)] ''components'' ''Product: '' True
       ''customfield_beta'' \<noteq> Inl (Exception (invalid_mode_message ''components''))"
    by blast
  with bad h k show ?thesis by blast
qed

text \<open>
  Claim C7 as the specification words it promises the invalid-mode exception for every
  unknown mode. With an empty query result the mode is never examined.
\<close>

theorem unknown_mode_with_empty_query:
  "get_roadmap_issues [] ''tags'' ''Product: '' True ''customfield_beta''
     = Inl (Exception no_issues_message)
   \<and> get_roadmap_issues [] ''tags'' ''Product: '' True ''customfield_beta''
     \<noteq> Inl (Exception (invalid_mode_message ''tags''))"
  using invalid_mode_message_neq[of "''tags''"] by (simp add: get_roadmap_issues_empty)

section \<open>Properties of the column allocation\<close>

subsection \<open>The loop over the columns\<close>

lemma columns_loop_columns:
  "fst (columns_loop U rb w x0 y0 slide issue k cols n)
     = map (\<lambda>col. if jira_quarter issue \<in> set (jira_statuses col)
                    then col\<lparr>count := count col + 1\<rparr> else col) cols"
  by (induction cols arbitrary: k n) (simp_all add: Let_def case_prod_beta)

lemma columns_loop_statuses:
  "map jira_statuses (fst (columns_loop U rb w x0 y0 slide issue k cols n))
     = map jira_statuses cols"
  by (simp add: columns_loop_columns)

lemma columns_loop_count:
  "c < length cols \<Longrightarrow>
   count (fst (columns_loop U rb w x0 y0 slide issue k cols n) ! c)
     = count (cols ! c) + (if jira_quarter issue \<in> set (jira_statuses (cols ! c)) then 1 else 0)"
  by (simp add: columns_loop_columns)

lemma columns_loop_issue_col:
  "map (\<lambda>p. (p_page_id p, p_issue p, p_col_num p))
       (fst (snd (columns_loop U rb w x0 y0 slide issue k cols n)))
     = map (\<lambda>i. (google_slide_id slide, issue, i))
         (filter (\<lambda>i. jira_quarter issue \<in> set (jira_statuses (cols ! (i - k))))
            [k..<k + length cols])"
proof (induction cols arbitrary: k n)
  case Nil
  then show ?case by simp
next
  case (Cons col rest)
  have *: "[k..<k + length (col # rest)] = k # [Suc k..<Suc k + length rest]"
    using upt_conv_Cons[of k "Suc (k + length rest)"] by simp
  have **: "filter (\<lambda>i. jira_quarter issue \<in> set (jira_statuses ((col # rest) ! (i - k))))
              [Suc k..<Suc k + length rest]
          = filter (\<lambda>i. jira_quarter issue \<in> set (jira_statuses (rest ! (i - Suc k))))
              [Suc k..<Suc k + length rest]"
    by (rule filter_cong) (auto simp: nth_Cons' Suc_diff_le)
  show ?case
    unfolding * using Cons.IH[of "Suc k"] **
    by (simp add: Let_def case_prod_beta)
qed

lemma columns_loop_issue_col0:
  "map (\<lambda>p. (p_page_id p, p_issue p, p_col_num p))
       (fst (snd (columns_loop U rb w x0 y0 slide issue 0 cols n)))
     = map (\<lambda>i. (google_slide_id slide, issue, i))
         (filter (\<lambda>i. jira_quarter issue \<in> set (map jira_statuses cols ! i)) [0..<length cols])"
proof -
  have "filter (\<lambda>i. jira_quarter issue \<in> set (jira_statuses (cols ! (i - 0)))) [0..<0 + length cols]
      = filter (\<lambda>i. jira_quarter issue \<in> set (map jira_statuses cols ! i)) [0..<length cols]"
    by (rule filter_cong) auto
  with columns_loop_issue_col[of U rb w x0 y0 slide issue 0 cols n] show ?thesis
    by simp
qed

lemma columns_loop_locy_col:
  "map p_locy (filter (\<lambda>p. p_col_num p = c)
                 (fst (snd (columns_loop U rb w x0 y0 slide issue k cols n))))
     = (if k \<le> c \<and> c < k + length cols
           \<and> jira_quarter issue \<in> set (jira_statuses (cols ! (c - k)))
        then [of_nat (count (cols ! (c - k))) * (rb_height rb + rb_y_padding rb) + y0]
        else [])"
proof (induction cols arbitrary: k n)
  case Nil
  then show ?case by simp
next
  case (Cons col rest)
  show ?case
  proof (cases "c = k")
    case True
    then show ?thesis using Cons.IH[of "Suc k"]
      by (simp add: Let_def case_prod_beta)
  next
    case False
    then show ?thesis using Cons.IH[of "Suc k"]
      by (auto simp: Let_def case_prod_beta nth_Cons' Suc_diff_le)
  qed
qed

lemma columns_loop_args:
  "p \<in> set (fst (snd (columns_loop U rb w x0 y0 slide issue k cols n))) \<Longrightarrow>
     p_width p = w \<and> p_locx p = x0 + (w + rb_x_padding rb) * of_nat (p_col_num p)
     \<and> p_page_id p = google_slide_id slide \<and> p_issue p = issue
     \<and> p_tagline p = summary issue
     \<and> p_description p = slice_to (description issue) (rb_description_length rb)
     \<and> p_link p = jira_link issue \<and> p_beta p = beta issue"
  by (induction cols arbitrary: k n) (auto simp: Let_def case_prod_beta split: if_splits)

lemma columns_loop_shape:
  "p \<in> set (fst (snd (columns_loop U rb w x0 y0 slide issue k cols n))) \<Longrightarrow>
     \<exists>m. (p_roadmap_shape p, p_shape_id p)
            = fst (gen_roadmap_item_req U (p_page_id p) (p_width p) (p_locx p) (p_locy p) rb
                     (p_tagline p) (p_description p) (p_link p) (p_beta p) m)"
proof (induction cols arbitrary: k n)
  case Nil
  then show ?case by simp
next
  case (Cons col rest)
  show ?case
  proof (cases "jira_quarter issue \<in> set (jira_statuses col)")
    case False
    with Cons.prems
    have "p \<in> set (fst (snd (columns_loop U rb w x0 y0 slide issue (Suc k) rest n)))"
      by (simp add: Let_def case_prod_beta)
    then show ?thesis by (rule Cons.IH)
  next
    case True
    let ?g = "gen_roadmap_item_req U (google_slide_id slide) w
                (x0 + (w + rb_x_padding rb) * of_nat k)
                (of_nat (count col) * (rb_height rb + rb_y_padding rb) + y0) rb
                (summary issue) (slice_to (description issue) (rb_description_length rb))
                (jira_link issue) (beta issue) n"
    from True Cons.prems consider
        (here) "p_roadmap_shape p = fst (fst ?g)" "p_shape_id p = snd (fst ?g)"
          "p_page_id p = google_slide_id slide" "p_width p = w"
          "p_locx p = x0 + (w + rb_x_padding rb) * of_nat k"
          "p_locy p = of_nat (count col) * (rb_height rb + rb_y_padding rb) + y0"
          "p_tagline p = summary issue"
          "p_description p = slice_to (description issue) (rb_description_length rb)"
          "p_link p = jira_link issue" "p_beta p = beta issue"
      | (later) "p \<in> set (fst (snd (columns_loop U rb w x0 y0 slide issue (Suc k) rest
                                       (snd ?g))))"
      by (auto simp: Let_def case_prod_beta)
    then show ?thesis
    proof cases
      case here
      have "(p_roadmap_shape p, p_shape_id p) = fst ?g"
        using here(1,2) by (simp add: prod_eq_iff)
      then show ?thesis unfolding here(3-10) by blast
    next
      case later
      then show ?thesis by (rule Cons.IH)
    qed
  qed
qed

subsection \<open>The loop over the issues of one slide\<close>

lemma issues_loop_statuses:
  "map jira_statuses (fst (issues_loop U rb w x0 y0 slide issues cols n))
     = map jira_statuses cols"
  by (induction issues arbitrary: cols n)
     (simp_all add: Let_def case_prod_beta columns_loop_statuses)

lemma issues_loop_issue_col:
  "map (\<lambda>p. (p_page_id p, p_issue p, p_col_num p))
       (fst (snd (issues_loop U rb w x0 y0 slide issues cols n)))
     = concat (map (\<lambda>issue.
         if product_category slide \<in> set (product_categories issue)
         then map (\<lambda>i. (google_slide_id slide, issue, i))
                (filter (\<lambda>i. jira_quarter issue \<in> set (map jira_statuses cols ! i))
                   [0..<length cols])
         else []) issues)"
proof (induction issues arbitrary: cols n)
  case Nil
  then show ?case by simp
next
  case (Cons issue rest)
  show ?case
  proof (cases "product_category slide \<in> set (product_categories issue)")
    case False
    then show ?thesis using Cons.IH[of cols n] by simp
  next
    case True
    let ?r = "columns_loop U rb w x0 y0 slide issue 0 cols n"
    have len: "length (fst ?r) = length cols"
      using columns_loop_statuses[of U rb w x0 y0 slide issue 0 cols n]
      by (metis length_map)
    have st: "map jira_statuses (fst ?r) = map jira_statuses cols"
      by (rule columns_loop_statuses)
    note ih = Cons.IH[of "fst ?r" "snd (snd ?r)", unfolded st len]
    show ?thesis
      using True ih columns_loop_issue_col0[of U rb w x0 y0 slide issue cols n]
      by (simp add: Let_def case_prod_beta)
  qed
qed

lemma issues_loop_locy_col:
  assumes "c < length cols"
  shows "map p_locy (filter (\<lambda>p. p_col_num p = c)
                       (fst (snd (issues_loop U rb w x0 y0 slide issues cols n))))
     = map (\<lambda>j. of_nat (count (cols ! c) + j) * (rb_height rb + rb_y_padding rb) + y0)
         [0..<length (filter (\<lambda>issue. product_category slide \<in> set (product_categories issue)
                                \<and> jira_quarter issue \<in> set (map jira_statuses cols ! c)) issues)]"
  using assms
proof (induction issues arbitrary: cols n)
  case Nil
  then show ?case by simp
next
  case (Cons issue rest)
  show ?case
  proof (cases "product_category slide \<in> set (product_categories issue)")
    case False
    then show ?thesis using Cons.IH[of cols n] Cons.prems by simp
  next
    case True
    let ?r = "columns_loop U rb w x0 y0 slide issue 0 cols n"
    let ?h = "rb_height rb + rb_y_padding rb"
    let ?m = "length (filter (\<lambda>issue. product_category slide \<in> set (product_categories issue)
                                \<and> jira_quarter issue \<in> set (map jira_statuses cols ! c)) rest)"
    have st: "map jira_statuses (fst ?r) = map jira_statuses cols"
      by (rule columns_loop_statuses)
    then have len: "length (fst ?r) = length cols"
      by (metis length_map)
    have ih: "map p_locy (filter (\<lambda>p. p_col_num p = c)
                (fst (snd (issues_loop U rb w x0 y0 slide rest (fst ?r) (snd (snd ?r))))))
            = map (\<lambda>j. of_nat (count (fst ?r ! c) + j) * ?h + y0) [0..<?m]"
      using Cons.IH[of "fst ?r" "snd (snd ?r)"] Cons.prems len st by simp
    have cnt: "count (fst ?r ! c)
                 = count (cols ! c)
                   + (if jira_quarter issue \<in> set (jira_statuses (cols ! c)) then 1 else 0)"
      using Cons.prems by (rule columns_loop_count)
    have here: "map p_locy (filter (\<lambda>p. p_col_num p = c) (fst (snd ?r)))
                  = (if jira_quarter issue \<in> set (jira_statuses (cols ! c))
                     then [of_nat (count (cols ! c)) * ?h + y0] else [])"
      using columns_loop_locy_col[of c U rb w x0 y0 slide issue 0 cols n] Cons.prems by simp
    have nth: "map jira_statuses cols ! c = jira_statuses (cols ! c)"
      using Cons.prems by simp
    show ?thesis
    proof (cases "jira_quarter issue \<in> set (jira_statuses (cols ! c))")
      case False
      then show ?thesis using True ih cnt here nth
        by (simp add: Let_def case_prod_beta)
    next
      case q: True
      have shift: "map (\<lambda>j. of_nat (count (cols ! c) + j) * ?h + y0) [0..<Suc ?m]
                 = (of_nat (count (cols ! c)) * ?h + y0)
                     # map (\<lambda>j. of_nat (count (cols ! c) + 1 + j) * ?h + y0) [0..<?m]"
        by (simp only: map_upt_Suc) simp
      show ?thesis using True q ih cnt here nth shift
        by (simp add: Let_def case_prod_beta)
    qed
  qed
qed

lemma columns_loop_issue_locy_col:
  "map (\<lambda>p. (p_issue p, p_locy p))
       (filter (\<lambda>p. p_col_num p = c)
          (fst (snd (columns_loop U rb w x0 y0 slide issue k cols n))))
     = (if k \<le> c \<and> c < k + length cols
           \<and> jira_quarter issue \<in> set (jira_statuses (cols ! (c - k)))
        then [(issue, of_nat (count (cols ! (c - k))) * (rb_height rb + rb_y_padding rb) + y0)]
        else [])"
proof -
  let ?ps = "filter (\<lambda>p. p_col_num p = c)
               (fst (snd (columns_loop U rb w x0 y0 slide issue k cols n)))"
  have "map (\<lambda>p. (p_issue p, p_locy p)) ?ps = map (\<lambda>p. (issue, p_locy p)) ?ps"
    by (rule map_cong) (use columns_loop_args[of _ U rb w x0 y0 slide issue k cols n] in auto)
  also have "\<dots> = map (\<lambda>y. (issue, y)) (map p_locy ?ps)"
    by simp
  finally show ?thesis
    unfolding columns_loop_locy_col by simp
qed

lemma issues_loop_issue_locy_col:
  assumes "c < length cols"
  shows "map (\<lambda>p. (p_issue p, p_locy p))
           (filter (\<lambda>p. p_col_num p = c)
              (fst (snd (issues_loop U rb w x0 y0 slide issues cols n))))
     = zip (filter (\<lambda>issue. product_category slide \<in> set (product_categories issue)
                      \<and> jira_quarter issue \<in> set (map jira_statuses cols ! c)) issues)
         (map (\<lambda>j. of_nat (count (cols ! c) + j) * (rb_height rb + rb_y_padding rb) + y0)
            [0..<length (filter (\<lambda>issue. product_category slide \<in> set (product_categories issue)
                               \<and> jira_quarter issue \<in> set (map jira_statuses cols ! c)) issues)])"
  using assms
proof (induction issues arbitrary: cols n)
  case Nil
  then show ?case by simp
next
  case (Cons issue rest)
  show ?case
  proof (cases "product_category slide \<in> set (product_categories issue)")
    case False
    then show ?thesis using Cons.IH[of cols n] Cons.prems by simp
  next
    case True
    let ?r = "columns_loop U rb w x0 y0 slide issue 0 cols n"
    let ?h = "rb_height rb + rb_y_padding rb"
    let ?P = "\<lambda>issue. product_category slide \<in> set (product_categories issue)
                \<and> jira_quarter issue \<in> set (map jira_statuses cols ! c)"
    let ?m = "length (filter ?P rest)"
    have st: "map jira_statuses (fst ?r) = map jira_statuses cols"
      by (rule columns_loop_statuses)
    then have len: "length (fst ?r) = length cols"
      by (metis length_map)
    have ih: "map (\<lambda>p. (p_issue p, p_locy p)) (filter (\<lambda>p. p_col_num p = c)
                (fst (snd (issues_loop U rb w x0 y0 slide rest (fst ?r) (snd (snd ?r))))))
            = zip (filter ?P rest)
                (map (\<lambda>j. of_nat (count (fst ?r ! c) + j) * ?h + y0) [0..<?m])"
      using Cons.IH[of "fst ?r" "snd (snd ?r)"] Cons.prems len st by simp
    have cnt: "count (fst ?r ! c)
                 = count (cols ! c)
                   + (if jira_quarter issue \<in> set (jira_statuses (cols ! c)) then 1 else 0)"
      using Cons.prems by (rule columns_loop_count)
    have here: "map (\<lambda>p. (p_issue p, p_locy p)) (filter (\<lambda>p. p_col_num p = c) (fst (snd ?r)))
                  = (if jira_quarter issue \<in> set (jira_statuses (cols ! c))
                     then [(issue, of_nat (count (cols ! c)) * ?h + y0)] else [])"
      using columns_loop_issue_locy_col[of c U rb w x0 y0 slide issue 0 cols n] Cons.prems
      by simp
    have nth: "map jira_statuses cols ! c = jira_statuses (cols ! c)"
      using Cons.prems by simp
    show ?thesis
    proof (cases "jira_quarter issue \<in> set (jira_statuses (cols ! c))")
      case False
      then show ?thesis using True ih cnt here nth
        by (simp add: Let_def case_prod_beta)
    next
      case q: True
      have shift: "map (\<lambda>j. of_nat (count (cols ! c) + j) * ?h + y0) [0..<Suc ?m]
                 = (of_nat (count (cols ! c)) * ?h + y0)
                     # map (\<lambda>j. of_nat (count (cols ! c) + 1 + j) * ?h + y0) [0..<?m]"
        by (simp only: map_upt_Suc) simp
      show ?thesis using True q ih cnt here nth shift
        by (simp add: Let_def case_prod_beta)
    qed
  qed
qed

lemma issues_loop_args:
  "p \<in> set (fst (snd (issues_loop U rb w x0 y0 slide issues cols n))) \<Longrightarrow>
     p_issue p \<in> set issues
     \<and> product_category slide \<in> set (product_categories (p_issue p))
     \<and> p_width p = w \<and> p_locx p = x0 + (w + rb_x_padding rb) * of_nat (p_col_num p)
     \<and> p_page_id p = google_slide_id slide
     \<and> p_tagline p = summary (p_issue p)
     \<and> p_description p = slice_to (description (p_issue p)) (rb_description_length rb)
     \<and> p_link p = jira_link (p_issue p) \<and> p_beta p = beta (p_issue p)
     \<and> (\<exists>m. (p_roadmap_shape p, p_shape_id p)
            = fst (gen_roadmap_item_req U (p_page_id p) (p_width p) (p_locx p) (p_locy p) rb
                     (p_tagline p) (p_description p) (p_link p) (p_beta p) m))"
proof (induction issues arbitrary: cols n)
  case Nil
  then show ?case by simp
next
  case (Cons issue rest)
  show ?case
  proof (cases "product_category slide \<in> set (product_categories issue)")
    case False
    with Cons.prems
    have "p \<in> set (fst (snd (issues_loop U rb w x0 y0 slide rest cols n)))"
      by simp
    from Cons.IH[OF this] show ?thesis by auto
  next
    case True
    let ?r = "columns_loop U rb w x0 y0 slide issue 0 cols n"
    from True Cons.prems consider
        (here) "p \<in> set (fst (snd ?r))"
      | (later) "p \<in> set (fst (snd (issues_loop U rb w x0 y0 slide rest (fst ?r)
                                       (snd (snd ?r)))))"
      by (auto simp: Let_def case_prod_beta)
    then show ?thesis
    proof cases
      case here
      from columns_loop_args[OF here] columns_loop_shape[OF here] True
      show ?thesis by simp
    next
      case later
      from Cons.IH[OF later] show ?thesis by auto
    qed
  qed
qed

subsection \<open>The loop over the slides\<close>

lemma reset_statuses:
  "map jira_statuses (map (\<lambda>col. col\<lparr>count := 0\<rparr>) cols) = map jira_statuses cols"
  by simp

lemma slides_loop_statuses:
  "map jira_statuses (fst (slides_loop U rb w x0 y0 issues slides cols n))
     = map jira_statuses cols"
  by (induction slides arbitrary: cols n)
     (simp_all add: Let_def case_prod_beta issues_loop_statuses)

lemma length_eq_of_statuses:
  "map jira_statuses cols' = map jira_statuses cols \<Longrightarrow> length cols' = length cols"
  by (metis length_map)

lemma slides_loop_issue_col:
  "map (\<lambda>p. (p_page_id p, p_issue p, p_col_num p))
       (fst (snd (slides_loop U rb w x0 y0 issues slides cols n)))
     = concat (map (\<lambda>slide. concat (map (\<lambda>issue.
         if product_category slide \<in> set (product_categories issue)
         then map (\<lambda>i. (google_slide_id slide, issue, i))
                (filter (\<lambda>i. jira_quarter issue \<in> set (map jira_statuses cols ! i))
                   [0..<length cols])
         else []) issues)) slides)"
proof (induction slides arbitrary: cols n)
  case Nil
  then show ?case by simp
next
  case (Cons slide rest)
  let ?c0 = "map (\<lambda>col. col\<lparr>count := 0\<rparr>) cols"
  let ?r = "issues_loop U rb w x0 y0 slide issues ?c0 n"
  have st0: "map jira_statuses ?c0 = map jira_statuses cols"
    by (rule reset_statuses)
  have len0: "length ?c0 = length cols" by simp
  have st: "map jira_statuses (fst ?r) = map jira_statuses cols"
    using issues_loop_statuses[of U rb w x0 y0 slide issues ?c0 n] st0 by simp
  have len: "length (fst ?r) = length cols"
    using st by (rule length_eq_of_statuses)
  note ih = Cons.IH[of "fst ?r" "snd (snd ?r)", unfolded st len]
  note here = issues_loop_issue_col[of U rb w x0 y0 slide issues ?c0 n, unfolded st0 len0]
  show ?case using ih here by (simp add: Let_def case_prod_beta)
qed

lemma slides_loop_args:
  "p \<in> set (fst (snd (slides_loop U rb w x0 y0 issues slides cols n))) \<Longrightarrow>
     \<exists>slide \<in> set slides.
       p_issue p \<in> set issues
     \<and> product_category slide \<in> set (product_categories (p_issue p))
     \<and> p_width p = w \<and> p_locx p = x0 + (w + rb_x_padding rb) * of_nat (p_col_num p)
     \<and> p_page_id p = google_slide_id slide
     \<and> p_tagline p = summary (p_issue p)
     \<and> p_description p = slice_to (description (p_issue p)) (rb_description_length rb)
     \<and> p_link p = jira_link (p_issue p) \<and> p_beta p = beta (p_issue p)
     \<and> (\<exists>m. (p_roadmap_shape p, p_shape_id p)
            = fst (gen_roadmap_item_req U (p_page_id p) (p_width p) (p_locx p) (p_locy p) rb
                     (p_tagline p) (p_description p) (p_link p) (p_beta p) m))"
proof (induction slides arbitrary: cols n)
  case Nil
  then show ?case by simp
next
  case (Cons slide rest)
  let ?c0 = "map (\<lambda>col. col\<lparr>count := 0\<rparr>) cols"
  let ?r = "issues_loop U rb w x0 y0 slide issues ?c0 n"
  from Cons.prems consider
      (here) "p \<in> set (fst (snd ?r))"
    | (later) "p \<in> set (fst (snd (slides_loop U rb w x0 y0 issues rest (fst ?r)
                                     (snd (snd ?r)))))"
    by (auto simp: Let_def case_prod_beta)
  then show ?case
  proof cases
    case here
    from issues_loop_args[OF here] show ?thesis by auto
  next
    case later
    from Cons.IH[OF later] show ?thesis by auto
  qed
qed

lemma slides_loop_segments:
  "\<exists>segs. fst (snd (slides_loop U rb w x0 y0 issues slides cols n)) = concat segs
     \<and> length segs = length slides
     \<and> (\<forall>i < length slides.
          (\<forall>p \<in> set (segs ! i). p_page_id p = google_slide_id (slides ! i))
        \<and> (\<forall>c < length cols.
              map (\<lambda>p. (p_issue p, p_locy p)) (filter (\<lambda>p. p_col_num p = c) (segs ! i))
                = zip (filter (\<lambda>issue.
                         product_category (slides ! i) \<in> set (product_categories issue)
                         \<and> jira_quarter issue \<in> set (map jira_statuses cols ! c)) issues)
                    (map (\<lambda>j. of_nat j * (rb_height rb + rb_y_padding rb) + y0)
                       [0..<length (filter (\<lambda>issue.
                         product_category (slides ! i) \<in> set (product_categories issue)
                         \<and> jira_quarter issue \<in> set (map jira_statuses cols ! c)) issues)])))"
proof (induction slides arbitrary: cols n)
  case Nil
  show ?case by (rule exI[of _ "[]"]) simp
next
  case (Cons slide rest)
  let ?c0 = "map (\<lambda>col. col\<lparr>count := 0\<rparr>) cols"
  let ?r = "issues_loop U rb w x0 y0 slide issues ?c0 n"
  let ?h = "rb_height rb + rb_y_padding rb"
  let ?P = "\<lambda>s c issue. product_category s \<in> set (product_categories issue)
                \<and> jira_quarter issue \<in> set (map jira_statuses cols ! c)"
  have st0: "map jira_statuses ?c0 = map jira_statuses cols"
    by (rule reset_statuses)
  have st: "map jira_statuses (fst ?r) = map jira_statuses cols"
    using issues_loop_statuses[of U rb w x0 y0 slide issues ?c0 n] st0 by simp
  have len: "length (fst ?r) = length cols"
    using st by (rule length_eq_of_statuses)
  from Cons.IH[of "fst ?r" "snd (snd ?r)", unfolded st len]
  obtain segs where segs:
    "fst (snd (slides_loop U rb w x0 y0 issues rest (fst ?r) (snd (snd ?r)))) = concat segs"
    "length segs = length rest"
    "\<forall>i < length rest.
          (\<forall>p \<in> set (segs ! i). p_page_id p = google_slide_id (rest ! i))
        \<and> (\<forall>c < length cols.
              map (\<lambda>p. (p_issue p, p_locy p)) (filter (\<lambda>p. p_col_num p = c) (segs ! i))
                = zip (filter (?P (rest ! i) c) issues)
                    (map (\<lambda>j. of_nat j * ?h + y0)
                       [0..<length (filter (?P (rest ! i) c) issues)]))"
    by blast
  have page: "\<forall>p \<in> set (fst (snd ?r)). p_page_id p = google_slide_id slide"
    using issues_loop_args[of _ U rb w x0 y0 slide issues ?c0 n] by blast
  have locy: "\<forall>c < length cols.
      map (\<lambda>p. (p_issue p, p_locy p)) (filter (\<lambda>p. p_col_num p = c) (fst (snd ?r)))
        = zip (filter (?P slide c) issues)
            (map (\<lambda>j. of_nat j * ?h + y0) [0..<length (filter (?P slide c) issues)])"
  proof (intro allI impI)
    fix c assume c: "c < length cols"
    then have "c < length ?c0" by simp
    from issues_loop_issue_locy_col[OF this, of U rb w x0 y0 slide issues n, unfolded st0] c
    show "map (\<lambda>p. (p_issue p, p_locy p)) (filter (\<lambda>p. p_col_num p = c) (fst (snd ?r)))
        = zip (filter (?P slide c) issues)
            (map (\<lambda>j. of_nat j * ?h + y0) [0..<length (filter (?P slide c) issues)])"
      by simp
  qed
  show ?case
  proof (intro exI[of _ "fst (snd ?r) # segs"] conjI allI impI)
    show "fst (snd (slides_loop U rb w x0 y0 issues (slide # rest) cols n))
            = concat (fst (snd ?r) # segs)"
      using segs(1) by (simp add: Let_def case_prod_beta)
    show "length (fst (snd ?r) # segs) = length (slide # rest)"
      using segs(2) by simp
  next
    fix i assume "i < length (slide # rest)"
    then show "\<forall>p \<in> set ((fst (snd ?r) # segs) ! i).
                 p_page_id p = google_slide_id ((slide # rest) ! i)"
      using page segs(3) by (cases i) simp_all
  next
    fix i c assume "i < length (slide # rest)" "c < length cols"
    then show "map (\<lambda>p. (p_issue p, p_locy p))
                   (filter (\<lambda>p. p_col_num p = c) ((fst (snd ?r) # segs) ! i))
                = zip (filter (\<lambda>issue.
                         product_category ((slide # rest) ! i) \<in> set (product_categories issue)
                         \<and> jira_quarter issue \<in> set (map jira_statuses cols ! c)) issues)
                    (map (\<lambda>j. of_nat j * ?h + y0)
                       [0..<length (filter (\<lambda>issue.
                         product_category ((slide # rest) ! i) \<in> set (product_categories issue)
                         \<and> jira_quarter issue \<in> set (map jira_statuses cols ! c)) issues)])"
      using locy segs(3) by (cases i) simp_all
  qed
qed

subsection \<open>The whole of the allocation\<close>

lemma populate_Inr:
  assumes "roadmap_box cfg = Some rb" "timeline_arrow cfg = Some ta"
    "left_header cfg = Some lh" "columns cfg = Some cols" "cols \<noteq> []"
  shows "populate_roadmap_with_issues U slides cfg issues n
     = (let r = slides_loop U rb
                  ((ta_width ta - rb_x_padding rb * of_nat (length cols + 1))
                     / of_nat (length cols))
                  (lh_locx lh + lh_width lh + rb_x_padding rb)
                  (lh_locy lh + lh_height lh) issues slides cols n
        in Inr (fst (snd r), fst r, snd (snd r)))"
  using assms
  by (simp add: populate_roadmap_with_issues_def dict_get_def Let_def case_prod_beta)

lemma populate_errors:
  "populate_roadmap_with_issues U slides cfg issues n = Inl e \<Longrightarrow>
     e = KeyError ''roadmap_box'' \<and> roadmap_box cfg = None
   \<or> e = KeyError ''timeline_arrow'' \<and> timeline_arrow cfg = None
   \<or> e = KeyError ''left_header'' \<and> left_header cfg = None
   \<or> e = KeyError ''columns'' \<and> columns cfg = None
   \<or> e = ZeroDivisionError \<and> columns cfg = Some []"
  by (auto simp: populate_roadmap_with_issues_def dict_get_def Let_def case_prod_beta
           split: option.splits if_splits)

section \<open>Properties of the request builders\<close>

subsection \<open>Roadmap item box\<close>

lemma item_request_body_length:
  "length (item_request_body rb element_id page_id ptHeight ptWidth locx locy tagline descr link)
     = 6"
  by (simp add: item_request_body_def)

lemma beta_flag_req_body_length:
  "length (beta_flag_req_body rb beta_flag_element_id page_id width locx locy) = 5"
  by (simp add: beta_flag_req_body_def)

lemma gen_roadmap_item_req_body:
  "fst (fst (gen_roadmap_item_req U page_id width locx locy rb tagline descr link b n))
     = item_request_body rb (U n) page_id
         (JObj [(''magnitude'', JNum (rb_height rb)), (''unit'', JStr ''PT'')])
         (JObj [(''magnitude'', JNum width), (''unit'', JStr ''PT'')])
         locx locy tagline descr link
       @ (if b then beta_flag_req_body rb (U (n + 1)) page_id width locx locy else [])"
  by (simp add: gen_roadmap_item_req_def Let_def)

lemma item_request_body_createShape:
  "filter (\<lambda>j. jget j ''createShape'' \<noteq> None)
     (item_request_body rb element_id page_id ptHeight ptWidth locx locy tagline descr link)
   = [item_request_body rb element_id page_id ptHeight ptWidth locx locy tagline descr link ! 0]"
  by (simp add: item_request_body_def)

lemma beta_flag_req_body_createShape:
  "filter (\<lambda>j. jget j ''createShape'' \<noteq> None)
     (beta_flag_req_body rb beta_flag_element_id page_id width locx locy)
   = [beta_flag_req_body rb beta_flag_element_id page_id width locx locy ! 0]"
  by (simp add: beta_flag_req_body_def)

lemma item_request_body_box:
  "jpath (item_request_body rb element_id page_id ptHeight ptWidth locx locy tagline descr link ! 0)
     [''createShape'', ''objectId''] = Some (JStr element_id)"
  "jpath (item_request_body rb element_id page_id ptHeight ptWidth locx locy tagline descr link ! 0)
     [''createShape'', ''elementProperties'', ''pageObjectId''] = Some (JStr page_id)"
  "jpath (item_request_body rb element_id page_id ptHeight ptWidth locx locy tagline descr link ! 0)
     [''createShape'', ''elementProperties'', ''size'', ''width''] = Some ptWidth"
  "jpath (item_request_body rb element_id page_id ptHeight ptWidth locx locy tagline descr link ! 0)
     [''createShape'', ''elementProperties'', ''transform'', ''translateX''] = Some (JNum locx)"
  "jpath (item_request_body rb element_id page_id ptHeight ptWidth locx locy tagline descr link ! 0)
     [''createShape'', ''elementProperties'', ''transform'', ''translateY''] = Some (JNum locy)"
  by (simp_all add: item_request_body_def)

lemma item_request_body_text:
  "jpath (item_request_body rb element_id page_id ptHeight ptWidth locx locy tagline descr link ! 2)
     [''insertText'', ''objectId''] = Some (JStr element_id)"
  "jpath (item_request_body rb element_id page_id ptHeight ptWidth locx locy tagline descr link ! 2)
     [''insertText'', ''text''] = Some (JStr (tagline @ [CHR 0x0A] @ descr))"
  by (simp_all add: item_request_body_def)

lemma item_request_body_bold:
  "filter (\<lambda>j. jpath j [''updateTextStyle'', ''style'', ''bold''] = Some (JBool True))
     (item_request_body rb element_id page_id ptHeight ptWidth locx locy tagline descr link)
   = [item_request_body rb element_id page_id ptHeight ptWidth locx locy tagline descr link ! 5]"
  "jpath (item_request_body rb element_id page_id ptHeight ptWidth locx locy tagline descr link ! 5)
     [''updateTextStyle'', ''objectId''] = Some (JStr element_id)"
  "jpath (item_request_body rb element_id page_id ptHeight ptWidth locx locy tagline descr link ! 5)
     [''updateTextStyle'', ''textRange'']
   = Some (JObj [(''endIndex'', JNum (of_nat (length tagline))), (''startIndex'', JNum 0),
                 (''type'', JStr ''FIXED_RANGE'')])"
  by (simp_all add: item_request_body_def)

lemma beta_flag_req_body_bold:
  "filter (\<lambda>j. jpath j [''updateTextStyle'', ''style'', ''bold''] = Some (JBool True))
     (beta_flag_req_body rb beta_flag_element_id page_id width locx locy) = []"
  by (simp add: beta_flag_req_body_def)

lemma beta_flag_req_body_badge:
  "jpath (beta_flag_req_body rb beta_flag_element_id page_id width locx locy ! 0)
     [''createShape'', ''objectId''] = Some (JStr beta_flag_element_id)"
  "jpath (beta_flag_req_body rb beta_flag_element_id page_id width locx locy ! 0)
     [''createShape'', ''shapeType''] = Some (JStr ''FLOW_CHART_TERMINATOR'')"
  "jpath (beta_flag_req_body rb beta_flag_element_id page_id width locx locy ! 0)
     [''createShape'', ''elementProperties'', ''pageObjectId''] = Some (JStr page_id)"
  "jpath (beta_flag_req_body rb beta_flag_element_id page_id width locx locy ! 0)
     [''createShape'', ''elementProperties'', ''transform'', ''translateX'']
   = Some (JNum (locx + width * 6 / 7 - 2))"
  "jpath (beta_flag_req_body rb beta_flag_element_id page_id width locx locy ! 0)
     [''createShape'', ''elementProperties'', ''transform'', ''translateY'']
   = Some (JNum (locy + 2))"
  by (simp_all add: beta_flag_req_body_def)

lemma populate_placement:
  assumes "populate_roadmap_with_issues U slides cfg issues n = Inr (ps, cols', n')"
    and "p \<in> set ps"
  shows "\<exists>rb ta lh cols slide m.
       roadmap_box cfg = Some rb \<and> timeline_arrow cfg = Some ta \<and> left_header cfg = Some lh
     \<and> columns cfg = Some cols \<and> cols \<noteq> [] \<and> slide \<in> set slides
     \<and> p_issue p \<in> set issues
     \<and> product_category slide \<in> set (product_categories (p_issue p))
     \<and> p_width p = (ta_width ta - rb_x_padding rb * of_nat (length cols + 1))
                      / of_nat (length cols)
     \<and> p_locx p = lh_locx lh + lh_width lh + rb_x_padding rb
                    + (p_width p + rb_x_padding rb) * of_nat (p_col_num p)
     \<and> p_page_id p = google_slide_id slide
     \<and> p_tagline p = summary (p_issue p)
     \<and> p_description p = slice_to (description (p_issue p)) (rb_description_length rb)
     \<and> p_link p = jira_link (p_issue p) \<and> p_beta p = beta (p_issue p)
     \<and> p_roadmap_shape p
         = fst (fst (gen_roadmap_item_req U (p_page_id p) (p_width p) (p_locx p) (p_locy p) rb
                       (summary (p_issue p))
                       (slice_to (description (p_issue p)) (rb_description_length rb))
                       (jira_link (p_issue p)) (beta (p_issue p)) m))"
proof -
  from assms(1) obtain rb ta lh cols where cfg:
    "roadmap_box cfg = Some rb" "timeline_arrow cfg = Some ta" "left_header cfg = Some lh"
    "columns cfg = Some cols" "cols \<noteq> []"
    by (auto simp: populate_roadmap_with_issues_def dict_get_def
             split: option.splits if_splits)
  let ?w = "(ta_width ta - rb_x_padding rb * of_nat (length cols + 1)) / of_nat (length cols)"
  let ?x0 = "lh_locx lh + lh_width lh + rb_x_padding rb"
  let ?y0 = "lh_locy lh + lh_height lh"
  from assms(1) have "ps = fst (snd (slides_loop U rb ?w ?x0 ?y0 issues slides cols n))"
    unfolding populate_Inr[OF cfg] by (simp add: Let_def)
  with assms(2) have "p \<in> set (fst (snd (slides_loop U rb ?w ?x0 ?y0 issues slides cols n)))"
    by simp
  from slides_loop_args[OF this] obtain slide m where s:
    "slide \<in> set slides" "p_issue p \<in> set issues"
    "product_category slide \<in> set (product_categories (p_issue p))"
    "p_width p = ?w" "p_locx p = ?x0 + (?w + rb_x_padding rb) * of_nat (p_col_num p)"
    "p_page_id p = google_slide_id slide" "p_tagline p = summary (p_issue p)"
    "p_description p = slice_to (description (p_issue p)) (rb_description_length rb)"
    "p_link p = jira_link (p_issue p)" "p_beta p = beta (p_issue p)"
    "(p_roadmap_shape p, p_shape_id p)
       = fst (gen_roadmap_item_req U (p_page_id p) (p_width p) (p_locx p) (p_locy p) rb
                (p_tagline p) (p_description p) (p_link p) (p_beta p) m)"
    by blast
  from s(11) have shape: "p_roadmap_shape p
       = fst (fst (gen_roadmap_item_req U (p_page_id p) (p_width p) (p_locx p) (p_locy p) rb
                (summary (p_issue p))
                (slice_to (description (p_issue p)) (rb_description_length rb))
                (jira_link (p_issue p)) (beta (p_issue p)) m))"
    unfolding s(7-10) by (metis fst_conv)
  show ?thesis
    using cfg s(1-3) s(4) s(5)[folded s(4)] s(6-10) shape by blast
qed

lemma gen_roadmap_item_req_badge:
  assumes "body = fst (fst (gen_roadmap_item_req U page_id width locx locy rb tagline descr
                              link b n))"
  shows "length body = (if b then 11 else 6)"
    and "length (filter (\<lambda>j. jget j ''createShape'' \<noteq> None) body) = (if b then 2 else 1)"
    and "filter (\<lambda>j. jget j ''createShape'' \<noteq> None) body
           = (if b then [body ! 0, body ! 6] else [body ! 0])"
    and "jpath (body ! 0) [''createShape'', ''objectId''] = Some (JStr (U n))"
    and "jpath (body ! 0) [''createShape'', ''elementProperties'', ''pageObjectId'']
           = Some (JStr page_id)"
    and "jpath (body ! 0) [''createShape'', ''elementProperties'', ''size'', ''width'']
           = Some (JObj [(''magnitude'', JNum width), (''unit'', JStr ''PT'')])"
    and "jpath (body ! 0) [''createShape'', ''elementProperties'', ''transform'', ''translateX'']
           = Some (JNum locx)"
    and "jpath (body ! 0) [''createShape'', ''elementProperties'', ''transform'', ''translateY'']
           = Some (JNum locy)"
    and "b \<Longrightarrow> jpath (body ! 6) [''createShape'', ''objectId''] = Some (JStr (U (n + 1)))"
    and "b \<Longrightarrow> jpath (body ! 6) [''createShape'', ''shapeType'']
                 = Some (JStr ''FLOW_CHART_TERMINATOR'')"
    and "b \<Longrightarrow> jpath (body ! 6) [''createShape'', ''elementProperties'', ''pageObjectId'']
                 = Some (JStr page_id)"
    and "b \<Longrightarrow> jpath (body ! 6)
                   [''createShape'', ''elementProperties'', ''transform'', ''translateX'']
                 = Some (JNum (locx + width * 6 / 7 - 2))"
    and "b \<Longrightarrow> jpath (body ! 6)
                   [''createShape'', ''elementProperties'', ''transform'', ''translateY'']
                 = Some (JNum (locy + 2))"
  unfolding assms gen_roadmap_item_req_body
  by (simp_all add: item_request_body_length beta_flag_req_body_length nth_append
        item_request_body_createShape beta_flag_req_body_createShape
        item_request_body_box beta_flag_req_body_badge
      del: not_None_eq jpath.simps)

lemma gen_roadmap_item_req_text:
  assumes "body = fst (fst (gen_roadmap_item_req U page_id width locx locy rb tagline descr
                              link b n))"
  shows "jpath (body ! 2) [''insertText'', ''objectId''] = Some (JStr (U n))"
    and "jpath (body ! 2) [''insertText'', ''text''] = Some (JStr (tagline @ [CHR 0x0A] @ descr))"
    and "filter (\<lambda>j. jpath j [''updateTextStyle'', ''style'', ''bold''] = Some (JBool True)) body
           = [body ! 5]"
    and "jpath (body ! 5) [''updateTextStyle'', ''objectId''] = Some (JStr (U n))"
    and "jpath (body ! 5) [''updateTextStyle'', ''textRange'']
           = Some (JObj [(''endIndex'', JNum (of_nat (length tagline))),
                         (''startIndex'', JNum 0), (''type'', JStr ''FIXED_RANGE'')])"
  unfolding assms gen_roadmap_item_req_body
  by (simp_all add: item_request_body_length nth_append item_request_body_text
        item_request_body_bold beta_flag_req_body_bold
      del: not_None_eq jpath.simps)

lemma slice_to_nonneg:
  "0 \<le> k \<Longrightarrow> slice_to s k = take (nat k) s \<and> int (length (slice_to s k)) \<le> k"
  by (simp add: slice_to_def)

lemma slice_to_neg:
  "k < 0 \<Longrightarrow> slice_to s k = take (length s - nat (- k)) s"
  by (simp add: slice_to_def)

lemma ex_run_beta:
  "\<exists>ps cols' n' p.
      populate_roadmap_with_issues ex_U [ex_slide] (ex_config ''components'')
        [ex_issue ''RM-1'' ''Search'' ''Q3'' True] 0 = Inr (ps, cols', n')
    \<and> ps = [p] \<and> p_issue p = ex_issue ''RM-1'' ''Search'' ''Q3'' True
    \<and> p_col_num p = 2 \<and> p_width p = 175 \<and> p_locx p = 520 \<and> p_locy p = 90
    \<and> p_description p = ''Descr''"
  by (simp add: populate_roadmap_with_issues_def dict_get_def ex_config_def ex_columns_def
        ex_slide_def ex_issue_def ex_roadmap_box_def ex_timeline_arrow_def ex_left_header_def
        slice_to_def Let_def case_prod_beta)

lemma ex_run_negative_length:
  "\<exists>ps cols' n' p.
      populate_roadmap_with_issues ex_U [ex_slide]
        ((ex_config ''components'')
           \<lparr>roadmap_box := Some (ex_roadmap_box\<lparr>rb_description_length := - 1\<rparr>)\<rparr>)
        [ex_issue ''RM-1'' ''Search'' ''Q3'' False] 0 = Inr (ps, cols', n')
    \<and> ps = [p] \<and> p_issue p = ex_issue ''RM-1'' ''Search'' ''Q3'' False
    \<and> p_description p = ''Describes RM-''"
  by (simp add: populate_roadmap_with_issues_def dict_get_def ex_config_def ex_columns_def
        ex_slide_def ex_issue_def ex_roadmap_box_def ex_timeline_arrow_def ex_left_header_def
        slice_to_def Let_def case_prod_beta)

subsection \<open>Beta badge\<close>

text \<open>
  Claim C8. The request body built for an item box contains the \<^verbatim>\<open>createShape\<close>
  request of the box and, exactly when the beta flag is true, a second
  \<^verbatim>\<open>createShape\<close> request: the badge, a \<open>FLOW_CHART_TERMINATOR\<close> on the same page
  whose x-coordinate is the box's x plus \<open>width * 6 / 7 - 2\<close> and whose y-coordinate
  is the box's y plus \<open>2\<close>. For a width of \<open>175\<close> the horizontal offset is \<open>148\<close>.
  In the allocation loop the flag passed to the builder is the issue's \<open>beta\<close> field,
  and the coordinates passed are those of the placement.
\<close>

theorem beta_badge_iff_beta:
  "(body = fst (fst (gen_roadmap_item_req U page_id width locx locy rb tagline descr link b n))
      \<longrightarrow>
        length (filter (\<lambda>j. jget j ''createShape'' \<noteq> None) body) = (if b then 2 else 1)
      \<and> filter (\<lambda>j. jget j ''createShape'' \<noteq> None) body
          = (if b then [body ! 0, body ! 6] else [body ! 0])
      \<and> jpath (body ! 0) [''createShape'', ''objectId''] = Some (JStr (U n))
      \<and> jpath (body ! 0) [''createShape'', ''elementProperties'', ''transform'', ''translateX'']
          = Some (JNum locx)
      \<and> jpath (body ! 0) [''createShape'', ''elementProperties'', ''transform'', ''translateY'']
          = Some (JNum locy)
      \<and> (b \<longrightarrow>
            jpath (body ! 6) [''createShape'', ''objectId''] = Some (JStr (U (n + 1)))
          \<and> jpath (body ! 6) [''createShape'', ''shapeType'']
              = Some (JStr ''FLOW_CHART_TERMINATOR'')
          \<and> jpath (body ! 6) [''createShape'', ''elementProperties'', ''pageObjectId'']
              = Some (JStr page_id)
          \<and> jpath (body ! 6)
                [''createShape'', ''elementProperties'', ''transform'', ''translateX'']
              = Some (JNum (locx + (width * 6 / 7 - 2)))
          \<and> jpath (body ! 6)
                [''createShape'', ''elementProperties'', ''transform'', ''translateY'']
              = Some (JNum (locy + 2))
          \<and> (width = 175 \<longrightarrow>
                jpath (body ! 6)
                  [''createShape'', ''elementProperties'', ''transform'', ''translateX'']
                = Some (JNum (locx + 148)))))
   \<and> (populate_roadmap_with_issues U slides cfg issues n0 = Inr (ps, cols', n') \<and> p \<in> set ps
      \<longrightarrow>
        length (filter (\<lambda>j. jget j ''createShape'' \<noteq> None) (p_roadmap_shape p))
          = (if beta (p_issue p) then 2 else 1)
      \<and> jpath (p_roadmap_shape p ! 0)
            [''createShape'', ''elementProperties'', ''transform'', ''translateX'']
          = Some (JNum (p_locx p))
      \<and> jpath (p_roadmap_shape p ! 0)
            [''createShape'', ''elementProperties'', ''transform'', ''translateY'']
          = Some (JNum (p_locy p))
      \<and> (beta (p_issue p) \<longrightarrow>
            jpath (p_roadmap_shape p ! 6)
                [''createShape'', ''elementProperties'', ''transform'', ''translateX'']
              = Some (JNum (p_locx p + (p_width p * 6 / 7 - 2)))
          \<and> jpath (p_roadmap_shape p ! 6)
                [''createShape'', ''elementProperties'', ''transform'', ''translateY'']
              = Some (JNum (p_locy p + 2))))"
proof (intro conjI impI)
  assume body: "body = fst (fst (gen_roadmap_item_req U page_id width locx locy rb tagline
                                   descr link b n))"
  note f = gen_roadmap_item_req_badge[OF body]
  show "length (filter (\<lambda>j. jget j ''createShape'' \<noteq> None) body) = (if b then 2 else 1)"
    by (rule f(2))
  show "filter (\<lambda>j. jget j ''createShape'' \<noteq> None) body
          = (if b then [body ! 0, body ! 6] else [body ! 0])"
    by (rule f(3))
  show "jpath (body ! 0) [''createShape'', ''objectId''] = Some (JStr (U n))"
    by (rule f(4))
  show "jpath (body ! 0) [''createShape'', ''elementProperties'', ''transform'', ''translateX'']
          = Some (JNum locx)"
    by (rule f(7))
  show "jpath (body ! 0) [''createShape'', ''elementProperties'', ''transform'', ''translateY'']
          = Some (JNum locy)"
    by (rule f(8))
  assume b: b
  show "jpath (body ! 6) [''createShape'', ''objectId''] = Some (JStr (U (n + 1)))"
    using b by (rule f(9))
  show "jpath (body ! 6) [''createShape'', ''shapeType''] = Some (JStr ''FLOW_CHART_TERMINATOR'')"
    using b by (rule f(10))
  show "jpath (body ! 6) [''createShape'', ''elementProperties'', ''pageObjectId'']
          = Some (JStr page_id)"
    using b by (rule f(11))
  show x: "jpath (body ! 6)
             [''createShape'', ''elementProperties'', ''transform'', ''translateX'']
           = Some (JNum (locx + (width * 6 / 7 - 2)))"
    using f(12)[OF b] by (simp add: algebra_simps)
  show "jpath (body ! 6) [''createShape'', ''elementProperties'', ''transform'', ''translateY'']
          = Some (JNum (locy + 2))"
    using b by (rule f(13))
  show "jpath (body ! 6) [''createShape'', ''elementProperties'', ''transform'', ''translateX'']
          = Some (JNum (locx + 148))" if "width = 175"
    using x that by simp
next
  assume a: "populate_roadmap_with_issues U slides cfg issues n0 = Inr (ps, cols', n')
               \<and> p \<in> set ps"
  from populate_placement[of U slides cfg issues n0 ps cols' n' p] a
  obtain rb m where shape:
    "p_roadmap_shape p
       = fst (fst (gen_roadmap_item_req U (p_page_id p) (p_width p) (p_locx p) (p_locy p) rb
                     (summary (p_issue p))
                     (slice_to (description (p_issue p)) (rb_description_length rb))
                     (jira_link (p_issue p)) (beta (p_issue p)) m))"
    by blast
  note f = gen_roadmap_item_req_badge[OF shape]
  show "length (filter (\<lambda>j. jget j ''createShape'' \<noteq> None) (p_roadmap_shape p))
          = (if beta (p_issue p) then 2 else 1)"
    by (rule f(2))
  show "jpath (p_roadmap_shape p ! 0)
            [''createShape'', ''elementProperties'', ''transform'', ''translateX'']
          = Some (JNum (p_locx p))"
    by (rule f(7))
  show "jpath (p_roadmap_shape p ! 0)
            [''createShape'', ''elementProperties'', ''transform'', ''translateY'']
          = Some (JNum (p_locy p))"
    by (rule f(8))
  assume b: "beta (p_issue p)"
  show "jpath (p_roadmap_shape p ! 6)
                [''createShape'', ''elementProperties'', ''transform'', ''translateX'']
              = Some (JNum (p_locx p + (p_width p * 6 / 7 - 2)))"
    using f(12)[OF b] by (simp add: algebra_simps)
  show "jpath (p_roadmap_shape p ! 6)
                [''createShape'', ''elementProperties'', ''transform'', ''translateY'']
              = Some (JNum (p_locy p + 2))"
    using b by (rule f(13))
qed

theorem beta_badge_iff_beta_witness:
  "length (filter (\<lambda>j. jget j ''createShape'' \<noteq> None)
             (fst (fst (gen_roadmap_item_req ex_U ''slide-1'' 175 130 90 ex_roadmap_box
                          ''Tagline'' ''Text'' ''https://jira.example/browse/RM-1'' True 0)))) = 2
   \<and> jpath (fst (fst (gen_roadmap_item_req ex_U ''slide-1'' 175 130 90 ex_roadmap_box
                          ''Tagline'' ''Text'' ''https://jira.example/browse/RM-1'' True 0)) ! 6)
       [''createShape'', ''elementProperties'', ''transform'', ''translateX'']
     = Some (JNum (130 + 148))
   \<and> length (filter (\<lambda>j. jget j ''createShape'' \<noteq> None)
             (fst (fst (gen_roadmap_item_req ex_U ''slide-1'' 175 130 90 ex_roadmap_box
                          ''Tagline'' ''Text'' ''https://jira.example/browse/RM-1'' False 0)))) = 1
   \<and> (\<exists>ps cols' n' p.
         populate_roadmap_with_issues ex_U [ex_slide] (ex_config ''components'')
           [ex_issue ''RM-1'' ''Search'' ''Q3'' True] 0 = Inr (ps, cols', n')
       \<and> p \<in> set ps \<and> beta (p_issue p)
       \<and> length (filter (\<lambda>j. jget j ''createShape'' \<noteq> None) (p_roadmap_shape p)) = 2
       \<and> jpath (p_roadmap_shape p ! 6)
           [''createShape'', ''elementProperties'', ''transform'', ''translateX'']
         = Some (JNum (520 + 148)))"
proof -
  let ?on = "fst (fst (gen_roadmap_item_req ex_U ''slide-1'' 175 130 90 ex_roadmap_box
                          ''Tagline'' ''Text'' ''https://jira.example/browse/RM-1'' True 0))"
  let ?off = "fst (fst (gen_roadmap_item_req ex_U ''slide-1'' 175 130 90 ex_roadmap_box
                          ''Tagline'' ''Text'' ''https://jira.example/browse/RM-1'' False 0))"
  from beta_badge_iff_beta[where body = ?on and U = ex_U and page_id = "''slide-1''"
      and width = 175 and locx = 130 and locy = 90 and rb = ex_roadmap_box
      and tagline = "''Tagline''" and descr = "''Text''"
      and link = "''https://jira.example/browse/RM-1''" and b = True and n = "0::nat"]
  have on: "length (filter (\<lambda>j. jget j ''createShape'' \<noteq> None) ?on) = 2"
    "jpath (?on ! 6) [''createShape'', ''elementProperties'', ''transform'', ''translateX'']
       = Some (JNum (130 + 148))"
    by simp_all
  from beta_badge_iff_beta[where body = ?off and U = ex_U and page_id = "''slide-1''"
      and width = 175 and locx = 130 and locy = 90 and rb = ex_roadmap_box
      and tagline = "''Tagline''" and descr = "''Text''"
      and link = "''https://jira.example/browse/RM-1''" and b = False and n = "0::nat"]
  have off: "length (filter (\<lambda>j. jget j ''createShape'' \<noteq> None) ?off) = 1"
    by simp
  from ex_run_beta obtain ps cols' n' p where run:
    "populate_roadmap_with_issues ex_U [ex_slide] (ex_config ''components'')
        [ex_issue ''RM-1'' ''Search'' ''Q3'' True] 0 = Inr (ps, cols', n')"
    "ps = [p]" "p_issue p = ex_issue ''RM-1'' ''Search'' ''Q3'' True"
    "p_width p = 175" "p_locx p = 520"
    by blast
  have p: "p \<in> set ps" using run(2) by simp
  have b: "beta (p_issue p)" using run(3) by (simp add: ex_issue_def)
  from beta_badge_iff_beta[where U = ex_U and slides = "[ex_slide]"
      and cfg = "ex_config ''components''"
      and issues = "[ex_issue ''RM-1'' ''Search'' ''Q3'' True]" and ?n0.0 = "0::nat"
      and ps = ps and cols' = cols' and n' = n' and p = p] run(1) p b
  have "length (filter (\<lambda>j. jget j ''createShape'' \<noteq> None) (p_roadmap_shape p)) = 2"
    "jpath (p_roadmap_shape p ! 6)
       [''createShape'', ''elementProperties'', ''transform'', ''translateX'']
     = Some (JNum (p_locx p + (p_width p * 6 / 7 - 2)))"
    by simp_all
  then have "length (filter (\<lambda>j. jget j ''createShape'' \<noteq> None) (p_roadmap_shape p)) = 2
    \<and> jpath (p_roadmap_shape p ! 6)
       [''createShape'', ''elementProperties'', ''transform'', ''translateX'']
     = Some (JNum (520 + 148))"
    unfolding run(4,5) by simp
  with run(1) p b on off show ?thesis by blast
qed

subsection \<open>Text of an item box\<close>

text \<open>
  Claim C9, as the source has it. The text inserted into an item box is the tagline,
  a newline and the description passed to the builder. The only request of the body
  that sets \<open>bold\<close> to true is the last request of the box; it addresses the box and
  its range is the fixed range from \<open>0\<close> to the length of the tagline, which holds
  the tagline and no character of the description. In the allocation loop the tagline
  is the issue's summary and the description is the slice
  \<^verbatim>\<open>description[:description_length]\<close>: for a length that is not negative, the
  first \<open>description_length\<close> characters, at most that many; for a negative length,
  the description without its last \<open>-description_length\<close> characters.
\<close>

theorem item_text_and_bold_range:
  "(body = fst (fst (gen_roadmap_item_req U page_id width locx locy rb tagline descr link b n))
      \<longrightarrow>
        jpath (body ! 2) [''insertText'', ''objectId''] = Some (JStr (U n))
      \<and> jpath (body ! 2) [''insertText'', ''text'']
          = Some (JStr (tagline @ [CHR 0x0A] @ descr))
      \<and> filter (\<lambda>j. jpath j [''updateTextStyle'', ''style'', ''bold''] = Some (JBool True)) body
          = [body ! 5]
      \<and> jpath (body ! 5) [''updateTextStyle'', ''objectId''] = Some (JStr (U n))
      \<and> jpath (body ! 5) [''updateTextStyle'', ''textRange'']
          = Some (JObj [(''endIndex'', JNum (of_nat (length tagline))),
                        (''startIndex'', JNum 0), (''type'', JStr ''FIXED_RANGE'')])
      \<and> take (length tagline) (tagline @ [CHR 0x0A] @ descr) = tagline
      \<and> drop (Suc (length tagline)) (tagline @ [CHR 0x0A] @ descr) = descr)
   \<and> (populate_roadmap_with_issues U slides cfg issues n0 = Inr (ps, cols', n')
        \<and> roadmap_box cfg = Some rb' \<and> p \<in> set ps
      \<longrightarrow>
        jpath (p_roadmap_shape p ! 2) [''insertText'', ''text'']
          = Some (JStr (summary (p_issue p) @ [CHR 0x0A] @ p_description p))
      \<and> jpath (p_roadmap_shape p ! 5) [''updateTextStyle'', ''textRange'']
          = Some (JObj [(''endIndex'', JNum (of_nat (length (summary (p_issue p))))),
                        (''startIndex'', JNum 0), (''type'', JStr ''FIXED_RANGE'')])
      \<and> p_description p = slice_to (description (p_issue p)) (rb_description_length rb')
      \<and> (0 \<le> rb_description_length rb' \<longrightarrow>
            p_description p = take (nat (rb_description_length rb')) (description (p_issue p))
          \<and> int (length (p_description p)) \<le> rb_description_length rb')
      \<and> (rb_description_length rb' < 0 \<longrightarrow>
            p_description p
              = take (length (description (p_issue p)) - nat (- rb_description_length rb'))
                  (description (p_issue p))))"
proof (intro conjI impI)
  assume body: "body = fst (fst (gen_roadmap_item_req U page_id width locx locy rb tagline
                                   descr link b n))"
  note f = gen_roadmap_item_req_text[OF body]
  show "jpath (body ! 2) [''insertText'', ''objectId''] = Some (JStr (U n))"
    by (rule f(1))
  show "jpath (body ! 2) [''insertText'', ''text''] = Some (JStr (tagline @ [CHR 0x0A] @ descr))"
    by (rule f(2))
  show "filter (\<lambda>j. jpath j [''updateTextStyle'', ''style'', ''bold''] = Some (JBool True)) body
          = [body ! 5]"
    by (rule f(3))
  show "jpath (body ! 5) [''updateTextStyle'', ''objectId''] = Some (JStr (U n))"
    by (rule f(4))
  show "jpath (body ! 5) [''updateTextStyle'', ''textRange'']
          = Some (JObj [(''endIndex'', JNum (of_nat (length tagline))),
                        (''startIndex'', JNum 0), (''type'', JStr ''FIXED_RANGE'')])"
    by (rule f(5))
  show "take (length tagline) (tagline @ [CHR 0x0A] @ descr) = tagline"
    by simp
  show "drop (Suc (length tagline)) (tagline @ [CHR 0x0A] @ descr) = descr"
    by simp
next
  assume a: "populate_roadmap_with_issues U slides cfg issues n0 = Inr (ps, cols', n')
               \<and> roadmap_box cfg = Some rb' \<and> p \<in> set ps"
  from populate_placement[of U slides cfg issues n0 ps cols' n' p] a
  obtain rb m where rb: "roadmap_box cfg = Some rb"
    and d: "p_description p = slice_to (description (p_issue p)) (rb_description_length rb)"
    and shape:
    "p_roadmap_shape p
       = fst (fst (gen_roadmap_item_req U (p_page_id p) (p_width p) (p_locx p) (p_locy p) rb
                     (summary (p_issue p))
                     (slice_to (description (p_issue p)) (rb_description_length rb))
                     (jira_link (p_issue p)) (beta (p_issue p)) m))"
    by blast
  from rb a have same: "rb = rb'" by simp
  note f = gen_roadmap_item_req_text[OF shape]
  show "jpath (p_roadmap_shape p ! 2) [''insertText'', ''text'']
          = Some (JStr (summary (p_issue p) @ [CHR 0x0A] @ p_description p))"
    using f(2) d by simp
  show "jpath (p_roadmap_shape p ! 5) [''updateTextStyle'', ''textRange'']
          = Some (JObj [(''endIndex'', JNum (of_nat (length (summary (p_issue p))))),
                        (''startIndex'', JNum 0), (''type'', JStr ''FIXED_RANGE'')])"
    by (rule f(5))
  show d': "p_description p = slice_to (description (p_issue p)) (rb_description_length rb')"
    using d same by simp
  show "p_description p = take (nat (rb_description_length rb')) (description (p_issue p))"
    if "0 \<le> rb_description_length rb'"
    using slice_to_nonneg[OF that, of "description (p_issue p)"] d' by simp
  show "int (length (p_description p)) \<le> rb_description_length rb'"
    if "0 \<le> rb_description_length rb'"
    unfolding d' using slice_to_nonneg[OF that, of "description (p_issue p)"] by blast
  show "p_description p
          = take (length (description (p_issue p)) - nat (- rb_description_length rb'))
              (description (p_issue p))"
    if "rb_description_length rb' < 0"
    using slice_to_neg[OF that, of "description (p_issue p)"] d' by simp
qed

theorem item_text_and_bold_range_witness:
  "jpath (fst (fst (gen_roadmap_item_req ex_U ''slide-1'' 175 130 90 ex_roadmap_box
                      ''Tagline'' ''Text'' ''https://jira.example/browse/RM-1'' True 0)) ! 2)
       [''insertText'', ''text''] = Some (JStr (''Tagline'' @ [CHR 0x0A] @ ''Text''))
   \<and> jpath (fst (fst (gen_roadmap_item_req ex_U ''slide-1'' 175 130 90 ex_roadmap_box
                      ''Tagline'' ''Text'' ''https://jira.example/browse/RM-1'' True 0)) ! 5)
       [''updateTextStyle'', ''textRange'']
     = Some (JObj [(''endIndex'', JNum 7), (''startIndex'', JNum 0),
                   (''type'', JStr ''FIXED_RANGE'')])
   \<and> (\<exists>ps cols' n' p.
         populate_roadmap_with_issues ex_U [ex_slide] (ex_config ''components'')
           [ex_issue ''RM-1'' ''Search'' ''Q3'' True] 0 = Inr (ps, cols', n')
       \<and> roadmap_box (ex_config ''components'') = Some ex_roadmap_box
       \<and> p \<in> set ps \<and> 0 \<le> rb_description_length ex_roadmap_box
       \<and> p_description p = ''Descr''
       \<and> int (length (p_description p)) \<le> rb_description_length ex_roadmap_box)
   \<and> (\<exists>ps cols' n' p.
         populate_roadmap_with_issues ex_U [ex_slide]
           ((ex_config ''components'')
              \<lparr>roadmap_box := Some (ex_roadmap_box\<lparr>rb_description_length := - 1\<rparr>)\<rparr>)
           [ex_issue ''RM-1'' ''Search'' ''Q3'' False] 0 = Inr (ps, cols', n')
       \<and> p \<in> set ps
       \<and> rb_description_length (ex_roadmap_box\<lparr>rb_description_length := - 1\<rparr>) < 0
       \<and> p_description p
           = take (length (description (p_issue p)) - nat 1) (description (p_issue p)))"
proof -
  let ?body = "fst (fst (gen_roadmap_item_req ex_U ''slide-1'' 175 130 90 ex_roadmap_box
                      ''Tagline'' ''Text'' ''https://jira.example/browse/RM-1'' True 0))"
  from item_text_and_bold_range[where body = ?body and U = ex_U and page_id = "''slide-1''"
      and width = 175 and locx = 130 and locy = 90 and rb = ex_roadmap_box
      and tagline = "''Tagline''" and descr = "''Text''"
      and link = "''https://jira.example/browse/RM-1''" and b = True and n = "0::nat"]
  have one:
    "jpath (?body ! 2) [''insertText'', ''text''] = Some (JStr (''Tagline'' @ [CHR 0x0A] @ ''Text''))"
    "jpath (?body ! 5) [''updateTextStyle'', ''textRange'']
       = Some (JObj [(''endIndex'', JNum 7), (''startIndex'', JNum 0),
                     (''type'', JStr ''FIXED_RANGE'')])"
    by simp_all
  from ex_run_beta obtain ps cols' n' p where run:
    "populate_roadmap_with_issues ex_U [ex_slide] (ex_config ''components'')
        [ex_issue ''RM-1'' ''Search'' ''Q3'' True] 0 = Inr (ps, cols', n')"
    "ps = [p]" "p_description p = ''Descr''"
    by blast
  have p: "p \<in> set ps" using run(2) by simp
  have rb: "roadmap_box (ex_config ''components'') = Some ex_roadmap_box"
    by (simp add: ex_config_def)
  have nonneg: "0 \<le> rb_description_length ex_roadmap_box"
    by (simp add: ex_roadmap_box_def)
  from item_text_and_bold_range[where U = ex_U and slides = "[ex_slide]"
      and cfg = "ex_config ''components''"
      and issues = "[ex_issue ''RM-1'' ''Search'' ''Q3'' True]" and ?n0.0 = "0::nat"
      and ps = ps and cols' = cols' and n' = n' and p = p and rb' = ex_roadmap_box]
    run(1) rb p nonneg
  have "int (length (p_description p)) \<le> rb_description_length ex_roadmap_box"
    by blast
  with run(1,3) rb p nonneg have two:
    "\<exists>ps cols' n' p.
         populate_roadmap_with_issues ex_U [ex_slide] (ex_config ''components'')
           [ex_issue ''RM-1'' ''Search'' ''Q3'' True] 0 = Inr (ps, cols', n')
       \<and> roadmap_box (ex_config ''components'') = Some ex_roadmap_box
       \<and> p \<in> set ps \<and> 0 \<le> rb_description_length ex_roadmap_box
       \<and> p_description p = ''Descr''
       \<and> int (length (p_description p)) \<le> rb_description_length ex_roadmap_box"
    by blast
  let ?cfg = "(ex_config ''components'')
                \<lparr>roadmap_box := Some (ex_roadmap_box\<lparr>rb_description_length := - 1\<rparr>)\<rparr>"
  let ?rb = "ex_roadmap_box\<lparr>rb_description_length := - 1\<rparr>"
  from ex_run_negative_length obtain qs cols'' n'' q where run':
    "populate_roadmap_with_issues ex_U [ex_slide] ?cfg
        [ex_issue ''RM-1'' ''Search'' ''Q3'' False] 0 = Inr (qs, cols'', n'')"
    "qs = [q]"
    by blast
  have q: "q \<in> set qs" using run'(2) by simp
  have rb': "roadmap_box ?cfg = Some ?rb" by simp
  have neg: "rb_description_length ?rb < 0" by simp
  from item_text_and_bold_range[where U = ex_U and slides = "[ex_slide]" and cfg = ?cfg
      and issues = "[ex_issue ''RM-1'' ''Search'' ''Q3'' False]" and ?n0.0 = "0::nat"
      and ps = qs and cols' = cols'' and n' = n'' and p = q and rb' = ?rb]
    run'(1) rb' q neg
  have "p_description q
          = take (length (description (p_issue q)) - nat (- rb_description_length ?rb))
              (description (p_issue q))"
    by blast
  then have "p_description q
          = take (length (description (p_issue q)) - nat 1) (description (p_issue q))"
    by simp
  with run'(1) q neg have three:
    "\<exists>ps cols' n' p.
         populate_roadmap_with_issues ex_U [ex_slide] ?cfg
           [ex_issue ''RM-1'' ''Search'' ''Q3'' False] 0 = Inr (ps, cols', n')
       \<and> p \<in> set ps \<and> rb_description_length ?rb < 0
       \<and> p_description p
           = take (length (description (p_issue p)) - nat 1) (description (p_issue p))"
    by blast
  from one two three show ?thesis by blast
qed

text \<open>
  Claim C9 as the specification words it bounds the length of the description passed
  at placement time by the configured length. With the length \<open>-1\<close> the slice drops
  the last character only: thirteen characters are passed.
\<close>

theorem negative_description_length_keeps_text:
  "map_sum id (map p_description \<circ> fst)
     (populate_roadmap_with_issues ex_U [ex_slide]
        ((ex_config ''components'')
           \<lparr>roadmap_box := Some (ex_roadmap_box\<lparr>rb_description_length := - 1\<rparr>)\<rparr>)
        [ex_issue ''RM-1'' ''Search'' ''Q3'' False] 0)
     = Inr [''Describes RM-'']
   \<and> \<not> int (length ''Describes RM-'') \<le> - 1"
  by (simp add: populate_roadmap_with_issues_def dict_get_def ex_config_def ex_columns_def
        ex_slide_def ex_issue_def ex_roadmap_box_def slice_to_def Let_def case_prod_beta)

subsection \<open>Roadmap skeleton slide\<close>

lemma gen_roadmap_slide_req_no_quarters:
  "quarters cfg = None \<Longrightarrow> \<exists>e. gen_roadmap_slide_req U t cfg n = Inl e"
  by (simp add: gen_roadmap_slide_req_def dict_get_def split: option.splits)

lemma gen_roadmap_slide_req_quarters_unused:
  "gen_roadmap_slide_req U t (cfg\<lparr>quarters := Some q\<rparr>) n
     = gen_roadmap_slide_req U t (cfg\<lparr>quarters := Some q'\<rparr>) n"
  by (simp add: gen_roadmap_slide_req_def dict_get_def split: option.splits)

text \<open>
  Claim C10. \<^verbatim>\<open>gen_roadmap_slide_req\<close> raises whenever the configuration has no
  key \<^verbatim>\<open>quarters\<close>, and so does \<^verbatim>\<open>generate_roadmap_slides\<close> for at least one
  category; when the four keys read before it are present the error is the
  \<^verbatim>\<open>KeyError\<close> for \<^verbatim>\<open>quarters\<close>. The value stored under the key is not used:
  two configurations that differ only in that value give the same result. With the
  key present, the other six keys present and at least one column, the builder
  returns a request body.
\<close>

theorem skeleton_requires_unused_quarters_key:
  "(quarters cfg = None \<longrightarrow>
      (\<exists>e. gen_roadmap_slide_req U t cfg n = Inl e)
      \<and> (\<exists>e. generate_roadmap_slides U (category # rest) cfg n = Inl e))
   \<and> (quarters cfg = None \<and> left_header cfg \<noteq> None \<and> left_main cfg \<noteq> None
        \<and> timeline_arrow cfg \<noteq> None \<and> quarter_marker cfg \<noteq> None \<longrightarrow>
        gen_roadmap_slide_req U t cfg n = Inl (KeyError ''quarters''))
   \<and> gen_roadmap_slide_req U t (cfg\<lparr>quarters := Some q\<rparr>) n
       = gen_roadmap_slide_req U t (cfg\<lparr>quarters := Some q'\<rparr>) n
   \<and> (left_header cfg \<noteq> None \<and> left_main cfg \<noteq> None \<and> timeline_arrow cfg \<noteq> None
        \<and> quarter_marker cfg \<noteq> None \<and> roadmap_box cfg \<noteq> None \<and> columns cfg \<noteq> None
        \<and> columns cfg \<noteq> Some [] \<longrightarrow>
        (\<exists>r. gen_roadmap_slide_req U t (cfg\<lparr>quarters := Some q\<rparr>) n = Inr r))"
proof (intro conjI impI)
  assume nq: "quarters cfg = None"
  show "\<exists>e. gen_roadmap_slide_req U t cfg n = Inl e"
    using nq by (rule gen_roadmap_slide_req_no_quarters)
  from gen_roadmap_slide_req_no_quarters[OF nq, of U category "n + 2"]
  show "\<exists>e. generate_roadmap_slides U (category # rest) cfg n = Inl e"
    by (auto simp: gen_header_slide_req_def Let_def)
next
  assume "quarters cfg = None \<and> left_header cfg \<noteq> None \<and> left_main cfg \<noteq> None
        \<and> timeline_arrow cfg \<noteq> None \<and> quarter_marker cfg \<noteq> None"
  then show "gen_roadmap_slide_req U t cfg n = Inl (KeyError ''quarters'')"
    by (auto simp: gen_roadmap_slide_req_def dict_get_def split: option.splits)
next
  show "gen_roadmap_slide_req U t (cfg\<lparr>quarters := Some q\<rparr>) n
       = gen_roadmap_slide_req U t (cfg\<lparr>quarters := Some q'\<rparr>) n"
    by (rule gen_roadmap_slide_req_quarters_unused)
next
  assume "left_header cfg \<noteq> None \<and> left_main cfg \<noteq> None \<and> timeline_arrow cfg \<noteq> None
        \<and> quarter_marker cfg \<noteq> None \<and> roadmap_box cfg \<noteq> None \<and> columns cfg \<noteq> None
        \<and> columns cfg \<noteq> Some []"
  then show "\<exists>r. gen_roadmap_slide_req U t (cfg\<lparr>quarters := Some q\<rparr>) n = Inr r"
    by (auto simp: gen_roadmap_slide_req_def dict_get_def Let_def case_prod_beta
             split: option.splits)
qed

theorem skeleton_requires_unused_quarters_key_witness:
  "quarters (ex_config ''components'') = None
   \<and> left_header (ex_config ''components'') \<noteq> None
   \<and> left_main (ex_config ''components'') \<noteq> None
   \<and> timeline_arrow (ex_config ''components'') \<noteq> None
   \<and> quarter_marker (ex_config ''components'') \<noteq> None
   \<and> roadmap_box (ex_config ''components'') \<noteq> None
   \<and> columns (ex_config ''components'') \<noteq> None
   \<and> columns (ex_config ''components'') \<noteq> Some []
   \<and> gen_roadmap_slide_req ex_U ''Search'' (ex_config ''components'') 0
       = Inl (KeyError ''quarters'')
   \<and> (\<exists>e. generate_roadmap_slides ex_U [''Search''] (ex_config ''components'') 0 = Inl e)
   \<and> (\<exists>r. gen_roadmap_slide_req ex_U ''Search''
              ((ex_config ''components'')\<lparr>quarters := Some (JArr [])\<rparr>) 0 = Inr r)"
proof -
  have h: "quarters (ex_config ''components'') = None"
    "left_header (ex_config ''components'') \<noteq> None"
    "left_main (ex_config ''components'') \<noteq> None"
    "timeline_arrow (ex_config ''components'') \<noteq> None"
    "quarter_marker (ex_config ''components'') \<noteq> None"
    "roadmap_box (ex_config ''components'') \<noteq> None"
    "columns (ex_config ''components'') \<noteq> None"
    "columns (ex_config ''components'') \<noteq> Some []"
    by (simp_all add: ex_config_def ex_columns_def)
  note inst = skeleton_requires_unused_quarters_key[where cfg = "ex_config ''components''"
      and U = ex_U and t = "''Search''" and n = "0::nat" and category = "''Search''"
      and rest = "[]" and q = "JArr []"]
  from inst h show ?thesis by blast
qed

section \<open>Placement of the issues\<close>

lemma filter_statuses_nth:
  "filter (\<lambda>i. q \<in> set (map jira_statuses cols ! i)) [0..<length cols]
     = filter (\<lambda>i. q \<in> set (jira_statuses (cols ! i))) [0..<length cols]"
  by (rule filter_cong) auto

lemma slides_loop_col_bound:
  assumes "p \<in> set (fst (snd (slides_loop U rb w x0 y0 issues slides cols n)))"
  shows "p_col_num p < length cols"
proof -
  from assms have "(p_page_id p, p_issue p, p_col_num p)
      \<in> set (map (\<lambda>p. (p_page_id p, p_issue p, p_col_num p))
                (fst (snd (slides_loop U rb w x0 y0 issues slides cols n))))"
    by force
  then show ?thesis
    unfolding slides_loop_issue_col by (auto split: if_splits)
qed

lemma progression_sorted:
  fixes d y0 :: rat
  assumes "0 < d"
  shows "sorted_wrt (<) (map (\<lambda>j. y0 + of_nat j * d) [0..<m])"
proof -
  have "sorted_wrt (\<lambda>i j. y0 + of_nat i * d < y0 + of_nat j * d) [0..<m]"
    by (rule sorted_wrt_mono_rel[of "[0..<m]" "(<)"]) (use assms in auto)
  then show ?thesis by (simp add: sorted_wrt_map)
qed

subsection \<open>Which columns receive an issue\<close>

text \<open>
  Claim C1, as the source has it. With the four configuration keys present and at
  least one column, the allocation ends without an error, whatever the issues are.
  Slide by slide and, within a slide, issue by issue, an issue whose categories contain
  the slide's category is placed once into every column whose status list contains the
  issue's status, in configured order: into the first such column and into every later
  one. An issue whose status is in no column's list, or whose categories do not contain
  the slide's category, is not placed.
\<close>

theorem issue_placed_in_every_accepting_column:
  assumes "roadmap_box cfg = Some rb" "timeline_arrow cfg = Some ta"
    "left_header cfg = Some lh" "columns cfg = Some cols" "cols \<noteq> []"
  shows "\<exists>ps cols' n'.
      populate_roadmap_with_issues U slides cfg issues n = Inr (ps, cols', n')
    \<and> map (\<lambda>p. (p_page_id p, p_issue p, p_col_num p)) ps
        = concat (map (\<lambda>slide. concat (map (\<lambda>issue.
            if product_category slide \<in> set (product_categories issue)
            then map (\<lambda>i. (google_slide_id slide, issue, i))
                   (filter (\<lambda>i. jira_quarter issue \<in> set (jira_statuses (cols ! i)))
                      [0..<length cols])
            else []) issues)) slides)"
  unfolding populate_Inr[OF assms]
  by (simp add: Let_def slides_loop_issue_col filter_statuses_nth cong: if_cong)

theorem issue_placed_in_every_accepting_column_witness:
  "roadmap_box (ex_config ''components'') = Some ex_roadmap_box
   \<and> timeline_arrow (ex_config ''components'') = Some ex_timeline_arrow
   \<and> left_header (ex_config ''components'') = Some ex_left_header
   \<and> columns (ex_config ''components'') = Some ex_columns \<and> ex_columns \<noteq> []
   \<and> (\<exists>ps cols' n'.
        populate_roadmap_with_issues ex_U [ex_slide] (ex_config ''components'')
          [ex_issue ''RM-1'' ''Search'' ''Q1'' False, ex_issue ''RM-2'' ''Search'' ''Q9'' False,
           ex_issue ''RM-3'' ''Labs'' ''Q3'' False, ex_issue ''RM-4'' ''Search'' ''Q4'' False] 0
          = Inr (ps, cols', n')
      \<and> map (\<lambda>p. (p_page_id p, p_issue p, p_col_num p)) ps
          = [(''slide-1'', ex_issue ''RM-1'' ''Search'' ''Q1'' False, 0),
             (''slide-1'', ex_issue ''RM-1'' ''Search'' ''Q1'' False, 1),
             (''slide-1'', ex_issue ''RM-4'' ''Search'' ''Q4'' False, 3)])"
proof -
  have h: "roadmap_box (ex_config ''components'') = Some ex_roadmap_box"
    "timeline_arrow (ex_config ''components'') = Some ex_timeline_arrow"
    "left_header (ex_config ''components'') = Some ex_left_header"
    "columns (ex_config ''components'') = Some ex_columns" "ex_columns \<noteq> []"
    by (simp_all add: ex_config_def ex_columns_def)
  let ?issues = "[ex_issue ''RM-1'' ''Search'' ''Q1'' False, ex_issue ''RM-2'' ''Search'' ''Q9'' False,
           ex_issue ''RM-3'' ''Labs'' ''Q3'' False, ex_issue ''RM-4'' ''Search'' ''Q4'' False]"
  have rhs: "concat (map (\<lambda>slide. concat (map (\<lambda>issue.
            if product_category slide \<in> set (product_categories issue)
            then map (\<lambda>i. (google_slide_id slide, issue, i))
                   (filter (\<lambda>i. jira_quarter issue \<in> set (jira_statuses (ex_columns ! i)))
                      [0..<length ex_columns])
            else []) ?issues)) [ex_slide])
      = [(''slide-1'', ex_issue ''RM-1'' ''Search'' ''Q1'' False, 0),
         (''slide-1'', ex_issue ''RM-1'' ''Search'' ''Q1'' False, 1),
         (''slide-1'', ex_issue ''RM-4'' ''Search'' ''Q4'' False, 3)]"
    by (simp add: ex_slide_def ex_issue_def ex_columns_def)
  from issue_placed_in_every_accepting_column[OF h, of ex_U "[ex_slide]" ?issues 0]
  show ?thesis unfolding rhs using h by blast
qed

text \<open>
  Claim C1 as the specification words it places an issue into the first accepting
  column only. The first two example columns both accept the status \<open>Q1\<close>, and an issue
  with that status is placed into both.
\<close>

theorem issue_placed_in_later_column_too:
  "map_sum id (map p_col_num \<circ> fst)
     (populate_roadmap_with_issues ex_U [ex_slide] (ex_config ''components'')
        [ex_issue ''RM-1'' ''Search'' ''Q1'' False] 0) = Inr [0, 1]"
  by (simp add: populate_roadmap_with_issues_def dict_get_def ex_config_def ex_columns_def
        ex_slide_def ex_issue_def Let_def case_prod_beta)

subsection \<open>Horizontal position and box width\<close>

text \<open>
  Claim C4. Every placement has the same width,
  \<open>(timeline width - x_padding * (number of columns + 1)) / number of columns\<close>, and its x
  is the origin \<open>left header x + left header width + x_padding\<close> plus the column index
  times \<open>width + x_padding\<close>; both are the values written into the \<^verbatim>\<open>createShape\<close>
  request of the box. With four columns, a timeline width of \<open>800\<close> and an
  \<open>x_padding\<close> of \<open>20\<close> the width is \<open>175\<close>.
\<close>

theorem placement_x_and_box_width:
  assumes "roadmap_box cfg = Some rb" "timeline_arrow cfg = Some ta"
    "left_header cfg = Some lh" "columns cfg = Some cols" "cols \<noteq> []"
  shows "\<exists>ps cols' n'.
      populate_roadmap_with_issues U slides cfg issues n = Inr (ps, cols', n')
    \<and> (\<forall>p \<in> set ps.
          p_width p = (ta_width ta - rb_x_padding rb * of_nat (length cols + 1))
                        / of_nat (length cols)
        \<and> p_locx p = (lh_locx lh + lh_width lh + rb_x_padding rb)
                       + of_nat (p_col_num p) * (p_width p + rb_x_padding rb)
        \<and> p_col_num p < length cols
        \<and> jpath (p_roadmap_shape p ! 0)
              [''createShape'', ''elementProperties'', ''transform'', ''translateX'']
            = Some (JNum (p_locx p))
        \<and> jpath (p_roadmap_shape p ! 0)
              [''createShape'', ''elementProperties'', ''size'', ''width'']
            = Some (JObj [(''magnitude'', JNum (p_width p)), (''unit'', JStr ''PT'')])
        \<and> (length cols = 4 \<and> ta_width ta = 800 \<and> rb_x_padding rb = 20 \<longrightarrow> p_width p = 175))"
proof -
  let ?w = "(ta_width ta - rb_x_padding rb * of_nat (length cols + 1)) / of_nat (length cols)"
  let ?x0 = "lh_locx lh + lh_width lh + rb_x_padding rb"
  let ?y0 = "lh_locy lh + lh_height lh"
  let ?r = "slides_loop U rb ?w ?x0 ?y0 issues slides cols n"
  have run: "populate_roadmap_with_issues U slides cfg issues n
               = Inr (fst (snd ?r), fst ?r, snd (snd ?r))"
    unfolding populate_Inr[OF assms] by (simp add: Let_def)
  have "p_width p = ?w
        \<and> p_locx p = ?x0 + of_nat (p_col_num p) * (p_width p + rb_x_padding rb)
        \<and> p_col_num p < length cols
        \<and> jpath (p_roadmap_shape p ! 0)
              [''createShape'', ''elementProperties'', ''transform'', ''translateX'']
            = Some (JNum (p_locx p))
        \<and> jpath (p_roadmap_shape p ! 0)
              [''createShape'', ''elementProperties'', ''size'', ''width'']
            = Some (JObj [(''magnitude'', JNum (p_width p)), (''unit'', JStr ''PT'')])
        \<and> (length cols = 4 \<and> ta_width ta = 800 \<and> rb_x_padding rb = 20 \<longrightarrow> p_width p = 175)"
    if p: "p \<in> set (fst (snd ?r))" for p
  proof -
    from slides_loop_args[OF p] obtain m where
      w: "p_width p = ?w"
      and x: "p_locx p = ?x0 + (?w + rb_x_padding rb) * of_nat (p_col_num p)"
      and shape: "(p_roadmap_shape p, p_shape_id p)
         = fst (gen_roadmap_item_req U (p_page_id p) (p_width p) (p_locx p) (p_locy p) rb
                  (p_tagline p) (p_description p) (p_link p) (p_beta p) m)"
      by blast
    from shape have body: "p_roadmap_shape p
         = fst (fst (gen_roadmap_item_req U (p_page_id p) (p_width p) (p_locx p) (p_locy p) rb
                  (p_tagline p) (p_description p) (p_link p) (p_beta p) m))"
      by (metis fst_conv)
    note f = gen_roadmap_item_req_badge[OF body]
    have "length cols = 4 \<and> ta_width ta = 800 \<and> rb_x_padding rb = 20 \<longrightarrow> p_width p = 175"
      unfolding w by simp
    with w x slides_loop_col_bound[OF p] f(6) f(7) show ?thesis
      by (simp add: mult.commute)
  qed
  with run show ?thesis by blast
qed

theorem placement_x_and_box_width_witness:
  "roadmap_box (ex_config ''components'') = Some ex_roadmap_box
   \<and> timeline_arrow (ex_config ''components'') = Some ex_timeline_arrow
   \<and> left_header (ex_config ''components'') = Some ex_left_header
   \<and> columns (ex_config ''components'') = Some ex_columns \<and> ex_columns \<noteq> []
   \<and> length ex_columns = 4 \<and> ta_width ex_timeline_arrow = 800
   \<and> rb_x_padding ex_roadmap_box = 20
   \<and> (\<exists>ps cols' n' p.
        populate_roadmap_with_issues ex_U [ex_slide] (ex_config ''components'')
          [ex_issue ''RM-1'' ''Search'' ''Q3'' True] 0 = Inr (ps, cols', n')
      \<and> p \<in> set ps \<and> p_col_num p = 2 \<and> p_width p = 175 \<and> p_locx p = 130 + 2 * (175 + 20)
      \<and> jpath (p_roadmap_shape p ! 0)
            [''createShape'', ''elementProperties'', ''transform'', ''translateX'']
          = Some (JNum 520))"
proof -
  have h: "roadmap_box (ex_config ''components'') = Some ex_roadmap_box"
    "timeline_arrow (ex_config ''components'') = Some ex_timeline_arrow"
    "left_header (ex_config ''components'') = Some ex_left_header"
    "columns (ex_config ''components'') = Some ex_columns" "ex_columns \<noteq> []"
    by (simp_all add: ex_config_def ex_columns_def)
  have v: "length ex_columns = 4" "ta_width ex_timeline_arrow = 800"
    "rb_x_padding ex_roadmap_box = 20"
    "lh_locx ex_left_header + lh_width ex_left_header + rb_x_padding ex_roadmap_box = 130"
    by (simp_all add: ex_columns_def ex_timeline_arrow_def ex_roadmap_box_def
          ex_left_header_def)
  from ex_run_beta obtain ps cols' n' p where run:
    "populate_roadmap_with_issues ex_U [ex_slide] (ex_config ''components'')
        [ex_issue ''RM-1'' ''Search'' ''Q3'' True] 0 = Inr (ps, cols', n')"
    "ps = [p]" "p_col_num p = 2"
    by blast
  have p: "p \<in> set ps" using run(2) by simp
  from placement_x_and_box_width[OF h, of ex_U "[ex_slide]"
      "[ex_issue ''RM-1'' ''Search'' ''Q3'' True]" 0] run(1) p
  have f: "p_width p = 175"
    "p_locx p = (lh_locx ex_left_header + lh_width ex_left_header + rb_x_padding ex_roadmap_box)
                  + of_nat (p_col_num p) * (p_width p + rb_x_padding ex_roadmap_box)"
    "jpath (p_roadmap_shape p ! 0)
       [''createShape'', ''elementProperties'', ''transform'', ''translateX'']
     = Some (JNum (p_locx p))"
    using v(1-3) by auto
  from f(2)[unfolded v(4)] have x: "p_locx p = 130 + 2 * (175 + 20)"
    unfolding run(3) f(1) v(3) by simp
  with f(3) have "jpath (p_roadmap_shape p ! 0)
       [''createShape'', ''elementProperties'', ''transform'', ''translateX'']
     = Some (JNum 520)"
    by simp
  with h v(1-3) run(1,3) p f(1) x show ?thesis by blast
qed

subsection \<open>Vertical stacking\<close>

text \<open>
  Claim C2, as the source has it. The placements are made slide by slide. When the
  column loop places an issue into a column it uses the y
  \<open>origin y + count * (height + y_padding)\<close>, with the column's count as it stands,
  and adds one to that count; the counts of the other columns are unchanged. Every
  slide starts from counts of zero, so within the placements of one slide the issues
  placed into one column are the issues of the list that have the slide's category and
  a status the column accepts, in the order of the list, and their y values are, in
  that order, \<open>origin y\<close>, \<open>origin y + (height + y_padding)\<close>,
  \<open>origin y + 2 * (height + y_padding)\<close> and so on: consecutive values differ by exactly
  \<open>height + y_padding\<close>, whatever was placed on an earlier slide. They are strictly
  increasing when \<open>height + y_padding\<close> is positive. The y of a placement is the one
  written into the \<^verbatim>\<open>createShape\<close> request of its box.

  The arithmetic is exact. That is what Python computes when the settings are integers,
  since a y is built from them by addition and multiplication only; with float settings
  each sum and product is rounded, and the differences and the strict order are those of
  the rounded values.
\<close>

theorem column_stacking_per_slide:
  assumes "roadmap_box cfg = Some rb" "timeline_arrow cfg = Some ta"
    "left_header cfg = Some lh" "columns cfg = Some cols" "cols \<noteq> []"
  shows "(\<exists>ps cols' n' segs.
      populate_roadmap_with_issues U slides cfg issues n = Inr (ps, cols', n')
    \<and> ps = concat segs \<and> length segs = length slides
    \<and> (\<forall>p \<in> set ps. p_col_num p < length cols
          \<and> jpath (p_roadmap_shape p ! 0)
                [''createShape'', ''elementProperties'', ''transform'', ''translateY'']
              = Some (JNum (p_locy p)))
    \<and> (\<forall>i < length slides.
          (\<forall>p \<in> set (segs ! i). p_page_id p = google_slide_id (slides ! i))
        \<and> (\<forall>c < length cols.
              map p_locy (filter (\<lambda>p. p_col_num p = c) (segs ! i))
                = map (\<lambda>j. (lh_locy lh + lh_height lh)
                             + of_nat j * (rb_height rb + rb_y_padding rb))
                    [0..<length (filter (\<lambda>issue.
                         product_category (slides ! i) \<in> set (product_categories issue)
                         \<and> jira_quarter issue \<in> set (jira_statuses (cols ! c))) issues)]
            \<and> map (\<lambda>p. (p_issue p, p_locy p)) (filter (\<lambda>p. p_col_num p = c) (segs ! i))
                = zip (filter (\<lambda>issue.
                         product_category (slides ! i) \<in> set (product_categories issue)
                         \<and> jira_quarter issue \<in> set (jira_statuses (cols ! c))) issues)
                    (map (\<lambda>j. (lh_locy lh + lh_height lh)
                                + of_nat j * (rb_height rb + rb_y_padding rb))
                       [0..<length (filter (\<lambda>issue.
                         product_category (slides ! i) \<in> set (product_categories issue)
                         \<and> jira_quarter issue \<in> set (jira_statuses (cols ! c))) issues)])
            \<and> (0 < rb_height rb + rb_y_padding rb \<longrightarrow>
                  sorted_wrt (<) (map p_locy (filter (\<lambda>p. p_col_num p = c) (segs ! i)))))))
   \<and> fst (columns_loop U rb w x0 y0 slide issue 0 cols0 m)
       = map (\<lambda>col. if jira_quarter issue \<in> set (jira_statuses col)
                      then col\<lparr>count := count col + 1\<rparr> else col) cols0
   \<and> map p_locy (filter (\<lambda>p. p_col_num p = c0)
                   (fst (snd (columns_loop U rb w x0 y0 slide issue 0 cols0 m))))
       = (if c0 < length cols0 \<and> jira_quarter issue \<in> set (jira_statuses (cols0 ! c0))
          then [y0 + of_nat (count (cols0 ! c0)) * (rb_height rb + rb_y_padding rb)]
          else [])"
proof (intro conjI)
  let ?w = "(ta_width ta - rb_x_padding rb * of_nat (length cols + 1)) / of_nat (length cols)"
  let ?x0 = "lh_locx lh + lh_width lh + rb_x_padding rb"
  let ?y0 = "lh_locy lh + lh_height lh"
  let ?h = "rb_height rb + rb_y_padding rb"
  let ?r = "slides_loop U rb ?w ?x0 ?y0 issues slides cols n"
  have run: "populate_roadmap_with_issues U slides cfg issues n
               = Inr (fst (snd ?r), fst ?r, snd (snd ?r))"
    unfolding populate_Inr[OF assms] by (simp add: Let_def)
  from slides_loop_segments[of U rb ?w ?x0 ?y0 issues slides cols n]
  obtain segs where segs:
    "fst (snd ?r) = concat segs" "length segs = length slides"
    and page: "\<And>i p. i < length slides \<Longrightarrow> p \<in> set (segs ! i)
                 \<Longrightarrow> p_page_id p = google_slide_id (slides ! i)"
    and ord: "\<And>i c. i < length slides \<Longrightarrow> c < length cols \<Longrightarrow>
       map (\<lambda>p. (p_issue p, p_locy p)) (filter (\<lambda>p. p_col_num p = c) (segs ! i))
         = zip (filter (\<lambda>issue.
                  product_category (slides ! i) \<in> set (product_categories issue)
                  \<and> jira_quarter issue \<in> set (map jira_statuses cols ! c)) issues)
             (map (\<lambda>j. of_nat j * ?h + ?y0)
                [0..<length (filter (\<lambda>issue.
                  product_category (slides ! i) \<in> set (product_categories issue)
                  \<and> jira_quarter issue \<in> set (map jira_statuses cols ! c)) issues)])"
    by blast
  have order: "map (\<lambda>p. (p_issue p, p_locy p)) (filter (\<lambda>p. p_col_num p = c) (segs ! i))
         = zip (filter (\<lambda>issue.
                  product_category (slides ! i) \<in> set (product_categories issue)
                  \<and> jira_quarter issue \<in> set (jira_statuses (cols ! c))) issues)
             (map (\<lambda>j. ?y0 + of_nat j * ?h)
                [0..<length (filter (\<lambda>issue.
                  product_category (slides ! i) \<in> set (product_categories issue)
                  \<and> jira_quarter issue \<in> set (jira_statuses (cols ! c))) issues)])"
    if "i < length slides" "c < length cols" for i c
    using ord[OF that] that(2) by (simp add: add.commute)
  have each: "p_col_num p < length cols
          \<and> jpath (p_roadmap_shape p ! 0)
                [''createShape'', ''elementProperties'', ''transform'', ''translateY'']
              = Some (JNum (p_locy p))"
    if p: "p \<in> set (fst (snd ?r))" for p
  proof -
    from slides_loop_args[OF p] obtain k where
      "(p_roadmap_shape p, p_shape_id p)
         = fst (gen_roadmap_item_req U (p_page_id p) (p_width p) (p_locx p) (p_locy p) rb
                  (p_tagline p) (p_description p) (p_link p) (p_beta p) k)"
      by blast
    then have body: "p_roadmap_shape p
         = fst (fst (gen_roadmap_item_req U (p_page_id p) (p_width p) (p_locx p) (p_locy p) rb
                  (p_tagline p) (p_description p) (p_link p) (p_beta p) k))"
      by (metis fst_conv)
    from gen_roadmap_item_req_badge(8)[OF body] slides_loop_col_bound[OF p]
    show ?thesis by simp
  qed
  have stack: "map p_locy (filter (\<lambda>p. p_col_num p = c) (segs ! i))
         = map (\<lambda>j. ?y0 + of_nat j * ?h)
             [0..<length (filter (\<lambda>issue.
                  product_category (slides ! i) \<in> set (product_categories issue)
                  \<and> jira_quarter issue \<in> set (jira_statuses (cols ! c))) issues)]"
    if "i < length slides" "c < length cols" for i c
  proof -
    have "map p_locy (filter (\<lambda>p. p_col_num p = c) (segs ! i))
            = map snd (map (\<lambda>p. (p_issue p, p_locy p))
                         (filter (\<lambda>p. p_col_num p = c) (segs ! i)))"
      by simp
    then show ?thesis
      unfolding order[OF that] by (simp only: map_snd_zip length_map length_upt diff_zero)
  qed
  have strict: "sorted_wrt (<) (map p_locy (filter (\<lambda>p. p_col_num p = c) (segs ! i)))"
    if "i < length slides" "c < length cols" "0 < ?h" for i c
    unfolding stack[OF that(1,2)] using that(3) by (rule progression_sorted)
  show "\<exists>ps cols' n' segs.
      populate_roadmap_with_issues U slides cfg issues n = Inr (ps, cols', n')
    \<and> ps = concat segs \<and> length segs = length slides
    \<and> (\<forall>p \<in> set ps. p_col_num p < length cols
          \<and> jpath (p_roadmap_shape p ! 0)
                [''createShape'', ''elementProperties'', ''transform'', ''translateY'']
              = Some (JNum (p_locy p)))
    \<and> (\<forall>i < length slides.
          (\<forall>p \<in> set (segs ! i). p_page_id p = google_slide_id (slides ! i))
        \<and> (\<forall>c < length cols.
              map p_locy (filter (\<lambda>p. p_col_num p = c) (segs ! i))
                = map (\<lambda>j. ?y0 + of_nat j * ?h)
                    [0..<length (filter (\<lambda>issue.
                         product_category (slides ! i) \<in> set (product_categories issue)
                         \<and> jira_quarter issue \<in> set (jira_statuses (cols ! c))) issues)]
            \<and> map (\<lambda>p. (p_issue p, p_locy p)) (filter (\<lambda>p. p_col_num p = c) (segs ! i))
                = zip (filter (\<lambda>issue.
                         product_category (slides ! i) \<in> set (product_categories issue)
                         \<and> jira_quarter issue \<in> set (jira_statuses (cols ! c))) issues)
                    (map (\<lambda>j. ?y0 + of_nat j * ?h)
                       [0..<length (filter (\<lambda>issue.
                         product_category (slides ! i) \<in> set (product_categories issue)
                         \<and> jira_quarter issue \<in> set (jira_statuses (cols ! c))) issues)])
            \<and> (0 < ?h \<longrightarrow>
                  sorted_wrt (<) (map p_locy (filter (\<lambda>p. p_col_num p = c) (segs ! i))))))"
  proof (intro exI conjI ballI allI impI)
    show "populate_roadmap_with_issues U slides cfg issues n
            = Inr (fst (snd ?r), fst ?r, snd (snd ?r))"
      by (rule run)
    show "fst (snd ?r) = concat segs" by (rule segs(1))
    show "length segs = length slides" by (rule segs(2))
  qed (use each page stack order strict in blast)+
next
  show "fst (columns_loop U rb w x0 y0 slide issue 0 cols0 m)
       = map (\<lambda>col. if jira_quarter issue \<in> set (jira_statuses col)
                      then col\<lparr>count := count col + 1\<rparr> else col) cols0"
    by (rule columns_loop_columns)
next
  show "map p_locy (filter (\<lambda>p. p_col_num p = c0)
                   (fst (snd (columns_loop U rb w x0 y0 slide issue 0 cols0 m))))
       = (if c0 < length cols0 \<and> jira_quarter issue \<in> set (jira_statuses (cols0 ! c0))
          then [y0 + of_nat (count (cols0 ! c0)) * (rb_height rb + rb_y_padding rb)]
          else [])"
    using columns_loop_locy_col[of c0 U rb w x0 y0 slide issue 0 cols0 m]
    by (simp add: add.commute)
qed

theorem column_stacking_per_slide_witness:
  "roadmap_box (ex_config ''components'') = Some ex_roadmap_box
   \<and> timeline_arrow (ex_config ''components'') = Some ex_timeline_arrow
   \<and> left_header (ex_config ''components'') = Some ex_left_header
   \<and> columns (ex_config ''components'') = Some ex_columns \<and> ex_columns \<noteq> []
   \<and> 0 < rb_height ex_roadmap_box + rb_y_padding ex_roadmap_box
   \<and> (\<exists>ps cols' n' segs.
        populate_roadmap_with_issues ex_U
          [ex_slide,
           \<lparr>title = ''Labs'', google_slide_id = ''slide-2'', product_category = ''Labs''\<rparr>]
          (ex_config ''components'')
          [ex_issue ''RM-1'' ''Search'' ''Q3'' False, ex_issue ''RM-2'' ''Search'' ''Q3'' False,
           ex_issue ''RM-3'' ''Labs'' ''Q3'' False, ex_issue ''RM-4'' ''Search'' ''Q3'' False] 0
          = Inr (ps, cols', n')
      \<and> ps = concat segs \<and> length segs = 2
      \<and> map p_locy (filter (\<lambda>p. p_col_num p = 2) (segs ! 0)) = [90, 160, 230]
      \<and> sorted_wrt (<) (map p_locy (filter (\<lambda>p. p_col_num p = 2) (segs ! 0)))
      \<and> map p_locy (filter (\<lambda>p. p_col_num p = 2) (segs ! 1)) = [90]
      \<and> map (\<lambda>p. (p_issue p, p_locy p)) (filter (\<lambda>p. p_col_num p = 2) (segs ! 0))
          = [(ex_issue ''RM-1'' ''Search'' ''Q3'' False, 90),
             (ex_issue ''RM-2'' ''Search'' ''Q3'' False, 160),
             (ex_issue ''RM-4'' ''Search'' ''Q3'' False, 230)]
      \<and> map (\<lambda>p. (p_issue p, p_locy p)) (filter (\<lambda>p. p_col_num p = 2) (segs ! 1))
          = [(ex_issue ''RM-3'' ''Labs'' ''Q3'' False, 90)])"
proof -
  have h: "roadmap_box (ex_config ''components'') = Some ex_roadmap_box"
    "timeline_arrow (ex_config ''components'') = Some ex_timeline_arrow"
    "left_header (ex_config ''components'') = Some ex_left_header"
    "columns (ex_config ''components'') = Some ex_columns" "ex_columns \<noteq> []"
    by (simp_all add: ex_config_def ex_columns_def)
  have pos: "0 < rb_height ex_roadmap_box + rb_y_padding ex_roadmap_box"
    by (simp add: ex_roadmap_box_def)
  let ?slides = "[ex_slide,
           \<lparr>title = ''Labs'', google_slide_id = ''slide-2'', product_category = ''Labs''\<rparr>]"
  let ?issues = "[ex_issue ''RM-1'' ''Search'' ''Q3'' False, ex_issue ''RM-2'' ''Search'' ''Q3'' False,
           ex_issue ''RM-3'' ''Labs'' ''Q3'' False, ex_issue ''RM-4'' ''Search'' ''Q3'' False]"
  let ?prog = "\<lambda>i. map (\<lambda>j. (lh_locy ex_left_header + lh_height ex_left_header)
                             + of_nat j * (rb_height ex_roadmap_box + rb_y_padding ex_roadmap_box))
                    [0..<length (filter (\<lambda>issue.
                         product_category (?slides ! i) \<in> set (product_categories issue)
                         \<and> jira_quarter issue \<in> set (jira_statuses (ex_columns ! 2))) ?issues)]"
  have v0: "?prog 0 = [90, 160, 230]"
    by (simp add: ex_slide_def ex_issue_def ex_columns_def ex_left_header_def
          ex_roadmap_box_def)
  have v1: "?prog 1 = [90]"
    by (simp add: ex_slide_def ex_issue_def ex_columns_def ex_left_header_def
          ex_roadmap_box_def)
  let ?sel = "\<lambda>i. filter (\<lambda>issue.
                         product_category (?slides ! i) \<in> set (product_categories issue)
                         \<and> jira_quarter issue \<in> set (jira_statuses (ex_columns ! 2))) ?issues"
  have w0: "zip (?sel 0) (?prog 0)
              = [(ex_issue ''RM-1'' ''Search'' ''Q3'' False, 90),
                 (ex_issue ''RM-2'' ''Search'' ''Q3'' False, 160),
                 (ex_issue ''RM-4'' ''Search'' ''Q3'' False, 230)]"
    unfolding v0 by (simp add: ex_slide_def ex_issue_def ex_columns_def)
  have w1: "zip (?sel 1) (?prog 1) = [(ex_issue ''RM-3'' ''Labs'' ''Q3'' False, 90)]"
    unfolding v1 by (simp add: ex_slide_def ex_issue_def ex_columns_def)
  have len: "length ?slides = 2" "(2::nat) < length ex_columns"
    by (simp_all add: ex_columns_def)
  from column_stacking_per_slide[OF h, of ex_U ?slides ?issues 0, THEN conjunct1]
  obtain ps cols' n' segs where run:
    "populate_roadmap_with_issues ex_U ?slides (ex_config ''components'') ?issues 0
       = Inr (ps, cols', n')"
    "ps = concat segs" "length segs = length ?slides"
    and stack: "\<And>i c. i < length ?slides \<Longrightarrow> c < length ex_columns \<Longrightarrow>
       map p_locy (filter (\<lambda>p. p_col_num p = c) (segs ! i))
         = map (\<lambda>j. (lh_locy ex_left_header + lh_height ex_left_header)
                      + of_nat j * (rb_height ex_roadmap_box + rb_y_padding ex_roadmap_box))
             [0..<length (filter (\<lambda>issue.
                  product_category (?slides ! i) \<in> set (product_categories issue)
                  \<and> jira_quarter issue \<in> set (jira_statuses (ex_columns ! c))) ?issues)]"
    and order: "\<And>i c. i < length ?slides \<Longrightarrow> c < length ex_columns \<Longrightarrow>
       map (\<lambda>p. (p_issue p, p_locy p)) (filter (\<lambda>p. p_col_num p = c) (segs ! i))
         = zip (filter (\<lambda>issue.
                  product_category (?slides ! i) \<in> set (product_categories issue)
                  \<and> jira_quarter issue \<in> set (jira_statuses (ex_columns ! c))) ?issues)
             (map (\<lambda>j. (lh_locy ex_left_header + lh_height ex_left_header)
                      + of_nat j * (rb_height ex_roadmap_box + rb_y_padding ex_roadmap_box))
                [0..<length (filter (\<lambda>issue.
                  product_category (?slides ! i) \<in> set (product_categories issue)
                  \<and> jira_quarter issue \<in> set (jira_statuses (ex_columns ! c))) ?issues)])"
    and strict: "\<And>i c. i < length ?slides \<Longrightarrow> c < length ex_columns
       \<Longrightarrow> 0 < rb_height ex_roadmap_box + rb_y_padding ex_roadmap_box
       \<Longrightarrow> sorted_wrt (<) (map p_locy (filter (\<lambda>p. p_col_num p = c) (segs ! i)))"
    by blast
  have o0: "map (\<lambda>p. (p_issue p, p_locy p)) (filter (\<lambda>p. p_col_num p = 2) (segs ! 0))
          = [(ex_issue ''RM-1'' ''Search'' ''Q3'' False, 90),
             (ex_issue ''RM-2'' ''Search'' ''Q3'' False, 160),
             (ex_issue ''RM-4'' ''Search'' ''Q3'' False, 230)]"
    using order[of 0 2] len unfolding w0 by simp
  have o1: "map (\<lambda>p. (p_issue p, p_locy p)) (filter (\<lambda>p. p_col_num p = 2) (segs ! 1))
          = [(ex_issue ''RM-3'' ''Labs'' ''Q3'' False, 90)]"
    using order[of 1 2] len unfolding w1 by simp
  have s0: "map p_locy (filter (\<lambda>p. p_col_num p = 2) (segs ! 0)) = [90, 160, 230]"
    using stack[of 0 2] len v0 by simp
  have s1: "map p_locy (filter (\<lambda>p. p_col_num p = 2) (segs ! 1)) = [90]"
    using stack[of 1 2] len v1 by simp
  have st: "sorted_wrt (<) (map p_locy (filter (\<lambda>p. p_col_num p = 2) (segs ! 0)))"
    using strict[of 0 2] len pos by simp
  from run len(1) have l2: "length segs = 2" by simp
  have "\<exists>ps cols' n' segs.
        populate_roadmap_with_issues ex_U ?slides (ex_config ''components'') ?issues 0
          = Inr (ps, cols', n')
      \<and> ps = concat segs \<and> length segs = 2
      \<and> map p_locy (filter (\<lambda>p. p_col_num p = 2) (segs ! 0)) = [90, 160, 230]
      \<and> sorted_wrt (<) (map p_locy (filter (\<lambda>p. p_col_num p = 2) (segs ! 0)))
      \<and> map p_locy (filter (\<lambda>p. p_col_num p = 2) (segs ! 1)) = [90]
      \<and> map (\<lambda>p. (p_issue p, p_locy p)) (filter (\<lambda>p. p_col_num p = 2) (segs ! 0))
          = [(ex_issue ''RM-1'' ''Search'' ''Q3'' False, 90),
             (ex_issue ''RM-2'' ''Search'' ''Q3'' False, 160),
             (ex_issue ''RM-4'' ''Search'' ''Q3'' False, 230)]
      \<and> map (\<lambda>p. (p_issue p, p_locy p)) (filter (\<lambda>p. p_col_num p = 2) (segs ! 1))
          = [(ex_issue ''RM-3'' ''Labs'' ''Q3'' False, 90)]"
    by (intro exI[of _ ps] exI[of _ cols'] exI[of _ n'] exI[of _ segs] conjI)
       (fact run(1) run(2) l2 s0 st s1 o0 o1)+
  with h pos show ?thesis by (intro conjI)
qed

text \<open>
  Claim C2 as the specification words it calls the y-offsets of one column strictly
  increasing. With a height of \<open>10\<close> and a \<open>y_padding\<close> of \<open>-10\<close> the step is zero: two
  issues placed into the same column of the same slide get the same y.
\<close>

theorem zero_step_stacks_at_same_y:
  "map_sum id (map p_page_id \<circ> fst)
     (populate_roadmap_with_issues ex_U [ex_slide]
        ((ex_config ''components'')
           \<lparr>roadmap_box := Some (ex_roadmap_box\<lparr>rb_height := 10, rb_y_padding := - 10\<rparr>)\<rparr>)
        [ex_issue ''RM-1'' ''Search'' ''Q3'' False, ex_issue ''RM-2'' ''Search'' ''Q3'' False] 0)
     = Inr [''slide-1'', ''slide-1'']
   \<and> map_sum id (map p_col_num \<circ> fst)
     (populate_roadmap_with_issues ex_U [ex_slide]
        ((ex_config ''components'')
           \<lparr>roadmap_box := Some (ex_roadmap_box\<lparr>rb_height := 10, rb_y_padding := - 10\<rparr>)\<rparr>)
        [ex_issue ''RM-1'' ''Search'' ''Q3'' False, ex_issue ''RM-2'' ''Search'' ''Q3'' False] 0)
     = Inr [2, 2]
   \<and> map_sum id (map p_locy \<circ> fst)
     (populate_roadmap_with_issues ex_U [ex_slide]
        ((ex_config ''components'')
           \<lparr>roadmap_box := Some (ex_roadmap_box\<lparr>rb_height := 10, rb_y_padding := - 10\<rparr>)\<rparr>)
        [ex_issue ''RM-1'' ''Search'' ''Q3'' False, ex_issue ''RM-2'' ''Search'' ''Q3'' False] 0)
     = Inr [90, 90]"
  by (simp add: populate_roadmap_with_issues_def dict_get_def ex_config_def ex_columns_def
        ex_slide_def ex_issue_def ex_roadmap_box_def ex_left_header_def Let_def case_prod_beta)

end
